theory Spec2Isabelle
  imports Complex_Main "HOL-Library.Word"
begin

section \<open>GPS L1 C/A DLL + PLL tracking block\<close>

text \<open>
  A shallow embedding of \<^verbatim>\<open>gps_l1_ca_dll_pll_tracking_cc.cc\<close>: the constructor,
  \<^verbatim>\<open>start_tracking\<close>, \<^verbatim>\<open>update_local_code\<close> and \<^verbatim>\<open>general_work\<close>.

  Conventions of the model.
  \<^item> A \<^verbatim>\<open>double\<close> or \<^verbatim>\<open>float\<close> is a \<open>real\<close>: rounding error and infinities are
    not modelled. NaN is modelled where the code tests for it, in the correlator
    outputs (type \<open>fl\<close>).
  \<^item> \<^verbatim>\<open>unsigned long d_sample_counter\<close> is a \<open>64 word\<close>; the 64-bit fixed-point
    code phases are \<open>64 word\<close>s read through \<open>sint\<close>. The \<^verbatim>\<open>int\<close> and \<^verbatim>\<open>long\<close>
    members are \<open>int\<close>s, the counters that are only incremented, decremented above
    zero and reset are \<open>nat\<close>s.
  \<^item> A read outside an array is undefined behaviour in C++; here the function returns
    \<open>None\<close>.
  \<^item> Functions of headers that are not part of the file (\<^verbatim>\<open>fxpt64.h\<close>, the
    correlator, the discriminators, the loop filters, the lock detectors, the code
    generator) are the fields of a record \<open>components\<close> that the operations take as
    their first argument: every theorem holds for all of them.
  \<^item> Logging and the optional dump file write no member variable and are left out.
\<close>

subsection \<open>Numbers\<close>

text \<open>\<^verbatim>\<open>trunc\<close>, \<^verbatim>\<open>round\<close> (halves away from zero) and \<^verbatim>\<open>fmod\<close> (the result has
  the sign of the dividend) of the C library.\<close>

definition c_trunc :: "real \<Rightarrow> int" where
  "c_trunc x = (if 0 \<le> x then \<lfloor>x\<rfloor> else \<lceil>x\<rceil>)"

definition c_round :: "real \<Rightarrow> int" where
  "c_round x = (if 0 \<le> x then \<lfloor>x + 1 / 2\<rfloor> else \<lceil>x - 1 / 2\<rceil>)"

definition c_fmod :: "real \<Rightarrow> real \<Rightarrow> real" where
  "c_fmod x y = x - real_of_int (c_trunc (x / y)) * y"

text \<open>A single-precision value that may be NaN, and \<^verbatim>\<open>gr_complex\<close>.\<close>

datatype fl = NaN | Fin real

type_synonym gr_complex = "fl \<times> fl"

fun isnan :: "fl \<Rightarrow> bool" where
  "isnan NaN = True"
| "isnan (Fin x) = False"

text \<open>\<^verbatim>\<open>static_cast<double>\<close> of a component that is known not to be NaN.\<close>

fun fl_to_double :: "fl \<Rightarrow> real" where
  "fl_to_double (Fin x) = x"
| "fl_to_double NaN = 0"

subsection \<open>Constants\<close>

text \<open>The four macros at the head of the file.\<close>

definition CN0_ESTIMATION_SAMPLES :: nat where
  "CN0_ESTIMATION_SAMPLES = 20"

definition MINIMUM_VALID_CN0 :: real where
  "MINIMUM_VALID_CN0 = 25"

definition MAXIMUM_LOCK_FAIL_COUNTER :: nat where
  "MAXIMUM_LOCK_FAIL_COUNTER = 50"

definition CARRIER_LOCK_THRESHOLD :: real where
  "CARRIER_LOCK_THRESHOLD = 85 / 100"

text \<open>Modelled from the spec: the constants of \<^verbatim>\<open>GPS_L1_CA.h\<close>, which is not part
  of the file: a code of 1023 chips at 1.023 Mchip/s, hence a period of one
  millisecond, on the L1 carrier of 1575.42 MHz.\<close>

definition GPS_L1_CA_CODE_LENGTH_CHIPS :: real where
  "GPS_L1_CA_CODE_LENGTH_CHIPS = 1023"

definition GPS_L1_CA_CODE_RATE_HZ :: real where
  "GPS_L1_CA_CODE_RATE_HZ = 1023000"

definition GPS_L1_CA_CODE_PERIOD :: real where
  "GPS_L1_CA_CODE_PERIOD = 1 / 1000"

definition GPS_L1_FREQ_HZ :: real where
  "GPS_L1_FREQ_HZ = 1575420000"

definition GPS_TWO_PI :: real where
  "GPS_TWO_PI = 2 * pi"

subsection \<open>Data\<close>

text \<open>Modelled from the spec: \<^verbatim>\<open>Gnss_Synchro\<close> (\<^verbatim>\<open>gnss_synchro.h\<close> is not part of the
  file), with the members that the file reads or writes.\<close>

record Gnss_Synchro =
  System :: char
  PRN :: nat
  Acq_delay_samples :: real
  Acq_doppler_hz :: real
  Acq_samplestamp_samples :: "64 word"
  Prompt_I :: real
  Prompt_Q :: real
  Tracking_timestamp_secs :: real
  Carrier_phase_rads :: real
  Code_phase_secs :: real
  Carrier_Doppler_hz :: real
  CN0_dB_hz :: real
  Flag_valid_tracking :: bool
  Flag_valid_pseudorange :: bool

text \<open>Modelled from the spec: the value of \<^verbatim>\<open>Gnss_Synchro()\<close>, a zero-valued
  record.\<close>

definition Gnss_Synchro_init :: Gnss_Synchro where
  "Gnss_Synchro_init =
     \<lparr>System = CHR 0x00, PRN = 0, Acq_delay_samples = 0, Acq_doppler_hz = 0,
      Acq_samplestamp_samples = 0, Prompt_I = 0, Prompt_Q = 0,
      Tracking_timestamp_secs = 0, Carrier_phase_rads = 0, Code_phase_secs = 0,
      Carrier_Doppler_hz = 0, CN0_dB_hz = 0, Flag_valid_tracking = False,
      Flag_valid_pseudorange = False\<rparr>"

text \<open>The message that \<^verbatim>\<open>ControlMessageFactory::GetQueueMessage(who, what)\<close> builds;
  \<open>what = 2\<close> reports a loss of lock.\<close>

datatype control_message = QueueMessage nat nat

text \<open>The functions of the other headers. \<open>'pf\<close> and \<open>'df\<close> are the states of the
  carrier and of the code loop filter. The two bandwidth setters, which the
  constructor calls on its arguments, return \<open>None\<close> where the setter throws.\<close>

record ('pf, 'df) components =
  double_to_fxpt64 :: "real \<Rightarrow> 64 word"
  gps_l1_ca_code_gen_complex :: "nat \<Rightarrow> nat \<Rightarrow> gr_complex list"
  Carrier_rotate_and_EPL_volk ::
    "int \<Rightarrow> gr_complex list \<Rightarrow> gr_complex \<Rightarrow> gr_complex \<Rightarrow>
     gr_complex list \<Rightarrow> gr_complex list \<Rightarrow> gr_complex list \<Rightarrow>
     gr_complex \<times> gr_complex \<times> gr_complex"
  pll_cloop_two_quadrant_atan :: "gr_complex \<Rightarrow> real"
  dll_nc_e_minus_l_normalized :: "gr_complex \<Rightarrow> gr_complex \<Rightarrow> real"
  new_PLL_filter :: "'pf"
  set_PLL_BW :: "'pf \<Rightarrow> real \<Rightarrow> 'pf option"
  initialize_PLL :: "'pf \<Rightarrow> real \<Rightarrow> 'pf"
  get_carrier_nco :: "'pf \<Rightarrow> real \<Rightarrow> real \<times> 'pf"
  new_DLL_filter :: "'df"
  set_DLL_BW :: "'df \<Rightarrow> real \<Rightarrow> 'df option"
  initialize_DLL :: "'df \<Rightarrow> real \<Rightarrow> 'df"
  get_code_nco :: "'df \<Rightarrow> real \<Rightarrow> real \<times> 'df"
  cn0_svn_estimator :: "gr_complex list \<Rightarrow> nat \<Rightarrow> int \<Rightarrow> real \<Rightarrow> real"
  carrier_lock_detector :: "gr_complex list \<Rightarrow> nat \<Rightarrow> real"

text \<open>The member variables of \<^verbatim>\<open>Gps_L1_Ca_Dll_Pll_Tracking_cc\<close>. \<open>d_queue\<close> is
  \<open>None\<close> for a null queue pointer and otherwise holds the messages handed to the
  queue so far.\<close>

record ('pf, 'df) tracking_cc =
  d_queue :: "control_message list option"
  d_dump :: bool
  d_if_freq :: int
  d_fs_in :: int
  d_vector_length :: "32 word"
  d_dump_filename :: string
  d_code_loop_filter :: 'df
  d_carrier_loop_filter :: 'pf
  d_carrier_aiding_enabled :: bool
  d_early_late_spc_chips :: real
  d_ca_code :: "gr_complex list"
  d_early_code :: "gr_complex list"
  d_prompt_code :: "gr_complex list"
  d_late_code :: "gr_complex list"
  d_Early :: gr_complex
  d_Prompt :: gr_complex
  d_Late :: gr_complex
  d_code_freq_chips :: real
  d_rem_code_phase_samples :: real
  d_rem_carr_phase_rad :: real
  d_sample_counter :: "64 word"
  d_acq_sample_stamp :: "64 word"
  d_enable_tracking :: bool
  d_pull_in :: bool
  d_last_seg :: int
  d_current_prn_length_samples :: int
  d_cn0_estimation_counter :: nat
  d_Prompt_buffer :: "gr_complex list"
  d_carrier_lock_test :: real
  d_CN0_SNV_dB_Hz :: real
  d_carrier_lock_fail_counter :: nat
  d_carrier_lock_threshold :: real
  d_channel :: nat
  d_acq_code_phase_samples :: real
  d_acq_carrier_doppler_hz :: real
  d_carrier_doppler_hz :: real
  d_acc_carrier_phase_rad :: real
  d_code_phase_samples :: real
  d_code_phase_chips :: real
  d_carrier_phase_rad :: real
  d_acc_code_phase_secs :: real

subsection \<open>The constructor\<close>

text \<open>The only way a construction could be rejected is by an error value, so the
  constructor returns a sum. The source has no \<^verbatim>\<open>throw\<close>, no handler and no test of
  its arguments: it stores them and initialises the other members, and it fails
  only where one of the two bandwidth setters that it calls throws (the code loop
  filter is set first).

  \<^verbatim>\<open>vector_length\<close> is an \<^verbatim>\<open>unsigned int\<close>, a \<open>32 word\<close>. The three replica buffers
  have \<^verbatim>\<open>2 * d_vector_length\<close> elements, a product of 32-bit unsigned arithmetic,
  and the first block length is \<^verbatim>\<open>static_cast<int>(d_vector_length)\<close>, the signed
  reading of the same 32 bits: it is negative from \<open>2 ^ 31\<close> on.

  The buffers that \<^verbatim>\<open>volk_malloc\<close> returns uninitialised, and the two members that
  the constructor does not assign (\<open>d_code_phase_chips\<close>, \<open>d_carrier_phase_rad\<close>),
  are filled with zeros here.\<close>

datatype tracking_error = Configuration_error

definition gr_zero :: gr_complex where
  "gr_zero = (Fin 0, Fin 0)"

definition Gps_L1_Ca_Dll_Pll_Tracking_cc ::
  "('pf, 'df) components \<Rightarrow> int \<Rightarrow> int \<Rightarrow> 32 word \<Rightarrow> control_message list option \<Rightarrow>
   bool \<Rightarrow> string \<Rightarrow> real \<Rightarrow> real \<Rightarrow> real \<Rightarrow> tracking_error + ('pf, 'df) tracking_cc"
where
  "Gps_L1_Ca_Dll_Pll_Tracking_cc ext if_freq fs_in vector_length queue dump dump_filename
     pll_bw_hz dll_bw_hz early_late_space_chips =
   (case set_DLL_BW ext (new_DLL_filter ext) dll_bw_hz of
      None \<Rightarrow> Inl Configuration_error
    | Some code_loop_filter \<Rightarrow>
   (case set_PLL_BW ext (new_PLL_filter ext) pll_bw_hz of
      None \<Rightarrow> Inl Configuration_error
    | Some carrier_loop_filter \<Rightarrow>
   Inr \<lparr>d_queue = queue,
        d_dump = dump,
        d_if_freq = if_freq,
        d_fs_in = fs_in,
        d_vector_length = vector_length,
        d_dump_filename = dump_filename,
        d_code_loop_filter = code_loop_filter,
        d_carrier_loop_filter = carrier_loop_filter,
        d_carrier_aiding_enabled = True,
        d_early_late_spc_chips = early_late_space_chips,
        d_ca_code = replicate (nat \<lfloor>GPS_L1_CA_CODE_LENGTH_CHIPS + 2\<rfloor>) gr_zero,
        d_early_code = replicate (unat (2 * vector_length)) gr_zero,
        d_prompt_code = replicate (unat (2 * vector_length)) gr_zero,
        d_late_code = replicate (unat (2 * vector_length)) gr_zero,
        d_Early = gr_zero,
        d_Prompt = gr_zero,
        d_Late = gr_zero,
        d_code_freq_chips = GPS_L1_CA_CODE_RATE_HZ,
        d_rem_code_phase_samples = 0,
        d_rem_carr_phase_rad = 0,
        d_sample_counter = 0,
        d_acq_sample_stamp = 0,
        d_enable_tracking = False,
        d_pull_in = False,
        d_last_seg = 0,
        d_current_prn_length_samples = sint vector_length,
        d_cn0_estimation_counter = 0,
        d_Prompt_buffer = replicate CN0_ESTIMATION_SAMPLES gr_zero,
        d_carrier_lock_test = 1,
        d_CN0_SNV_dB_Hz = 0,
        d_carrier_lock_fail_counter = 0,
        d_carrier_lock_threshold = CARRIER_LOCK_THRESHOLD,
        d_channel = 0,
        d_acq_code_phase_samples = 0,
        d_acq_carrier_doppler_hz = 0,
        d_carrier_doppler_hz = 0,
        d_acc_carrier_phase_rad = 0,
        d_code_phase_samples = 0,
        d_code_phase_chips = 0,
        d_carrier_phase_rad = 0,
        d_acc_code_phase_secs = 0\<rparr>))"

subsection \<open>\<^verbatim>\<open>start_tracking\<close>\<close>

text \<open>The argument \<open>acq\<close> is the record that \<open>d_acquisition_gnss_synchro\<close> points
  to. The generated code is written to the entries 1 to 1023 of the table; entry 0
  repeats the last chip and entry 1024 the first.\<close>

definition start_tracking ::
  "('pf, 'df) components \<Rightarrow> Gnss_Synchro \<Rightarrow> ('pf, 'df) tracking_cc \<Rightarrow> ('pf, 'df) tracking_cc"
where
  "start_tracking ext acq s =
    (let acq_code_phase_samples = Acq_delay_samples acq;
         acq_carrier_doppler_hz = Acq_doppler_hz acq;
         acq_sample_stamp = Acq_samplestamp_samples acq;
         acq_trk_diff_samples = sint (d_sample_counter s - acq_sample_stamp);
         acq_trk_diff_seconds = real_of_int acq_trk_diff_samples / real_of_int (d_fs_in s);
         radial_velocity = (GPS_L1_FREQ_HZ + acq_carrier_doppler_hz) / GPS_L1_FREQ_HZ;
         code_freq_chips = radial_velocity * GPS_L1_CA_CODE_RATE_HZ;
         T_chip_mod_seconds = 1 / code_freq_chips;
         T_prn_mod_seconds = T_chip_mod_seconds * GPS_L1_CA_CODE_LENGTH_CHIPS;
         T_prn_mod_samples = T_prn_mod_seconds * real_of_int (d_fs_in s);
         T_prn_true_seconds = GPS_L1_CA_CODE_LENGTH_CHIPS / GPS_L1_CA_CODE_RATE_HZ;
         T_prn_true_samples = T_prn_true_seconds * real_of_int (d_fs_in s);
         T_prn_diff_seconds = T_prn_true_seconds - T_prn_mod_seconds;
         N_prn_diff = acq_trk_diff_seconds / T_prn_true_seconds;
         corrected0 = c_fmod (acq_code_phase_samples
                        + T_prn_diff_seconds * N_prn_diff * real_of_int (d_fs_in s))
                        T_prn_true_samples;
         corrected_acq_phase_samples =
           (if corrected0 < 0 then T_prn_mod_samples + corrected0 else corrected0);
         code1023 = take 1023 (gps_l1_ca_code_gen_complex ext (PRN acq) 0);
         ca1 = take 1 (d_ca_code s) @ code1023 @ drop (1 + length code1023) (d_ca_code s);
         ca2 = ca1[0 := ca1 ! 1023];
         ca3 = ca2[1024 := ca2 ! 1]
     in s\<lparr>d_acq_code_phase_samples := corrected_acq_phase_samples,
          d_acq_carrier_doppler_hz := acq_carrier_doppler_hz,
          d_acq_sample_stamp := acq_sample_stamp,
          d_current_prn_length_samples := c_round T_prn_mod_samples,
          d_carrier_doppler_hz := acq_carrier_doppler_hz,
          d_code_freq_chips := GPS_L1_CA_CODE_RATE_HZ
             + (acq_carrier_doppler_hz * GPS_L1_CA_CODE_RATE_HZ) / GPS_L1_FREQ_HZ,
          d_code_phase_chips := corrected_acq_phase_samples * GPS_L1_CA_CODE_RATE_HZ
             / real_of_int (d_fs_in s),
          d_carrier_loop_filter :=
             initialize_PLL ext (d_carrier_loop_filter s) acq_carrier_doppler_hz,
          d_code_loop_filter :=
             (if d_carrier_aiding_enabled s
              then initialize_DLL ext (d_code_loop_filter s) 0
              else initialize_DLL ext (d_code_loop_filter s)
                     (acq_carrier_doppler_hz * GPS_L1_CA_CODE_RATE_HZ / GPS_L1_FREQ_HZ)),
          d_ca_code := ca3,
          d_carrier_lock_fail_counter := 0,
          d_rem_code_phase_samples := 0,
          d_rem_carr_phase_rad := 0,
          d_acc_carrier_phase_rad := 0,
          d_acc_code_phase_secs := 0,
          d_code_phase_samples := corrected_acq_phase_samples,
          d_pull_in := True,
          d_enable_tracking := True\<rparr>)"

subsection \<open>\<^verbatim>\<open>update_local_code\<close>\<close>

text \<open>\<open>ca_code_at tbl i\<close> is the read \<^verbatim>\<open>d_ca_code[i]\<close>: the index is used as it
  is, and a read outside the table has no value.\<close>

definition ca_code_at :: "'a list \<Rightarrow> int \<Rightarrow> 'a option" where
  "ca_code_at tbl i = (if 0 \<le> i \<and> i < int (length tbl) then Some (tbl ! nat i) else None)"

text \<open>The integer chip of a fixed-point phase, \<^verbatim>\<open>phase_fxp >> 32\<close> on an
  \<^verbatim>\<open>int64_t\<close>.\<close>

definition chip_of_fxp :: "64 word \<Rightarrow> int" where
  "chip_of_fxp w = sint (signed_drop_bit 32 w)"

text \<open>The loop over the samples of the block: \<open>k\<close> samples remain, \<open>e\<close>, \<open>p\<close> and
  \<open>l\<close> are the three fixed-point phases. The additions wrap around.\<close>

fun epl_loop ::
  "'a list \<Rightarrow> 64 word \<Rightarrow> nat \<Rightarrow> 64 word \<Rightarrow> 64 word \<Rightarrow> 64 word \<Rightarrow>
   ('a list \<times> 'a list \<times> 'a list) option"
where
  "epl_loop tbl stp 0 e p l = Some ([], [], [])"
| "epl_loop tbl stp (Suc k) e p l =
     (case ca_code_at tbl (1 + chip_of_fxp e) of None \<Rightarrow> None | Some ve \<Rightarrow>
      (case ca_code_at tbl (1 + chip_of_fxp p) of None \<Rightarrow> None | Some vp \<Rightarrow>
       (case ca_code_at tbl (1 + chip_of_fxp l) of None \<Rightarrow> None | Some vl \<Rightarrow>
        (case epl_loop tbl stp k (e + stp) (p + stp) (l + stp) of None \<Rightarrow> None
         | Some (es, ps, ls) \<Rightarrow> Some (ve # es, vp # ps, vl # ls)))))"

text \<open>The three starting phases and the step of a block.\<close>

definition tcode_chips :: "('pf, 'df) tracking_cc \<Rightarrow> real" where
  "tcode_chips s =
     - (d_rem_code_phase_samples s * (d_code_freq_chips s / real_of_int (d_fs_in s)))"

definition prompt_code_phase_fxp :: "('pf, 'df) components \<Rightarrow> ('pf, 'df) tracking_cc \<Rightarrow> 64 word" where
  "prompt_code_phase_fxp ext s = double_to_fxpt64 ext (tcode_chips s)"

definition early_code_phase_fxp :: "('pf, 'df) components \<Rightarrow> ('pf, 'df) tracking_cc \<Rightarrow> 64 word" where
  "early_code_phase_fxp ext s = double_to_fxpt64 ext (tcode_chips s + d_early_late_spc_chips s)"

definition late_code_phase_fxp :: "('pf, 'df) components \<Rightarrow> ('pf, 'df) tracking_cc \<Rightarrow> 64 word" where
  "late_code_phase_fxp ext s = double_to_fxpt64 ext (tcode_chips s - d_early_late_spc_chips s)"

definition code_phase_step_fxp :: "('pf, 'df) components \<Rightarrow> ('pf, 'df) tracking_cc \<Rightarrow> 64 word" where
  "code_phase_step_fxp ext s =
     double_to_fxpt64 ext (d_code_freq_chips s / real_of_int (d_fs_in s))"

text \<open>The replicas are written to the first \<open>d_current_prn_length_samples\<close> entries
  of the three buffers; a block longer than a buffer writes outside it.\<close>

definition update_local_code ::
  "('pf, 'df) components \<Rightarrow> ('pf, 'df) tracking_cc \<Rightarrow> ('pf, 'df) tracking_cc option"
where
  "update_local_code ext s =
    (let n = nat (d_current_prn_length_samples s)
     in if length (d_early_code s) < n \<or> length (d_prompt_code s) < n
           \<or> length (d_late_code s) < n then None
        else
          (case epl_loop (d_ca_code s) (code_phase_step_fxp ext s) n
                  (early_code_phase_fxp ext s) (prompt_code_phase_fxp ext s)
                  (late_code_phase_fxp ext s) of
             None \<Rightarrow> None
           | Some (es, ps, ls) \<Rightarrow>
               Some (s\<lparr>d_early_code := es @ drop n (d_early_code s),
                       d_prompt_code := ps @ drop n (d_prompt_code s),
                       d_late_code := ls @ drop n (d_late_code s)\<rparr>)))"

text \<open>The integer chips that the loop reads for sample \<open>i\<close> of the block: the
  starting phase plus \<open>i\<close> steps, shifted right by 32.\<close>

definition early_chip_at ::
  "('pf, 'df) components \<Rightarrow> ('pf, 'df) tracking_cc \<Rightarrow> nat \<Rightarrow> int" where
  "early_chip_at ext s i =
     chip_of_fxp (early_code_phase_fxp ext s + of_nat i * code_phase_step_fxp ext s)"

definition prompt_chip_at ::
  "('pf, 'df) components \<Rightarrow> ('pf, 'df) tracking_cc \<Rightarrow> nat \<Rightarrow> int" where
  "prompt_chip_at ext s i =
     chip_of_fxp (prompt_code_phase_fxp ext s + of_nat i * code_phase_step_fxp ext s)"

definition late_chip_at ::
  "('pf, 'df) components \<Rightarrow> ('pf, 'df) tracking_cc \<Rightarrow> nat \<Rightarrow> int" where
  "late_chip_at ext s i =
     chip_of_fxp (late_code_phase_fxp ext s + of_nat i * code_phase_step_fxp ext s)"

subsection \<open>\<^verbatim>\<open>general_work\<close>\<close>

text \<open>What one call receives: the two item counts, the input samples, and the
  record that \<open>d_acquisition_gnss_synchro\<close> points to at the time of the call.\<close>

record work_items =
  noutput_items :: int
  ninput_items :: int
  input_items :: "gr_complex list"
  acquisition_gnss_synchro :: Gnss_Synchro

text \<open>What one call leaves: the members, the record written to \<^verbatim>\<open>*out[0]\<close>, the
  argument of \<^verbatim>\<open>consume_each\<close> and the returned number of output items.\<close>

record ('pf, 'df) work_done =
  state_after :: "('pf, 'df) tracking_cc"
  out0 :: Gnss_Synchro
  consumed :: int
  returned :: int

text \<open>Receiver signal alignment, the block that follows \<^verbatim>\<open>start_tracking\<close>.\<close>

definition pull_in_alignment ::
  "work_items \<Rightarrow> ('pf, 'df) tracking_cc \<Rightarrow> ('pf, 'df) work_done"
where
  "pull_in_alignment inp s =
    (let acq_to_trk_delay_samples =
           sint (ucast (d_sample_counter s - d_acq_sample_stamp s) :: 32 word);
         acq_trk_shif_correction_samples =
           real_of_int (d_current_prn_length_samples s)
           - c_fmod (real_of_int acq_to_trk_delay_samples)
               (real_of_int (d_current_prn_length_samples s));
         samples_offset =
           c_round (d_acq_code_phase_samples s + acq_trk_shif_correction_samples)
     in \<lparr>state_after = s\<lparr>d_sample_counter := d_sample_counter s + word_of_int samples_offset,
                          d_pull_in := False,
                          d_code_phase_chips := 0,
                          d_rem_code_phase_samples := 0\<rparr>,
         out0 = acquisition_gnss_synchro inp,
         consumed = samples_offset,
         returned = 1\<rparr>)"

text \<open>Carrier rotation and the Early, Prompt and Late correlations.\<close>

definition correlate ::
  "('pf, 'df) components \<Rightarrow> work_items \<Rightarrow> ('pf, 'df) tracking_cc \<Rightarrow> ('pf, 'df) tracking_cc"
where
  "correlate ext inp s =
    (let phase_as_complex =
           (Fin (cos (d_rem_carr_phase_rad s)), Fin (- sin (d_rem_carr_phase_rad s)));
         carrier_doppler_inc_rad =
           2 * pi * (real_of_int (d_if_freq s) + d_carrier_doppler_hz s)
             / real_of_int (d_fs_in s);
         phase_inc_as_complex =
           (Fin (cos carrier_doppler_inc_rad), Fin (- sin carrier_doppler_inc_rad));
         epl = Carrier_rotate_and_EPL_volk ext (d_current_prn_length_samples s)
                 (input_items inp) phase_as_complex phase_inc_as_complex
                 (d_early_code s) (d_prompt_code s) (d_late_code s)
     in s\<lparr>d_Early := fst epl, d_Prompt := fst (snd epl), d_Late := snd (snd epl)\<rparr>)"

text \<open>``Now update the code and carrier phase estimates'': the absolute code phase,
  and the remainder recomputed from it.\<close>

definition update_phase_estimates :: "('pf, 'df) tracking_cc \<Rightarrow> ('pf, 'df) tracking_cc" where
  "update_phase_estimates s =
    (let T = real_of_int (d_current_prn_length_samples s) / real_of_int (d_fs_in s);
         code_phase_chips =
           c_fmod (d_code_phase_chips s + T * d_code_freq_chips s) GPS_L1_CA_CODE_LENGTH_CHIPS;
         rem0 = GPS_L1_CA_CODE_LENGTH_CHIPS - code_phase_chips;
         rem_code_phase_chips =
           (if rem0 > GPS_L1_CA_CODE_LENGTH_CHIPS / 2
            then rem0 - GPS_L1_CA_CODE_LENGTH_CHIPS else rem0)
     in s\<lparr>d_code_phase_chips := code_phase_chips,
          d_carrier_phase_rad := d_carrier_phase_rad s + T * 2 * pi * d_carrier_doppler_hz s,
          d_rem_code_phase_samples :=
            rem_code_phase_chips * real_of_int (d_fs_in s) / GPS_L1_CA_CODE_RATE_HZ\<rparr>)"

text \<open>The branch taken when the Prompt correlation is NaN.\<close>

definition nan_samples ::
  "work_items \<Rightarrow> ('pf, 'df) tracking_cc \<Rightarrow> ('pf, 'df) work_done"
where
  "nan_samples inp s =
    (let samples_available = ninput_items inp;
         sample_counter = d_sample_counter s + word_of_int samples_available
     in \<lparr>state_after = s\<lparr>d_sample_counter := sample_counter\<rparr>,
         out0 = (acquisition_gnss_synchro inp)
                  \<lparr>Prompt_I := 0,
                   Prompt_Q := 0,
                   Tracking_timestamp_secs :=
                     real (unat sample_counter) / real_of_int (d_fs_in s),
                   Carrier_phase_rads := 0,
                   Code_phase_secs := 0,
                   CN0_dB_hz := 0,
                   Flag_valid_tracking := False,
                   Flag_valid_pseudorange := False\<rparr>,
         consumed = samples_available,
         returned = 1\<rparr>)"

text \<open>The samples of the block are counted, then the PLL: discriminator, carrier
  filter, the new Doppler and code frequencies, the accumulated and the remanent
  carrier phase.\<close>

definition pll_update ::
  "('pf, 'df) components \<Rightarrow> ('pf, 'df) tracking_cc \<Rightarrow> ('pf, 'df) tracking_cc"
where
  "pll_update ext s =
    (let carr_error_hz = pll_cloop_two_quadrant_atan ext (d_Prompt s) / GPS_TWO_PI;
         nco = get_carrier_nco ext (d_carrier_loop_filter s) carr_error_hz;
         carr_error_filt_hz = fst nco
     in s\<lparr>d_sample_counter :=
            d_sample_counter s + word_of_int (d_current_prn_length_samples s),
          d_carrier_loop_filter := snd nco,
          d_carrier_doppler_hz := carr_error_filt_hz,
          d_code_freq_chips :=
            (if d_carrier_aiding_enabled s
             then GPS_L1_CA_CODE_RATE_HZ
                    + (carr_error_filt_hz * GPS_L1_CA_CODE_RATE_HZ) / GPS_L1_FREQ_HZ
             else GPS_L1_CA_CODE_RATE_HZ),
          d_acc_carrier_phase_rad :=
            d_acc_carrier_phase_rad s - GPS_TWO_PI * carr_error_filt_hz * GPS_L1_CA_CODE_PERIOD,
          d_rem_carr_phase_rad :=
            c_fmod (d_rem_carr_phase_rad s
                     + GPS_TWO_PI * (real_of_int (d_if_freq s) + carr_error_filt_hz)
                         * GPS_L1_CA_CODE_PERIOD)
                   GPS_TWO_PI\<rparr>)"

text \<open>The DLL: discriminator, code filter, code frequency and code phase
  accumulator.\<close>

definition dll_update ::
  "('pf, 'df) components \<Rightarrow> ('pf, 'df) tracking_cc \<Rightarrow> ('pf, 'df) tracking_cc"
where
  "dll_update ext s =
    (let code_error_chips =
           dll_nc_e_minus_l_normalized ext (d_Early s) (d_Late s)
             * (1 - d_early_late_spc_chips s);
         nco = get_code_nco ext (d_code_loop_filter s) code_error_chips;
         code_error_filt_chips = fst nco;
         code_error_filt_secs =
           (GPS_L1_CA_CODE_PERIOD * code_error_filt_chips) / GPS_L1_CA_CODE_RATE_HZ
     in s\<lparr>d_code_loop_filter := snd nco,
          d_code_freq_chips := d_code_freq_chips s + code_error_filt_chips,
          d_acc_code_phase_secs := d_acc_code_phase_secs s + code_error_filt_secs\<rparr>)"

text \<open>Carrier and code NCO buffer alignment: the length of the next block.\<close>

definition T_prn_samples :: "('pf, 'df) tracking_cc \<Rightarrow> real" where
  "T_prn_samples s =
     (1 / d_code_freq_chips s) * GPS_L1_CA_CODE_LENGTH_CHIPS * real_of_int (d_fs_in s)"

definition next_prn_length_samples :: "('pf, 'df) tracking_cc \<Rightarrow> int" where
  "next_prn_length_samples s = c_round (T_prn_samples s + d_rem_code_phase_samples s)"

text \<open>C/N0 estimation and lock detectors. Below \<open>CN0_ESTIMATION_SAMPLES\<close> the Prompt
  value is stored; otherwise the two estimators run on the buffer, the failure
  counter moves, and above \<open>MAXIMUM_LOCK_FAIL_COUNTER\<close> a message goes to the queue (if
  there is one) and tracking stops.\<close>

definition cn0_and_lock_detectors ::
  "('pf, 'df) components \<Rightarrow> ('pf, 'df) tracking_cc \<Rightarrow> ('pf, 'df) tracking_cc"
where
  "cn0_and_lock_detectors ext s =
    (if d_cn0_estimation_counter s < CN0_ESTIMATION_SAMPLES
     then s\<lparr>d_Prompt_buffer := (d_Prompt_buffer s)[d_cn0_estimation_counter s := d_Prompt s],
            d_cn0_estimation_counter := d_cn0_estimation_counter s + 1\<rparr>
     else
      (let cn0 = cn0_svn_estimator ext (d_Prompt_buffer s) CN0_ESTIMATION_SAMPLES
                   (d_fs_in s) GPS_L1_CA_CODE_LENGTH_CHIPS;
           lock_test = carrier_lock_detector ext (d_Prompt_buffer s) CN0_ESTIMATION_SAMPLES;
           fail_counter =
             (if lock_test < d_carrier_lock_threshold s \<or> cn0 < MINIMUM_VALID_CN0
              then d_carrier_lock_fail_counter s + 1
              else if d_carrier_lock_fail_counter s > 0
                   then d_carrier_lock_fail_counter s - 1
                   else d_carrier_lock_fail_counter s);
           s1 = s\<lparr>d_cn0_estimation_counter := 0,
                  d_CN0_SNV_dB_Hz := cn0,
                  d_carrier_lock_test := lock_test,
                  d_carrier_lock_fail_counter := fail_counter\<rparr>
       in if fail_counter > MAXIMUM_LOCK_FAIL_COUNTER
          then s1\<lparr>d_queue :=
                    (case d_queue s of None \<Rightarrow> None
                     | Some q \<Rightarrow> Some (q @ [QueueMessage (d_channel s) 2])),
                  d_carrier_lock_fail_counter := 0,
                  d_enable_tracking := False\<rparr>
          else s1))"

text \<open>The record sent to the telemetry decoder after a tracking block.\<close>

definition tracking_output :: "work_items \<Rightarrow> ('pf, 'df) tracking_cc \<Rightarrow> Gnss_Synchro" where
  "tracking_output inp s =
     (acquisition_gnss_synchro inp)
       \<lparr>Prompt_I := fl_to_double (fst (d_Prompt s)),
        Prompt_Q := fl_to_double (snd (d_Prompt s)),
        Tracking_timestamp_secs :=
          (real (unat (d_sample_counter s)) + d_rem_code_phase_samples s)
            / real_of_int (d_fs_in s),
        Code_phase_secs := 0,
        Carrier_phase_rads := d_acc_carrier_phase_rad s,
        Carrier_Doppler_hz := d_carrier_doppler_hz s,
        CN0_dB_hz := d_CN0_SNV_dB_Hz s,
        Flag_valid_pseudorange := False\<rparr>"

text \<open>The seconds counter of the debug output, \<^verbatim>\<open>floor(d_sample_counter / d_fs_in)\<close>:
  an unsigned 64-bit division, undefined for a zero sampling rate.\<close>

definition debug_seconds :: "('pf, 'df) tracking_cc \<Rightarrow> ('pf, 'df) tracking_cc option" where
  "debug_seconds s =
    (if d_fs_in s = 0 then None
     else
      (let seg = int (unat (d_sample_counter s) div unat (word_of_int (d_fs_in s) :: 64 word))
       in if seg \<noteq> d_last_seg s then Some (s\<lparr>d_last_seg := seg\<rparr>) else Some s))"

text \<open>The block of a disabled channel.\<close>

definition idle_block :: "('pf, 'df) tracking_cc \<Rightarrow> ('pf, 'df) tracking_cc" where
  "idle_block s =
     s\<lparr>d_Early := gr_zero, d_Prompt := gr_zero, d_Late := gr_zero,
       d_sample_counter := d_sample_counter s + word_of_int (d_current_prn_length_samples s)\<rparr>"

definition idle_output :: Gnss_Synchro where
  "idle_output = Gnss_Synchro_init\<lparr>System := CHR ''G'', Flag_valid_pseudorange := False\<rparr>"

text \<open>The whole call. The pull-in block and the NaN block return early; the other
  two paths end with \<^verbatim>\<open>consume_each(d_current_prn_length_samples)\<close> and the assignment
  of the next block length.\<close>

definition general_work ::
  "('pf, 'df) components \<Rightarrow> work_items \<Rightarrow> ('pf, 'df) tracking_cc \<Rightarrow>
   ('pf, 'df) work_done option"
where
  "general_work ext inp s =
    (if d_enable_tracking s then
       if d_pull_in s then Some (pull_in_alignment inp s)
       else
        (case update_local_code ext s of
           None \<Rightarrow> None
         | Some s1 \<Rightarrow>
            (let s2 = update_phase_estimates (correlate ext inp s1)
             in if isnan (fst (d_Prompt s2)) \<or> isnan (snd (d_Prompt s2))
                then Some (nan_samples inp s2)
                else
                 (let s3 = dll_update ext (pll_update ext s2);
                      next_prn_length = next_prn_length_samples s3;
                      s4 = cn0_and_lock_detectors ext s3
                  in (case debug_seconds s4 of
                        None \<Rightarrow> None
                      | Some s5 \<Rightarrow>
                          Some \<lparr>state_after =
                                  s5\<lparr>d_current_prn_length_samples := next_prn_length\<rparr>,
                                out0 = tracking_output inp s4,
                                consumed = d_current_prn_length_samples s5,
                                returned = 1\<rparr>))))
     else
      (case debug_seconds s of
         None \<Rightarrow> None
       | Some s1 \<Rightarrow>
           (let s2 = idle_block s1
            in Some \<lparr>state_after =
                       s2\<lparr>d_current_prn_length_samples := d_current_prn_length_samples s\<rparr>,
                     out0 = idle_output,
                     consumed = d_current_prn_length_samples s2,
                     returned = 1\<rparr>)))"

subsection \<open>The block length against one code period\<close>

text \<open>The distance that the spec bounds by one sample: the block length against
  \<open>fs_in \<times> code_length_chips / code_freq_chips\<close>.\<close>

definition block_length_error :: "('pf, 'df) tracking_cc \<Rightarrow> real" where
  "block_length_error s =
     \<bar>real_of_int (d_current_prn_length_samples s)
        - real_of_int (d_fs_in s) * GPS_L1_CA_CODE_LENGTH_CHIPS / d_code_freq_chips s\<bar>"

subsection \<open>A run of several calls\<close>

fun run ::
  "('pf, 'df) components \<Rightarrow> work_items list \<Rightarrow> ('pf, 'df) tracking_cc \<Rightarrow>
   ('pf, 'df) tracking_cc option"
where
  "run ext [] s = Some s"
| "run ext (inp # inps) s =
     (case general_work ext inp s of None \<Rightarrow> None
      | Some r \<Rightarrow> run ext inps (state_after r))"

subsection \<open>Stand-ins for the other components\<close>

text \<open>Modelled from the spec: \<^verbatim>\<open>double_to_fxpt64\<close> of \<^verbatim>\<open>fxpt64.h\<close>, which is not part
  of the file: the conversion to a 64-bit fixed-point format with 32 integer bits
  and 32 fractional bits. The examples below use it only on values that are
  multiples of \<open>2 ^ - 32\<close> or far from a chip boundary, where the direction of
  rounding does not matter.\<close>

definition double_to_fxpt64_spec :: "real \<Rightarrow> 64 word" where
  "double_to_fxpt64_spec x = word_of_int (c_trunc (x * 2 ^ 32))"

text \<open>Components for the examples. The code generator returns 1023 chips of value
  one; the correlator hands back the first input sample as each of the three
  correlations; the discriminators see no error; a loop filter is the value it holds
  plus the error, and its setter refuses a bandwidth that is not positive; the
  estimators report 45 dB-Hz and a lock test of one.\<close>

definition demo_components :: "(real, real) components" where
  "demo_components =
     \<lparr>double_to_fxpt64 = double_to_fxpt64_spec,
      gps_l1_ca_code_gen_complex = (\<lambda>prn shift. replicate 1023 (Fin 1, Fin 0)),
      Carrier_rotate_and_EPL_volk =
        (\<lambda>n inp ph inc e p l.
           case inp of [] \<Rightarrow> (gr_zero, gr_zero, gr_zero) | x # xs \<Rightarrow> (x, x, x)),
      pll_cloop_two_quadrant_atan = (\<lambda>P. 0),
      dll_nc_e_minus_l_normalized = (\<lambda>E L. 0),
      new_PLL_filter = 0,
      set_PLL_BW = (\<lambda>f bw. if 0 < bw then Some f else None),
      initialize_PLL = (\<lambda>f v. v),
      get_carrier_nco = (\<lambda>f e. (f + e, f + e)),
      new_DLL_filter = 0,
      set_DLL_BW = (\<lambda>f bw. if 0 < bw then Some f else None),
      initialize_DLL = (\<lambda>f v. v),
      get_code_nco = (\<lambda>f e. (f + e, f + e)),
      cn0_svn_estimator = (\<lambda>buf n fs len. 45),
      carrier_lock_detector = (\<lambda>buf n. 1)\<rparr>"

text \<open>An acquisition of satellite 1 with no delay and no Doppler, a channel sampled
  at 4.092 MHz (four samples per chip), and that channel after \<^verbatim>\<open>start_tracking\<close>.\<close>

definition demo_acquisition :: Gnss_Synchro where
  "demo_acquisition = Gnss_Synchro_init\<lparr>System := CHR ''G'', PRN := 1\<rparr>"

definition demo_object :: "(real, real) tracking_cc" where
  "demo_object =
     projr (Gps_L1_Ca_Dll_Pll_Tracking_cc demo_components 0 4092000 4092 (Some [])
              False [] 50 2 (1 / 2))"

definition demo_started :: "(real, real) tracking_cc" where
  "demo_started = start_tracking demo_components demo_acquisition demo_object"

text \<open>The items of a call: 8184 available samples, all of value one, or all NaN.\<close>

definition demo_items :: work_items where
  "demo_items =
     \<lparr>noutput_items = 1, ninput_items = 8184,
      input_items = (Fin 1, Fin 0) # replicate 8183 (Fin 1, Fin 0),
      acquisition_gnss_synchro = demo_acquisition\<rparr>"

definition demo_nan_items :: work_items where
  "demo_nan_items = demo_items\<lparr>input_items := (NaN, NaN) # replicate 8183 (NaN, NaN)\<rparr>"

text \<open>The channel after the pull-in block.\<close>

definition demo_tracking :: "(real, real) tracking_cc" where
  "demo_tracking = state_after (pull_in_alignment demo_items demo_started)"

text \<open>The same components with a carrier lock detector that reports no lock, and the
  channel at an estimation epoch with the failure counter at its maximum.\<close>

definition demo_unlocked :: "(real, real) components" where
  "demo_unlocked = demo_components\<lparr>carrier_lock_detector := (\<lambda>buf n. 0)\<rparr>"

definition demo_last_chance :: "(real, real) tracking_cc" where
  "demo_last_chance =
     demo_tracking\<lparr>d_cn0_estimation_counter := 20, d_carrier_lock_fail_counter := 50\<rparr>"

text \<open>The channel at that epoch when it was constructed with a null queue pointer.\<close>

definition demo_no_queue :: "(real, real) tracking_cc" where
  "demo_no_queue = demo_last_chance\<lparr>d_queue := None\<rparr>"


text \<open>The same channel started from an acquisition with a Doppler of \<open>d\<close> Hz; at
  1540 Hz the code frequency is 1023001 chips per second.\<close>

definition demo_acquisition_doppler :: "real \<Rightarrow> Gnss_Synchro" where
  "demo_acquisition_doppler d = demo_acquisition\<lparr>Acq_doppler_hz := d\<rparr>"

definition demo_items_doppler :: "real \<Rightarrow> work_items" where
  "demo_items_doppler d = demo_items\<lparr>acquisition_gnss_synchro := demo_acquisition_doppler d\<rparr>"

definition demo_started_doppler :: "real \<Rightarrow> (real, real) tracking_cc" where
  "demo_started_doppler d = start_tracking demo_components (demo_acquisition_doppler d) demo_object"

definition demo_tracking_doppler :: "real \<Rightarrow> (real, real) tracking_cc" where
  "demo_tracking_doppler d =
     state_after (pull_in_alignment (demo_items_doppler d) (demo_started_doppler d))"

text \<open>A channel sampled at 4.0005 MHz, so that one code period is 4000.5 samples,
  started from the acquisition without Doppler and taken through pull-in; its calls
  have 8002 samples available.\<close>

definition drift_object :: "(real, real) tracking_cc" where
  "drift_object =
     projr (Gps_L1_Ca_Dll_Pll_Tracking_cc demo_components 0 4000500 4001 (Some [])
              False [] 50 2 (1 / 2))"

definition drift_items :: work_items where
  "drift_items =
     \<lparr>noutput_items = 1, ninput_items = 8002,
      input_items = (Fin 1, Fin 0) # replicate 8001 (Fin 1, Fin 0),
      acquisition_gnss_synchro = demo_acquisition\<rparr>"

definition drift_nan_items :: work_items where
  "drift_nan_items = drift_items\<lparr>input_items := (NaN, NaN) # replicate 8001 (NaN, NaN)\<rparr>"

definition drift_started :: "(real, real) tracking_cc" where
  "drift_started = start_tracking demo_components demo_acquisition drift_object"

definition drift_tracking :: "(real, real) tracking_cc" where
  "drift_tracking = state_after (pull_in_alignment drift_items drift_started)"

definition drift_five_nans :: "work_items list" where
  "drift_five_nans =
     [drift_items, drift_nan_items, drift_nan_items, drift_nan_items, drift_nan_items,
      drift_nan_items]"

definition drift_four_nans :: "work_items list" where
  "drift_four_nans =
     [drift_items, drift_nan_items, drift_nan_items, drift_nan_items, drift_nan_items]"

text \<open>What the blocks of that channel keep, and the two members that move: after
  \<open>k\<close> blocks with a NaN correlation the code phase is \<open>k\<close> times 1023/8001 chips and
  the remainder is \<open>- k / 2\<close> samples.\<close>

definition drifting :: "(real, real) tracking_cc \<Rightarrow> real \<Rightarrow> bool" where
  "drifting s k \<longleftrightarrow>
     d_enable_tracking s \<and> \<not> d_pull_in s
     \<and> d_current_prn_length_samples s = 4001 \<and> d_fs_in s = 4000500 \<and> d_if_freq s = 0
     \<and> d_code_freq_chips s = 1023000 \<and> d_early_late_spc_chips s = 1 / 2
     \<and> d_carrier_aiding_enabled s
     \<and> d_carrier_loop_filter s = 0 \<and> d_code_loop_filter s = 0
     \<and> length (d_early_code s) = 8002 \<and> length (d_prompt_code s) = 8002
     \<and> length (d_late_code s) = 8002 \<and> length (d_ca_code s) = 1025
     \<and> d_code_phase_chips s = k * 1023 / 8001
     \<and> d_rem_code_phase_samples s = - (k / 2)"

section \<open>Properties\<close>

subsection \<open>Evaluation of the examples\<close>

lemmas gps_constants =
  GPS_L1_CA_CODE_LENGTH_CHIPS_def GPS_L1_CA_CODE_RATE_HZ_def GPS_L1_CA_CODE_PERIOD_def
  GPS_L1_FREQ_HZ_def GPS_TWO_PI_def CN0_ESTIMATION_SAMPLES_def MINIMUM_VALID_CN0_def
  MAXIMUM_LOCK_FAIL_COUNTER_def CARRIER_LOCK_THRESHOLD_def

lemmas demo_defs =
  demo_object_def Gps_L1_Ca_Dll_Pll_Tracking_cc_def demo_acquisition_def
  Gnss_Synchro_init_def demo_components_def demo_items_def gr_zero_def

lemma demo_started_scalars:
  "d_current_prn_length_samples demo_started = 4092"
  "d_code_freq_chips demo_started = 1023000"
  "d_fs_in demo_started = 4092000"
  "d_if_freq demo_started = 0"
  "d_early_late_spc_chips demo_started = 1 / 2"
  "d_rem_code_phase_samples demo_started = 0"
  "d_rem_carr_phase_rad demo_started = 0"
  "d_code_phase_chips demo_started = 0"
  "d_carrier_doppler_hz demo_started = 0"
  "d_acq_code_phase_samples demo_started = 0"
  "d_sample_counter demo_started = 0"
  "d_acq_sample_stamp demo_started = 0"
  "d_enable_tracking demo_started"
  "d_pull_in demo_started"
  by (simp_all add: demo_started_def start_tracking_def demo_defs gps_constants Let_def
      c_round_def c_fmod_def c_trunc_def)

lemma demo_started_buffers:
  "length (d_early_code demo_started) = 8184"
  "length (d_prompt_code demo_started) = 8184"
  "length (d_late_code demo_started) = 8184"
  "length (d_ca_code demo_started) = 1025"
  "d_ca_code demo_started ! 0 = d_ca_code demo_started ! 1023"
  "d_ca_code demo_started ! 1024 = d_ca_code demo_started ! 1"
  by (simp_all add: demo_started_def start_tracking_def demo_defs gps_constants Let_def
      nth_append)

lemma demo_tracking_scalars:
  "d_current_prn_length_samples demo_tracking = 4092"
  "d_code_freq_chips demo_tracking = 1023000"
  "d_fs_in demo_tracking = 4092000"
  "d_if_freq demo_tracking = 0"
  "d_early_late_spc_chips demo_tracking = 1 / 2"
  "d_rem_code_phase_samples demo_tracking = 0"
  "d_rem_carr_phase_rad demo_tracking = 0"
  "d_code_phase_chips demo_tracking = 0"
  "d_carrier_doppler_hz demo_tracking = 0"
  "d_sample_counter demo_tracking = 4092"
  "d_enable_tracking demo_tracking"
  "\<not> d_pull_in demo_tracking"
  "length (d_early_code demo_tracking) = 8184"
  "length (d_prompt_code demo_tracking) = 8184"
  "length (d_late_code demo_tracking) = 8184"
  "d_ca_code demo_tracking = d_ca_code demo_started"
  by (simp_all add: demo_tracking_def pull_in_alignment_def Let_def demo_started_scalars
      demo_started_buffers c_round_def c_fmod_def c_trunc_def)

lemma demo_tracking_fxp:
  "early_code_phase_fxp demo_components demo_tracking = 2147483648"
  "prompt_code_phase_fxp demo_components demo_tracking = 0"
  "late_code_phase_fxp demo_components demo_tracking = - 2147483648"
  "code_phase_step_fxp demo_components demo_tracking = 1073741824"
  by (simp_all add: early_code_phase_fxp_def prompt_code_phase_fxp_def
      late_code_phase_fxp_def code_phase_step_fxp_def tcode_chips_def demo_tracking_scalars
      demo_components_def double_to_fxpt64_spec_def c_trunc_def)

subsection \<open>The replica generator\<close>

lemma epl_loop_length:
  "epl_loop tbl stp k e p l = Some (es, ps, ls) \<Longrightarrow>
   length es = k \<and> length ps = k \<and> length ls = k"
  by (induction k arbitrary: e p l es ps ls) (auto split: option.splits)

lemma epl_loop_nth:
  "epl_loop tbl stp k e p l = Some (es, ps, ls) \<Longrightarrow> i < k \<Longrightarrow>
     ca_code_at tbl (1 + chip_of_fxp (e + of_nat i * stp)) = Some (es ! i)
   \<and> ca_code_at tbl (1 + chip_of_fxp (p + of_nat i * stp)) = Some (ps ! i)
   \<and> ca_code_at tbl (1 + chip_of_fxp (l + of_nat i * stp)) = Some (ls ! i)"
proof (induction k arbitrary: e p l es ps ls i)
  case 0
  then show ?case by simp
next
  case (Suc k)
  from Suc.prems(1) obtain ve vp vl es' ps' ls' where
    rd: "ca_code_at tbl (1 + chip_of_fxp e) = Some ve"
        "ca_code_at tbl (1 + chip_of_fxp p) = Some vp"
        "ca_code_at tbl (1 + chip_of_fxp l) = Some vl"
    and rest: "epl_loop tbl stp k (e + stp) (p + stp) (l + stp) = Some (es', ps', ls')"
    and eqs: "es = ve # es'" "ps = vp # ps'" "ls = vl # ls'"
    by (auto split: option.splits)
  show ?case
  proof (cases i)
    case 0
    with rd eqs show ?thesis by simp
  next
    case (Suc j)
    with Suc.prems(2) have "j < k" by simp
    from Suc.IH[OF rest this] Suc eqs show ?thesis
      by (simp add: algebra_simps)
  qed
qed

lemma epl_loop_defined:
  "(\<And>i. i < k \<Longrightarrow>
      ca_code_at tbl (1 + chip_of_fxp (e + of_nat i * stp)) \<noteq> None
    \<and> ca_code_at tbl (1 + chip_of_fxp (p + of_nat i * stp)) \<noteq> None
    \<and> ca_code_at tbl (1 + chip_of_fxp (l + of_nat i * stp)) \<noteq> None)
   \<Longrightarrow> epl_loop tbl stp k e p l \<noteq> None"
proof (induction k arbitrary: e p l)
  case 0
  then show ?case by simp
next
  case (Suc k)
  have "epl_loop tbl stp k (e + stp) (p + stp) (l + stp) \<noteq> None"
  proof (rule Suc.IH)
    fix i assume "i < k"
    then have "Suc i < Suc k" by simp
    from Suc.prems[OF this] show
      "ca_code_at tbl (1 + chip_of_fxp (e + stp + of_nat i * stp)) \<noteq> None
     \<and> ca_code_at tbl (1 + chip_of_fxp (p + stp + of_nat i * stp)) \<noteq> None
     \<and> ca_code_at tbl (1 + chip_of_fxp (l + stp + of_nat i * stp)) \<noteq> None"
      by (simp add: algebra_simps)
  qed
  moreover from Suc.prems[of 0] have
    "ca_code_at tbl (1 + chip_of_fxp e) \<noteq> None"
    "ca_code_at tbl (1 + chip_of_fxp p) \<noteq> None"
    "ca_code_at tbl (1 + chip_of_fxp l) \<noteq> None" by simp_all
  ultimately show ?case by (auto split: option.splits)
qed

lemma epl_loop_first_None:
  "0 < k \<Longrightarrow> ca_code_at tbl (1 + chip_of_fxp e) = None \<Longrightarrow> epl_loop tbl stp k e p l = None"
  by (cases k) simp_all

lemma epl_loop_read_None:
  assumes "i < k" and "ca_code_at tbl (1 + chip_of_fxp (e + of_nat i * stp)) = None"
  shows "epl_loop tbl stp k e p l = None"
proof (cases "epl_loop tbl stp k e p l")
  case None
  then show ?thesis .
next
  case (Some r)
  obtain es ps ls where "r = (es, ps, ls)" by (cases r)
  with Some epl_loop_nth[of tbl stp k e p l es ps ls i] assms show ?thesis by simp
qed

text \<open>As long as nothing overflows, the phase of sample \<open>i\<close> is the starting phase
  plus \<open>i\<close> steps.\<close>

lemma sint_fxp_linear:
  fixes w stp :: "64 word"
  assumes "- (2 ^ 63) \<le> sint w + int i * sint stp" and "sint w + int i * sint stp < 2 ^ 63"
  shows "sint (w + of_nat i * stp) = sint w + int i * sint stp"
proof -
  have "word_of_int (sint w + int i * sint stp) = w + of_nat i * stp"
    by simp
  then have "sint (w + of_nat i * stp) = sint (word_of_int (sint w + int i * sint stp) :: 64 word)"
    by (rule arg_cong[OF sym])
  also have "\<dots> = signed_take_bit 63 (sint w + int i * sint stp)"
    by (simp only: sint_sbintrunc') simp
  also have "\<dots> = sint w + int i * sint stp"
    using assms by (intro signed_take_bit_int_eq_self) simp_all
  finally show ?thesis .
qed

text \<open>A phase that starts at chip \<open>- 1\<close> or later and, stepping forward, stays
  below chip 1024 reads inside the table.\<close>

lemma chip_of_fxp_range:
  fixes w stp :: "64 word"
  assumes stp: "0 \<le> sint stp"
    and lo: "- (2 ^ 32) \<le> sint w"
    and hi: "sint w + int k * sint stp < 1024 * 2 ^ 32"
    and ik: "i \<le> k"
  shows "- 1 \<le> chip_of_fxp (w + of_nat i * stp) \<and> chip_of_fxp (w + of_nat i * stp) \<le> 1023"
proof -
  define x where "x = sint w + int i * sint stp"
  have "int i * sint stp \<le> int k * sint stp"
    using ik stp by (simp add: mult_right_mono)
  with hi have x_hi: "x < 4398046511104" by (simp add: x_def)
  have "0 \<le> int i * sint stp" using stp by simp
  with lo have x_lo: "- 4294967296 \<le> x" by (simp add: x_def)
  have "sint (w + of_nat i * stp) = x"
    unfolding x_def using x_lo x_hi by (intro sint_fxp_linear) (simp_all add: x_def)
  then have c: "chip_of_fxp (w + of_nat i * stp) = x div 4294967296"
    by (simp add: chip_of_fxp_def sint_signed_drop_bit_eq drop_bit_eq_div)
  from x_lo have "(- 4294967296) div 4294967296 \<le> x div (4294967296 :: int)"
    by (intro zdiv_mono1) simp_all
  then have d_lo: "- 1 \<le> x div 4294967296" by simp
  from x_hi have "x \<le> 4398046511103" by simp
  then have "x div 4294967296 \<le> 4398046511103 div (4294967296 :: int)"
    by (intro zdiv_mono1) simp_all
  then have d_hi: "x div 4294967296 \<le> 1023" by simp
  from d_lo d_hi show ?thesis using c by simp
qed

lemma update_local_code_defined:
  fixes s :: "('pf, 'df) tracking_cc"
  assumes n: "d_current_prn_length_samples s = int n"
    and buf: "n \<le> length (d_early_code s)" "n \<le> length (d_prompt_code s)"
             "n \<le> length (d_late_code s)"
    and tbl: "length (d_ca_code s) = 1025"
    and stp: "0 \<le> sint (code_phase_step_fxp ext s)"
    and lo: "- (2 ^ 32) \<le> sint (early_code_phase_fxp ext s)"
            "- (2 ^ 32) \<le> sint (prompt_code_phase_fxp ext s)"
            "- (2 ^ 32) \<le> sint (late_code_phase_fxp ext s)"
    and hi: "sint (early_code_phase_fxp ext s) + int (n - 1) * sint (code_phase_step_fxp ext s)
               < 1024 * 2 ^ 32"
            "sint (prompt_code_phase_fxp ext s) + int (n - 1) * sint (code_phase_step_fxp ext s)
               < 1024 * 2 ^ 32"
            "sint (late_code_phase_fxp ext s) + int (n - 1) * sint (code_phase_step_fxp ext s)
               < 1024 * 2 ^ 32"
  shows "\<exists>es ps ls. length es = n \<and> length ps = n \<and> length ls = n \<and>
           update_local_code ext s =
             Some (s\<lparr>d_early_code := es @ drop n (d_early_code s),
                     d_prompt_code := ps @ drop n (d_prompt_code s),
                     d_late_code := ls @ drop n (d_late_code s)\<rparr>)"
proof -
  have rd: "ca_code_at (d_ca_code s) (1 + chip_of_fxp (w + of_nat i * code_phase_step_fxp ext s))
              \<noteq> None"
    if "- (2 ^ 32) \<le> sint w"
       "sint w + int (n - 1) * sint (code_phase_step_fxp ext s) < 1024 * 2 ^ 32" "i < n"
    for w i
  proof -
    from that(3) have "i \<le> n - 1" by simp
    from chip_of_fxp_range[OF stp that(1) that(2) this] show ?thesis
      by (simp add: ca_code_at_def tbl)
  qed
  have "epl_loop (d_ca_code s) (code_phase_step_fxp ext s) n (early_code_phase_fxp ext s)
          (prompt_code_phase_fxp ext s) (late_code_phase_fxp ext s) \<noteq> None"
  proof (rule epl_loop_defined)
    fix i assume "i < n"
    with rd[OF lo(1) hi(1)] rd[OF lo(2) hi(2)] rd[OF lo(3) hi(3)]
    show "ca_code_at (d_ca_code s)
            (1 + chip_of_fxp (early_code_phase_fxp ext s + of_nat i * code_phase_step_fxp ext s))
            \<noteq> None
        \<and> ca_code_at (d_ca_code s)
            (1 + chip_of_fxp (prompt_code_phase_fxp ext s + of_nat i * code_phase_step_fxp ext s))
            \<noteq> None
        \<and> ca_code_at (d_ca_code s)
            (1 + chip_of_fxp (late_code_phase_fxp ext s + of_nat i * code_phase_step_fxp ext s))
            \<noteq> None"
      by blast
  qed
  then obtain es ps ls where
    r: "epl_loop (d_ca_code s) (code_phase_step_fxp ext s) n (early_code_phase_fxp ext s)
          (prompt_code_phase_fxp ext s) (late_code_phase_fxp ext s) = Some (es, ps, ls)"
    by auto
  have "update_local_code ext s =
          Some (s\<lparr>d_early_code := es @ drop n (d_early_code s),
                  d_prompt_code := ps @ drop n (d_prompt_code s),
                  d_late_code := ls @ drop n (d_late_code s)\<rparr>)"
    using r buf n by (simp add: update_local_code_def Let_def)
  with epl_loop_length[OF r] show ?thesis by blast
qed

text \<open>With the two guard entries in place, an index between 0 and 1024 reads the same
  chip as the index reduced modulo the code length.\<close>

lemma ca_code_at_guards:
  assumes "length tbl = 1025" and "tbl ! 0 = tbl ! 1023" and "tbl ! 1024 = tbl ! 1"
    and "ca_code_at tbl (1 + c) = Some v"
  shows "- 1 \<le> c \<and> c \<le> 1023 \<and> ca_code_at tbl (1 + c mod 1023) = Some v"
proof -
  from assms(1,4) have r: "- 1 \<le> c" "c \<le> 1023" and v: "v = tbl ! nat (1 + c)"
    by (auto simp: ca_code_at_def split: if_splits)
  consider "c = - 1" | "c = 1023" | "0 \<le> c \<and> c < 1023" using r by linarith
  then have "ca_code_at tbl (1 + c mod 1023) = Some v"
  proof cases
    case 1
    with assms v show ?thesis by (simp add: ca_code_at_def)
  next
    case 2
    with assms v show ?thesis by (simp add: ca_code_at_def)
  next
    case 3
    then have "c mod 1023 = c" by simp
    with assms(4) show ?thesis by simp
  qed
  with r show ?thesis by simp
qed

lemma demo_replicas_defined:
  fixes s :: "('pf, 'df) tracking_cc"
  assumes "double_to_fxpt64 ext = double_to_fxpt64_spec"
    and "d_current_prn_length_samples s = 4092" and "d_fs_in s = 4092000"
    and "d_code_freq_chips s = 1023000" and "d_rem_code_phase_samples s = 0"
    and "d_early_late_spc_chips s = 1 / 2"
    and "length (d_early_code s) = 8184" and "length (d_prompt_code s) = 8184"
    and "length (d_late_code s) = 8184" and "length (d_ca_code s) = 1025"
  shows "update_local_code ext s \<noteq> None"
proof -
  have fxp:
    "early_code_phase_fxp ext s = 2147483648"
    "prompt_code_phase_fxp ext s = 0"
    "late_code_phase_fxp ext s = - 2147483648"
    "code_phase_step_fxp ext s = 1073741824"
    by (simp_all add: early_code_phase_fxp_def prompt_code_phase_fxp_def
        late_code_phase_fxp_def code_phase_step_fxp_def tcode_chips_def
        double_to_fxpt64_spec_def c_trunc_def assms)
  have "\<exists>es ps ls. length es = 4092 \<and> length ps = 4092 \<and> length ls = 4092 \<and>
          update_local_code ext s =
            Some (s\<lparr>d_early_code := es @ drop 4092 (d_early_code s),
                    d_prompt_code := ps @ drop 4092 (d_prompt_code s),
                    d_late_code := ls @ drop 4092 (d_late_code s)\<rparr>)"
    by (rule update_local_code_defined) (simp_all add: assms fxp)
  then show ?thesis by auto
qed

lemma demo_tracking_update_local_code:
  "update_local_code demo_components demo_tracking \<noteq> None"
  by (rule demo_replicas_defined)
     (simp_all add: demo_tracking_scalars demo_started_buffers demo_components_def)

subsection \<open>The four paths of a call\<close>

lemma update_local_code_frame:
  "update_local_code ext s = Some s1 \<Longrightarrow>
   \<exists>es ps ls. s1 = s\<lparr>d_early_code := es, d_prompt_code := ps, d_late_code := ls\<rparr>"
  by (auto simp: update_local_code_def Let_def split: if_splits option.splits)

lemma debug_seconds_frame:
  "debug_seconds s = Some s1 \<Longrightarrow> d_fs_in s \<noteq> 0 \<and> (\<exists>seg. s1 = s\<lparr>d_last_seg := seg\<rparr>)"
  by (auto simp: debug_seconds_def Let_def split: if_splits intro: exI[of _ "d_last_seg s"])

lemma general_work_cases [consumes 1, case_names Idle Pull_in NaN Tracking]:
  assumes "general_work ext inp s = Some r"
  obtains
    (Idle) s1 where "\<not> d_enable_tracking s" and "debug_seconds s = Some s1"
      and "r = \<lparr>state_after = (idle_block s1)
                    \<lparr>d_current_prn_length_samples := d_current_prn_length_samples s\<rparr>,
                 out0 = idle_output,
                 consumed = d_current_prn_length_samples (idle_block s1),
                 returned = 1\<rparr>"
  | (Pull_in) "d_enable_tracking s" and "d_pull_in s" and "r = pull_in_alignment inp s"
  | (NaN) s1 where "d_enable_tracking s" and "\<not> d_pull_in s"
      and "update_local_code ext s = Some s1"
      and "isnan (fst (d_Prompt (correlate ext inp s1)))
           \<or> isnan (snd (d_Prompt (correlate ext inp s1)))"
      and "r = nan_samples inp (update_phase_estimates (correlate ext inp s1))"
  | (Tracking) s1 s4 s5 where "d_enable_tracking s" and "\<not> d_pull_in s"
      and "update_local_code ext s = Some s1"
      and "\<not> isnan (fst (d_Prompt (correlate ext inp s1)))"
      and "\<not> isnan (snd (d_Prompt (correlate ext inp s1)))"
      and "s4 = cn0_and_lock_detectors ext
                  (dll_update ext (pll_update ext
                     (update_phase_estimates (correlate ext inp s1))))"
      and "debug_seconds s4 = Some s5"
      and "r = \<lparr>state_after = s5\<lparr>d_current_prn_length_samples :=
                    next_prn_length_samples
                      (dll_update ext (pll_update ext
                         (update_phase_estimates (correlate ext inp s1))))\<rparr>,
                 out0 = tracking_output inp s4,
                 consumed = d_current_prn_length_samples s5,
                 returned = 1\<rparr>"
proof (cases "d_enable_tracking s")
  case False
  with assms Idle show ?thesis
    by (auto simp: general_work_def Let_def split: option.splits)
next
  case en: True
  show ?thesis
  proof (cases "d_pull_in s")
    case True
    with assms en Pull_in show ?thesis by (simp add: general_work_def)
  next
    case pi: False
    from assms en pi obtain s1 where u: "update_local_code ext s = Some s1"
      by (auto simp: general_work_def split: option.splits)
    have pr: "d_Prompt (update_phase_estimates (correlate ext inp s1))
                = d_Prompt (correlate ext inp s1)"
      by (simp add: update_phase_estimates_def Let_def)
    show ?thesis
    proof (cases "isnan (fst (d_Prompt (correlate ext inp s1)))
                  \<or> isnan (snd (d_Prompt (correlate ext inp s1)))")
      case True
      with assms en pi u pr NaN show ?thesis
        by (simp add: general_work_def Let_def)
    next
      case False
      with assms en pi u pr Tracking show ?thesis
        by (auto simp: general_work_def Let_def split: option.splits)
    qed
  qed
qed

text \<open>What each step of a block leaves unchanged.\<close>

lemma correlate_unchanged:
  "d_queue (correlate ext inp s) = d_queue s"
  "d_dump (correlate ext inp s) = d_dump s"
  "d_if_freq (correlate ext inp s) = d_if_freq s"
  "d_fs_in (correlate ext inp s) = d_fs_in s"
  "d_vector_length (correlate ext inp s) = d_vector_length s"
  "d_dump_filename (correlate ext inp s) = d_dump_filename s"
  "d_code_loop_filter (correlate ext inp s) = d_code_loop_filter s"
  "d_carrier_loop_filter (correlate ext inp s) = d_carrier_loop_filter s"
  "d_carrier_aiding_enabled (correlate ext inp s) = d_carrier_aiding_enabled s"
  "d_early_late_spc_chips (correlate ext inp s) = d_early_late_spc_chips s"
  "d_ca_code (correlate ext inp s) = d_ca_code s"
  "d_early_code (correlate ext inp s) = d_early_code s"
  "d_prompt_code (correlate ext inp s) = d_prompt_code s"
  "d_late_code (correlate ext inp s) = d_late_code s"
  "d_code_freq_chips (correlate ext inp s) = d_code_freq_chips s"
  "d_rem_code_phase_samples (correlate ext inp s) = d_rem_code_phase_samples s"
  "d_rem_carr_phase_rad (correlate ext inp s) = d_rem_carr_phase_rad s"
  "d_sample_counter (correlate ext inp s) = d_sample_counter s"
  "d_acq_sample_stamp (correlate ext inp s) = d_acq_sample_stamp s"
  "d_enable_tracking (correlate ext inp s) = d_enable_tracking s"
  "d_pull_in (correlate ext inp s) = d_pull_in s"
  "d_last_seg (correlate ext inp s) = d_last_seg s"
  "d_current_prn_length_samples (correlate ext inp s) = d_current_prn_length_samples s"
  "d_cn0_estimation_counter (correlate ext inp s) = d_cn0_estimation_counter s"
  "d_Prompt_buffer (correlate ext inp s) = d_Prompt_buffer s"
  "d_carrier_lock_test (correlate ext inp s) = d_carrier_lock_test s"
  "d_CN0_SNV_dB_Hz (correlate ext inp s) = d_CN0_SNV_dB_Hz s"
  "d_carrier_lock_fail_counter (correlate ext inp s) = d_carrier_lock_fail_counter s"
  "d_carrier_lock_threshold (correlate ext inp s) = d_carrier_lock_threshold s"
  "d_channel (correlate ext inp s) = d_channel s"
  "d_acq_code_phase_samples (correlate ext inp s) = d_acq_code_phase_samples s"
  "d_acq_carrier_doppler_hz (correlate ext inp s) = d_acq_carrier_doppler_hz s"
  "d_carrier_doppler_hz (correlate ext inp s) = d_carrier_doppler_hz s"
  "d_acc_carrier_phase_rad (correlate ext inp s) = d_acc_carrier_phase_rad s"
  "d_code_phase_samples (correlate ext inp s) = d_code_phase_samples s"
  "d_code_phase_chips (correlate ext inp s) = d_code_phase_chips s"
  "d_carrier_phase_rad (correlate ext inp s) = d_carrier_phase_rad s"
  "d_acc_code_phase_secs (correlate ext inp s) = d_acc_code_phase_secs s"
  by (simp_all add: correlate_def Let_def)

lemma update_phase_estimates_unchanged:
  "d_queue (update_phase_estimates s) = d_queue s"
  "d_dump (update_phase_estimates s) = d_dump s"
  "d_if_freq (update_phase_estimates s) = d_if_freq s"
  "d_fs_in (update_phase_estimates s) = d_fs_in s"
  "d_vector_length (update_phase_estimates s) = d_vector_length s"
  "d_dump_filename (update_phase_estimates s) = d_dump_filename s"
  "d_code_loop_filter (update_phase_estimates s) = d_code_loop_filter s"
  "d_carrier_loop_filter (update_phase_estimates s) = d_carrier_loop_filter s"
  "d_carrier_aiding_enabled (update_phase_estimates s) = d_carrier_aiding_enabled s"
  "d_early_late_spc_chips (update_phase_estimates s) = d_early_late_spc_chips s"
  "d_ca_code (update_phase_estimates s) = d_ca_code s"
  "d_early_code (update_phase_estimates s) = d_early_code s"
  "d_prompt_code (update_phase_estimates s) = d_prompt_code s"
  "d_late_code (update_phase_estimates s) = d_late_code s"
  "d_Early (update_phase_estimates s) = d_Early s"
  "d_Prompt (update_phase_estimates s) = d_Prompt s"
  "d_Late (update_phase_estimates s) = d_Late s"
  "d_code_freq_chips (update_phase_estimates s) = d_code_freq_chips s"
  "d_rem_carr_phase_rad (update_phase_estimates s) = d_rem_carr_phase_rad s"
  "d_sample_counter (update_phase_estimates s) = d_sample_counter s"
  "d_acq_sample_stamp (update_phase_estimates s) = d_acq_sample_stamp s"
  "d_enable_tracking (update_phase_estimates s) = d_enable_tracking s"
  "d_pull_in (update_phase_estimates s) = d_pull_in s"
  "d_last_seg (update_phase_estimates s) = d_last_seg s"
  "d_current_prn_length_samples (update_phase_estimates s) = d_current_prn_length_samples s"
  "d_cn0_estimation_counter (update_phase_estimates s) = d_cn0_estimation_counter s"
  "d_Prompt_buffer (update_phase_estimates s) = d_Prompt_buffer s"
  "d_carrier_lock_test (update_phase_estimates s) = d_carrier_lock_test s"
  "d_CN0_SNV_dB_Hz (update_phase_estimates s) = d_CN0_SNV_dB_Hz s"
  "d_carrier_lock_fail_counter (update_phase_estimates s) = d_carrier_lock_fail_counter s"
  "d_carrier_lock_threshold (update_phase_estimates s) = d_carrier_lock_threshold s"
  "d_channel (update_phase_estimates s) = d_channel s"
  "d_acq_code_phase_samples (update_phase_estimates s) = d_acq_code_phase_samples s"
  "d_acq_carrier_doppler_hz (update_phase_estimates s) = d_acq_carrier_doppler_hz s"
  "d_carrier_doppler_hz (update_phase_estimates s) = d_carrier_doppler_hz s"
  "d_acc_carrier_phase_rad (update_phase_estimates s) = d_acc_carrier_phase_rad s"
  "d_code_phase_samples (update_phase_estimates s) = d_code_phase_samples s"
  "d_acc_code_phase_secs (update_phase_estimates s) = d_acc_code_phase_secs s"
  by (simp_all add: update_phase_estimates_def Let_def)

lemma pll_update_unchanged:
  "d_queue (pll_update ext s) = d_queue s"
  "d_dump (pll_update ext s) = d_dump s"
  "d_if_freq (pll_update ext s) = d_if_freq s"
  "d_fs_in (pll_update ext s) = d_fs_in s"
  "d_vector_length (pll_update ext s) = d_vector_length s"
  "d_dump_filename (pll_update ext s) = d_dump_filename s"
  "d_code_loop_filter (pll_update ext s) = d_code_loop_filter s"
  "d_carrier_aiding_enabled (pll_update ext s) = d_carrier_aiding_enabled s"
  "d_early_late_spc_chips (pll_update ext s) = d_early_late_spc_chips s"
  "d_ca_code (pll_update ext s) = d_ca_code s"
  "d_early_code (pll_update ext s) = d_early_code s"
  "d_prompt_code (pll_update ext s) = d_prompt_code s"
  "d_late_code (pll_update ext s) = d_late_code s"
  "d_Early (pll_update ext s) = d_Early s"
  "d_Prompt (pll_update ext s) = d_Prompt s"
  "d_Late (pll_update ext s) = d_Late s"
  "d_rem_code_phase_samples (pll_update ext s) = d_rem_code_phase_samples s"
  "d_acq_sample_stamp (pll_update ext s) = d_acq_sample_stamp s"
  "d_enable_tracking (pll_update ext s) = d_enable_tracking s"
  "d_pull_in (pll_update ext s) = d_pull_in s"
  "d_last_seg (pll_update ext s) = d_last_seg s"
  "d_current_prn_length_samples (pll_update ext s) = d_current_prn_length_samples s"
  "d_cn0_estimation_counter (pll_update ext s) = d_cn0_estimation_counter s"
  "d_Prompt_buffer (pll_update ext s) = d_Prompt_buffer s"
  "d_carrier_lock_test (pll_update ext s) = d_carrier_lock_test s"
  "d_CN0_SNV_dB_Hz (pll_update ext s) = d_CN0_SNV_dB_Hz s"
  "d_carrier_lock_fail_counter (pll_update ext s) = d_carrier_lock_fail_counter s"
  "d_carrier_lock_threshold (pll_update ext s) = d_carrier_lock_threshold s"
  "d_channel (pll_update ext s) = d_channel s"
  "d_acq_code_phase_samples (pll_update ext s) = d_acq_code_phase_samples s"
  "d_acq_carrier_doppler_hz (pll_update ext s) = d_acq_carrier_doppler_hz s"
  "d_code_phase_samples (pll_update ext s) = d_code_phase_samples s"
  "d_code_phase_chips (pll_update ext s) = d_code_phase_chips s"
  "d_carrier_phase_rad (pll_update ext s) = d_carrier_phase_rad s"
  "d_acc_code_phase_secs (pll_update ext s) = d_acc_code_phase_secs s"
  by (simp_all add: pll_update_def Let_def)

lemma dll_update_unchanged:
  "d_queue (dll_update ext s) = d_queue s"
  "d_dump (dll_update ext s) = d_dump s"
  "d_if_freq (dll_update ext s) = d_if_freq s"
  "d_fs_in (dll_update ext s) = d_fs_in s"
  "d_vector_length (dll_update ext s) = d_vector_length s"
  "d_dump_filename (dll_update ext s) = d_dump_filename s"
  "d_carrier_loop_filter (dll_update ext s) = d_carrier_loop_filter s"
  "d_carrier_aiding_enabled (dll_update ext s) = d_carrier_aiding_enabled s"
  "d_early_late_spc_chips (dll_update ext s) = d_early_late_spc_chips s"
  "d_ca_code (dll_update ext s) = d_ca_code s"
  "d_early_code (dll_update ext s) = d_early_code s"
  "d_prompt_code (dll_update ext s) = d_prompt_code s"
  "d_late_code (dll_update ext s) = d_late_code s"
  "d_Early (dll_update ext s) = d_Early s"
  "d_Prompt (dll_update ext s) = d_Prompt s"
  "d_Late (dll_update ext s) = d_Late s"
  "d_rem_code_phase_samples (dll_update ext s) = d_rem_code_phase_samples s"
  "d_rem_carr_phase_rad (dll_update ext s) = d_rem_carr_phase_rad s"
  "d_sample_counter (dll_update ext s) = d_sample_counter s"
  "d_acq_sample_stamp (dll_update ext s) = d_acq_sample_stamp s"
  "d_enable_tracking (dll_update ext s) = d_enable_tracking s"
  "d_pull_in (dll_update ext s) = d_pull_in s"
  "d_last_seg (dll_update ext s) = d_last_seg s"
  "d_current_prn_length_samples (dll_update ext s) = d_current_prn_length_samples s"
  "d_cn0_estimation_counter (dll_update ext s) = d_cn0_estimation_counter s"
  "d_Prompt_buffer (dll_update ext s) = d_Prompt_buffer s"
  "d_carrier_lock_test (dll_update ext s) = d_carrier_lock_test s"
  "d_CN0_SNV_dB_Hz (dll_update ext s) = d_CN0_SNV_dB_Hz s"
  "d_carrier_lock_fail_counter (dll_update ext s) = d_carrier_lock_fail_counter s"
  "d_carrier_lock_threshold (dll_update ext s) = d_carrier_lock_threshold s"
  "d_channel (dll_update ext s) = d_channel s"
  "d_acq_code_phase_samples (dll_update ext s) = d_acq_code_phase_samples s"
  "d_acq_carrier_doppler_hz (dll_update ext s) = d_acq_carrier_doppler_hz s"
  "d_carrier_doppler_hz (dll_update ext s) = d_carrier_doppler_hz s"
  "d_acc_carrier_phase_rad (dll_update ext s) = d_acc_carrier_phase_rad s"
  "d_code_phase_samples (dll_update ext s) = d_code_phase_samples s"
  "d_code_phase_chips (dll_update ext s) = d_code_phase_chips s"
  "d_carrier_phase_rad (dll_update ext s) = d_carrier_phase_rad s"
  by (simp_all add: dll_update_def Let_def)

lemma cn0_and_lock_detectors_unchanged:
  "d_dump (cn0_and_lock_detectors ext s) = d_dump s"
  "d_if_freq (cn0_and_lock_detectors ext s) = d_if_freq s"
  "d_fs_in (cn0_and_lock_detectors ext s) = d_fs_in s"
  "d_vector_length (cn0_and_lock_detectors ext s) = d_vector_length s"
  "d_dump_filename (cn0_and_lock_detectors ext s) = d_dump_filename s"
  "d_code_loop_filter (cn0_and_lock_detectors ext s) = d_code_loop_filter s"
  "d_carrier_loop_filter (cn0_and_lock_detectors ext s) = d_carrier_loop_filter s"
  "d_carrier_aiding_enabled (cn0_and_lock_detectors ext s) = d_carrier_aiding_enabled s"
  "d_early_late_spc_chips (cn0_and_lock_detectors ext s) = d_early_late_spc_chips s"
  "d_ca_code (cn0_and_lock_detectors ext s) = d_ca_code s"
  "d_early_code (cn0_and_lock_detectors ext s) = d_early_code s"
  "d_prompt_code (cn0_and_lock_detectors ext s) = d_prompt_code s"
  "d_late_code (cn0_and_lock_detectors ext s) = d_late_code s"
  "d_Early (cn0_and_lock_detectors ext s) = d_Early s"
  "d_Prompt (cn0_and_lock_detectors ext s) = d_Prompt s"
  "d_Late (cn0_and_lock_detectors ext s) = d_Late s"
  "d_code_freq_chips (cn0_and_lock_detectors ext s) = d_code_freq_chips s"
  "d_rem_code_phase_samples (cn0_and_lock_detectors ext s) = d_rem_code_phase_samples s"
  "d_rem_carr_phase_rad (cn0_and_lock_detectors ext s) = d_rem_carr_phase_rad s"
  "d_sample_counter (cn0_and_lock_detectors ext s) = d_sample_counter s"
  "d_acq_sample_stamp (cn0_and_lock_detectors ext s) = d_acq_sample_stamp s"
  "d_pull_in (cn0_and_lock_detectors ext s) = d_pull_in s"
  "d_last_seg (cn0_and_lock_detectors ext s) = d_last_seg s"
  "d_current_prn_length_samples (cn0_and_lock_detectors ext s) = d_current_prn_length_samples s"
  "d_carrier_lock_threshold (cn0_and_lock_detectors ext s) = d_carrier_lock_threshold s"
  "d_channel (cn0_and_lock_detectors ext s) = d_channel s"
  "d_acq_code_phase_samples (cn0_and_lock_detectors ext s) = d_acq_code_phase_samples s"
  "d_acq_carrier_doppler_hz (cn0_and_lock_detectors ext s) = d_acq_carrier_doppler_hz s"
  "d_carrier_doppler_hz (cn0_and_lock_detectors ext s) = d_carrier_doppler_hz s"
  "d_acc_carrier_phase_rad (cn0_and_lock_detectors ext s) = d_acc_carrier_phase_rad s"
  "d_code_phase_samples (cn0_and_lock_detectors ext s) = d_code_phase_samples s"
  "d_code_phase_chips (cn0_and_lock_detectors ext s) = d_code_phase_chips s"
  "d_carrier_phase_rad (cn0_and_lock_detectors ext s) = d_carrier_phase_rad s"
  "d_acc_code_phase_secs (cn0_and_lock_detectors ext s) = d_acc_code_phase_secs s"
  by (simp_all add: cn0_and_lock_detectors_def Let_def)


lemmas step_unchanged =
  correlate_unchanged update_phase_estimates_unchanged pll_update_unchanged
  dll_update_unchanged cn0_and_lock_detectors_unchanged

lemma update_local_code_unchanged:
  assumes "update_local_code ext s = Some s1"
  shows "d_queue s1 = d_queue s"
    and "d_dump s1 = d_dump s"
    and "d_if_freq s1 = d_if_freq s"
    and "d_fs_in s1 = d_fs_in s"
    and "d_vector_length s1 = d_vector_length s"
    and "d_dump_filename s1 = d_dump_filename s"
    and "d_code_loop_filter s1 = d_code_loop_filter s"
    and "d_carrier_loop_filter s1 = d_carrier_loop_filter s"
    and "d_carrier_aiding_enabled s1 = d_carrier_aiding_enabled s"
    and "d_early_late_spc_chips s1 = d_early_late_spc_chips s"
    and "d_ca_code s1 = d_ca_code s"
    and "d_Early s1 = d_Early s"
    and "d_Prompt s1 = d_Prompt s"
    and "d_Late s1 = d_Late s"
    and "d_code_freq_chips s1 = d_code_freq_chips s"
    and "d_rem_code_phase_samples s1 = d_rem_code_phase_samples s"
    and "d_rem_carr_phase_rad s1 = d_rem_carr_phase_rad s"
    and "d_sample_counter s1 = d_sample_counter s"
    and "d_acq_sample_stamp s1 = d_acq_sample_stamp s"
    and "d_enable_tracking s1 = d_enable_tracking s"
    and "d_pull_in s1 = d_pull_in s"
    and "d_last_seg s1 = d_last_seg s"
    and "d_current_prn_length_samples s1 = d_current_prn_length_samples s"
    and "d_cn0_estimation_counter s1 = d_cn0_estimation_counter s"
    and "d_Prompt_buffer s1 = d_Prompt_buffer s"
    and "d_carrier_lock_test s1 = d_carrier_lock_test s"
    and "d_CN0_SNV_dB_Hz s1 = d_CN0_SNV_dB_Hz s"
    and "d_carrier_lock_fail_counter s1 = d_carrier_lock_fail_counter s"
    and "d_carrier_lock_threshold s1 = d_carrier_lock_threshold s"
    and "d_channel s1 = d_channel s"
    and "d_acq_code_phase_samples s1 = d_acq_code_phase_samples s"
    and "d_acq_carrier_doppler_hz s1 = d_acq_carrier_doppler_hz s"
    and "d_carrier_doppler_hz s1 = d_carrier_doppler_hz s"
    and "d_acc_carrier_phase_rad s1 = d_acc_carrier_phase_rad s"
    and "d_code_phase_samples s1 = d_code_phase_samples s"
    and "d_code_phase_chips s1 = d_code_phase_chips s"
    and "d_carrier_phase_rad s1 = d_carrier_phase_rad s"
    and "d_acc_code_phase_secs s1 = d_acc_code_phase_secs s"
proof -
  from update_local_code_frame[OF assms] obtain es ps ls where
    "s1 = s\<lparr>d_early_code := es, d_prompt_code := ps, d_late_code := ls\<rparr>" by blast
  then show "d_queue s1 = d_queue s"
    and "d_dump s1 = d_dump s"
    and "d_if_freq s1 = d_if_freq s"
    and "d_fs_in s1 = d_fs_in s"
    and "d_vector_length s1 = d_vector_length s"
    and "d_dump_filename s1 = d_dump_filename s"
    and "d_code_loop_filter s1 = d_code_loop_filter s"
    and "d_carrier_loop_filter s1 = d_carrier_loop_filter s"
    and "d_carrier_aiding_enabled s1 = d_carrier_aiding_enabled s"
    and "d_early_late_spc_chips s1 = d_early_late_spc_chips s"
    and "d_ca_code s1 = d_ca_code s"
    and "d_Early s1 = d_Early s"
    and "d_Prompt s1 = d_Prompt s"
    and "d_Late s1 = d_Late s"
    and "d_code_freq_chips s1 = d_code_freq_chips s"
    and "d_rem_code_phase_samples s1 = d_rem_code_phase_samples s"
    and "d_rem_carr_phase_rad s1 = d_rem_carr_phase_rad s"
    and "d_sample_counter s1 = d_sample_counter s"
    and "d_acq_sample_stamp s1 = d_acq_sample_stamp s"
    and "d_enable_tracking s1 = d_enable_tracking s"
    and "d_pull_in s1 = d_pull_in s"
    and "d_last_seg s1 = d_last_seg s"
    and "d_current_prn_length_samples s1 = d_current_prn_length_samples s"
    and "d_cn0_estimation_counter s1 = d_cn0_estimation_counter s"
    and "d_Prompt_buffer s1 = d_Prompt_buffer s"
    and "d_carrier_lock_test s1 = d_carrier_lock_test s"
    and "d_CN0_SNV_dB_Hz s1 = d_CN0_SNV_dB_Hz s"
    and "d_carrier_lock_fail_counter s1 = d_carrier_lock_fail_counter s"
    and "d_carrier_lock_threshold s1 = d_carrier_lock_threshold s"
    and "d_channel s1 = d_channel s"
    and "d_acq_code_phase_samples s1 = d_acq_code_phase_samples s"
    and "d_acq_carrier_doppler_hz s1 = d_acq_carrier_doppler_hz s"
    and "d_carrier_doppler_hz s1 = d_carrier_doppler_hz s"
    and "d_acc_carrier_phase_rad s1 = d_acc_carrier_phase_rad s"
    and "d_code_phase_samples s1 = d_code_phase_samples s"
    and "d_code_phase_chips s1 = d_code_phase_chips s"
    and "d_carrier_phase_rad s1 = d_carrier_phase_rad s"
    and "d_acc_code_phase_secs s1 = d_acc_code_phase_secs s"
    by simp_all
qed


lemma general_work_tracking_Some:
  assumes "d_enable_tracking s" and "\<not> d_pull_in s"
    and u: "update_local_code ext s = Some s1"
    and "\<not> isnan (fst (d_Prompt (correlate ext inp s1)))"
    and "\<not> isnan (snd (d_Prompt (correlate ext inp s1)))"
    and fs: "d_fs_in s \<noteq> 0"
  shows "\<exists>r. general_work ext inp s = Some r"
proof -
  let ?s4 = "cn0_and_lock_detectors ext (dll_update ext (pll_update ext
               (update_phase_estimates (correlate ext inp s1))))"
  have "d_fs_in ?s4 \<noteq> 0"
    using fs by (simp add: step_unchanged update_local_code_unchanged[OF u])
  then have "debug_seconds ?s4 \<noteq> None"
    by (simp add: debug_seconds_def Let_def)
  with assms show ?thesis
    by (auto simp: general_work_def Let_def step_unchanged)
qed

lemma demo_prompt:
  "d_Prompt (correlate demo_components demo_items s) = (Fin 1, Fin 0)"
  "d_Prompt (correlate demo_components demo_nan_items s) = (NaN, NaN)"
  by (simp_all add: correlate_def demo_components_def demo_items_def demo_nan_items_def Let_def)


text \<open>The state after a completed tracking block, and when such a block completes.\<close>

lemma tracking_block_state:
  assumes r: "general_work ext inp s = Some r"
    and en: "d_enable_tracking s" and npi: "\<not> d_pull_in s"
    and u: "update_local_code ext s = Some s1"
    and nn: "\<not> isnan (fst (d_Prompt (correlate ext inp s1)))"
            "\<not> isnan (snd (d_Prompt (correlate ext inp s1)))"
  shows "\<exists>seg. state_after r =
           (cn0_and_lock_detectors ext (dll_update ext (pll_update ext
              (update_phase_estimates (correlate ext inp s1)))))
           \<lparr>d_last_seg := seg,
             d_current_prn_length_samples :=
               next_prn_length_samples (dll_update ext (pll_update ext
                 (update_phase_estimates (correlate ext inp s1))))\<rparr>"
  using r
proof (cases rule: general_work_cases)
  case (Tracking s1' s4 s5)
  from Tracking(3) u have "s1' = s1" by simp
  moreover from debug_seconds_frame[OF Tracking(7)] obtain seg where
    "s5 = s4\<lparr>d_last_seg := seg\<rparr>" by blast
  ultimately show ?thesis using Tracking(6,8) by auto
qed (use en npi u nn in auto)

lemma tracking_block_defined:
  assumes "d_enable_tracking s" and "\<not> d_pull_in s"
    and "update_local_code ext s \<noteq> None"
    and "\<And>s1. \<not> isnan (fst (d_Prompt (correlate ext inp s1)))
             \<and> \<not> isnan (snd (d_Prompt (correlate ext inp s1)))"
    and "d_fs_in s \<noteq> 0"
  shows "\<exists>r s1. general_work ext inp s = Some r \<and> update_local_code ext s = Some s1"
proof -
  from assms(3) obtain s1 where u: "update_local_code ext s = Some s1" by blast
  from general_work_tracking_Some[OF assms(1,2) u _ _ assms(5), of inp] assms(4) u
  show ?thesis by blast
qed

text \<open>The state after a block with a NaN Prompt correlation.\<close>

lemma update_local_code_lengths:
  assumes "update_local_code ext s = Some s1"
  shows "length (d_early_code s1) = length (d_early_code s)"
    and "length (d_prompt_code s1) = length (d_prompt_code s)"
    and "length (d_late_code s1) = length (d_late_code s)"
proof -
  let ?n = "nat (d_current_prn_length_samples s)"
  from assms obtain es ps ls where
    r: "epl_loop (d_ca_code s) (code_phase_step_fxp ext s) ?n (early_code_phase_fxp ext s)
          (prompt_code_phase_fxp ext s) (late_code_phase_fxp ext s) = Some (es, ps, ls)"
    and s1: "s1 = s\<lparr>d_early_code := es @ drop ?n (d_early_code s),
                     d_prompt_code := ps @ drop ?n (d_prompt_code s),
                     d_late_code := ls @ drop ?n (d_late_code s)\<rparr>"
    and le: "?n \<le> length (d_early_code s)" "?n \<le> length (d_prompt_code s)"
            "?n \<le> length (d_late_code s)"
    by (auto simp: update_local_code_def Let_def split: if_splits option.splits)
  from epl_loop_length[OF r] s1 le
  show "length (d_early_code s1) = length (d_early_code s)"
    and "length (d_prompt_code s1) = length (d_prompt_code s)"
    and "length (d_late_code s1) = length (d_late_code s)"
    by simp_all
qed

lemma nan_block_state:
  assumes r: "general_work ext inp s = Some r"
    and en: "d_enable_tracking s" and npi: "\<not> d_pull_in s"
    and u: "update_local_code ext s = Some s1"
    and nan: "isnan (fst (d_Prompt (correlate ext inp s1)))
              \<or> isnan (snd (d_Prompt (correlate ext inp s1)))"
  shows "state_after r =
           (update_phase_estimates (correlate ext inp s1))
             \<lparr>d_sample_counter := d_sample_counter s + word_of_int (ninput_items inp)\<rparr>"
  using r
proof (cases rule: general_work_cases)
  case (NaN s1')
  from NaN(3) u have "s1' = s1" by simp
  with NaN(5) show ?thesis
    by (simp add: nan_samples_def Let_def step_unchanged update_local_code_unchanged[OF u])
qed (use en npi u nan in auto)

lemma nan_block_defined:
  assumes "d_enable_tracking s" and "\<not> d_pull_in s"
    and "update_local_code ext s \<noteq> None"
    and "\<And>s1. isnan (fst (d_Prompt (correlate ext inp s1)))"
  shows "\<exists>r s1. general_work ext inp s = Some r \<and> update_local_code ext s = Some s1"
proof -
  from assms(3) obtain s1 where u: "update_local_code ext s = Some s1" by blast
  have "d_Prompt (update_phase_estimates (correlate ext inp s1)) = d_Prompt (correlate ext inp s1)"
    by (simp add: step_unchanged)
  with assms(1,2,4) u have
    "general_work ext inp s
       = Some (nan_samples inp (update_phase_estimates (correlate ext inp s1)))"
    by (simp add: general_work_def Let_def)
  with u show ?thesis by blast
qed

subsection \<open>Rounding and remainders\<close>

lemma c_round_error: "\<bar>real_of_int (c_round x) - x\<bar> \<le> 1 / 2"
proof (cases "0 \<le> x")
  case True
  have "real_of_int \<lfloor>x + 1 / 2\<rfloor> \<le> x + 1 / 2" "x + 1 / 2 < real_of_int \<lfloor>x + 1 / 2\<rfloor> + 1"
    by linarith+
  then have "\<bar>real_of_int \<lfloor>x + 1 / 2\<rfloor> - x\<bar> \<le> 1 / 2" by linarith
  with True show ?thesis by (simp only: c_round_def if_True)
next
  case False
  have "x - 1 / 2 \<le> real_of_int \<lceil>x - 1 / 2\<rceil>" "real_of_int \<lceil>x - 1 / 2\<rceil> < x - 1 / 2 + 1"
    by linarith+
  then have "\<bar>real_of_int \<lceil>x - 1 / 2\<rceil> - x\<bar> \<le> 1 / 2" by linarith
  with False show ?thesis by (simp only: c_round_def if_False)
qed

text \<open>\<^verbatim>\<open>fmod\<close> by a positive number: the result is smaller than the divisor and has
  the sign of the dividend.\<close>

lemma c_fmod_nonneg:
  assumes "0 \<le> x" and "0 < y"
  shows "0 \<le> c_fmod x y \<and> c_fmod x y < y"
proof -
  define q where "q = x / y"
  from assms have q: "0 \<le> q" and x: "x = q * y" by (simp_all add: q_def)
  have "real_of_int \<lfloor>q\<rfloor> \<le> q" "q < real_of_int \<lfloor>q\<rfloor> + 1" by linarith+
  with assms(2) have "real_of_int \<lfloor>q\<rfloor> * y \<le> q * y" "q * y < (real_of_int \<lfloor>q\<rfloor> + 1) * y"
    by (simp_all add: mult_right_mono)
  then have "0 \<le> x - real_of_int \<lfloor>q\<rfloor> * y" "x - real_of_int \<lfloor>q\<rfloor> * y < y"
    by (simp_all add: x algebra_simps)
  moreover from q have "c_fmod x y = x - real_of_int \<lfloor>q\<rfloor> * y"
    by (simp add: c_fmod_def c_trunc_def q_def)
  ultimately show ?thesis by simp
qed

lemma c_fmod_nonpos:
  assumes "x \<le> 0" and "0 < y"
  shows "- y < c_fmod x y \<and> c_fmod x y \<le> 0"
proof (cases "x = 0")
  case True
  with assms show ?thesis by (simp add: c_fmod_def c_trunc_def)
next
  case False
  define q where "q = x / y"
  from False assms have q: "q < 0" and x: "x = q * y"
    by (simp_all add: q_def divide_neg_pos)
  have "q \<le> real_of_int \<lceil>q\<rceil>" "real_of_int \<lceil>q\<rceil> < q + 1" by linarith+
  with assms(2) have "q * y \<le> real_of_int \<lceil>q\<rceil> * y" "real_of_int \<lceil>q\<rceil> * y < (q + 1) * y"
    by (simp_all add: mult_right_mono)
  then have "x - real_of_int \<lceil>q\<rceil> * y \<le> 0" "- y < x - real_of_int \<lceil>q\<rceil> * y"
    by (simp_all add: x algebra_simps)
  moreover from q have "c_fmod x y = x - real_of_int \<lceil>q\<rceil> * y"
    by (simp add: c_fmod_def c_trunc_def q_def)
  ultimately show ?thesis by simp
qed

lemma c_fmod_abs: "0 < y \<Longrightarrow> \<bar>c_fmod x y\<bar> < y"
  using c_fmod_nonneg[of x y] c_fmod_nonpos[of x y] by (cases "0 \<le> x") auto

lemma pll_update_rem_carr:
  "d_rem_carr_phase_rad (pll_update ext s)
     = c_fmod (d_rem_carr_phase_rad s
               + GPS_TWO_PI * (real_of_int (d_if_freq s) + d_carrier_doppler_hz (pll_update ext s))
                   * GPS_L1_CA_CODE_PERIOD)
              GPS_TWO_PI"
  by (simp add: pll_update_def Let_def)

lemma update_phase_estimates_code_phase:
  "d_code_phase_chips (update_phase_estimates s)
     = c_fmod (d_code_phase_chips s
               + real_of_int (d_current_prn_length_samples s) / real_of_int (d_fs_in s)
                   * d_code_freq_chips s)
              GPS_L1_CA_CODE_LENGTH_CHIPS"
  by (simp add: update_phase_estimates_def Let_def)

lemma update_phase_estimates_rem:
  "d_rem_code_phase_samples (update_phase_estimates s)
     = (if GPS_L1_CA_CODE_LENGTH_CHIPS - d_code_phase_chips (update_phase_estimates s)
            > GPS_L1_CA_CODE_LENGTH_CHIPS / 2
        then GPS_L1_CA_CODE_LENGTH_CHIPS - d_code_phase_chips (update_phase_estimates s)
               - GPS_L1_CA_CODE_LENGTH_CHIPS
        else GPS_L1_CA_CODE_LENGTH_CHIPS - d_code_phase_chips (update_phase_estimates s))
       * real_of_int (d_fs_in s) / GPS_L1_CA_CODE_RATE_HZ"
  by (simp add: update_phase_estimates_def Let_def)

lemma pll_update_doppler:
  "d_carrier_doppler_hz (pll_update ext s)
     = fst (get_carrier_nco ext (d_carrier_loop_filter s)
              (pll_cloop_two_quadrant_atan ext (d_Prompt s) / GPS_TWO_PI))"
  by (simp add: pll_update_def Let_def)

lemma pll_update_code_freq:
  "d_code_freq_chips (pll_update ext s)
     = (if d_carrier_aiding_enabled s
        then GPS_L1_CA_CODE_RATE_HZ
               + (d_carrier_doppler_hz (pll_update ext s) * GPS_L1_CA_CODE_RATE_HZ)
                   / GPS_L1_FREQ_HZ
        else GPS_L1_CA_CODE_RATE_HZ)"
  by (simp add: pll_update_def Let_def)

lemma dll_update_code_freq:
  "d_code_freq_chips (dll_update ext s)
     = d_code_freq_chips s
       + fst (get_code_nco ext (d_code_loop_filter s)
                (dll_nc_e_minus_l_normalized ext (d_Early s) (d_Late s)
                   * (1 - d_early_late_spc_chips s)))"
  by (simp add: dll_update_def Let_def)

text \<open>The example channels with a Doppler of 1540 and of \<open>- 1540\<close> Hz.\<close>

lemma demo_doppler_defs:
  "d_current_prn_length_samples (demo_tracking_doppler 1540) = 4092"
  "d_code_freq_chips (demo_tracking_doppler 1540) = 1023001"
  "d_carrier_doppler_hz (demo_tracking_doppler 1540) = 1540"
  "d_carrier_loop_filter (demo_tracking_doppler 1540) = 1540"
  "d_code_loop_filter (demo_tracking_doppler 1540) = 0"
  "d_current_prn_length_samples (demo_tracking_doppler (- 1540)) = 4092"
  "d_code_freq_chips (demo_tracking_doppler (- 1540)) = 1022999"
  "d_carrier_doppler_hz (demo_tracking_doppler (- 1540)) = - 1540"
  "d_carrier_loop_filter (demo_tracking_doppler (- 1540)) = - 1540"
  "d_code_loop_filter (demo_tracking_doppler (- 1540)) = 0"
  by (simp_all add: demo_tracking_doppler_def pull_in_alignment_def Let_def
      demo_started_doppler_def demo_items_doppler_def demo_acquisition_doppler_def
      start_tracking_def demo_defs
      gps_constants c_round_def c_fmod_def c_trunc_def)

lemma demo_doppler_scalars:
  "d_fs_in (demo_tracking_doppler d) = 4092000"
  "d_if_freq (demo_tracking_doppler d) = 0"
  "d_early_late_spc_chips (demo_tracking_doppler d) = 1 / 2"
  "d_rem_code_phase_samples (demo_tracking_doppler d) = 0"
  "d_rem_carr_phase_rad (demo_tracking_doppler d) = 0"
  "d_code_phase_chips (demo_tracking_doppler d) = 0"
  "d_carrier_aiding_enabled (demo_tracking_doppler d)"
  "d_enable_tracking (demo_tracking_doppler d)"
  "\<not> d_pull_in (demo_tracking_doppler d)"
  "length (d_early_code (demo_tracking_doppler d)) = 8184"
  "length (d_prompt_code (demo_tracking_doppler d)) = 8184"
  "length (d_late_code (demo_tracking_doppler d)) = 8184"
  "length (d_ca_code (demo_tracking_doppler d)) = 1025"
  by (simp_all add: demo_tracking_doppler_def pull_in_alignment_def Let_def
      demo_started_doppler_def demo_items_doppler_def demo_acquisition_doppler_def
      start_tracking_def demo_defs
      gps_constants)

lemma demo_doppler_prompt:
  "d_Prompt (correlate demo_components (demo_items_doppler d) s) = (Fin 1, Fin 0)"
  by (simp add: correlate_def demo_components_def demo_items_doppler_def demo_items_def Let_def)

lemma demo_doppler_replicas:
  "update_local_code demo_components (demo_tracking_doppler 1540) \<noteq> None"
  "update_local_code demo_components (demo_tracking_doppler (- 1540)) \<noteq> None"
proof -
  have fxp:
    "early_code_phase_fxp demo_components (demo_tracking_doppler d) = 2147483648"
    "prompt_code_phase_fxp demo_components (demo_tracking_doppler d) = 0"
    "late_code_phase_fxp demo_components (demo_tracking_doppler d) = - 2147483648" for d
    by (simp_all add: early_code_phase_fxp_def prompt_code_phase_fxp_def
        late_code_phase_fxp_def tcode_chips_def demo_doppler_scalars
        demo_components_def double_to_fxpt64_spec_def c_trunc_def)
  have stp:
    "code_phase_step_fxp demo_components (demo_tracking_doppler 1540) = 1073742873"
    "code_phase_step_fxp demo_components (demo_tracking_doppler (- 1540)) = 1073740774"
    by (simp_all add: code_phase_step_fxp_def demo_doppler_scalars demo_doppler_defs
        demo_components_def double_to_fxpt64_spec_def c_trunc_def)
  let ?s = "demo_tracking_doppler 1540"
  have "\<exists>es ps ls. length es = 4092 \<and> length ps = 4092 \<and> length ls = 4092 \<and>
          update_local_code demo_components ?s =
            Some (?s\<lparr>d_early_code := es @ drop 4092 (d_early_code ?s),
                    d_prompt_code := ps @ drop 4092 (d_prompt_code ?s),
                    d_late_code := ls @ drop 4092 (d_late_code ?s)\<rparr>)"
    by (rule update_local_code_defined)
       (simp_all add: demo_doppler_scalars demo_doppler_defs fxp stp)
  then show "update_local_code demo_components (demo_tracking_doppler 1540) \<noteq> None" by auto
  let ?s = "demo_tracking_doppler (- 1540)"
  have "\<exists>es ps ls. length es = 4092 \<and> length ps = 4092 \<and> length ls = 4092 \<and>
          update_local_code demo_components ?s =
            Some (?s\<lparr>d_early_code := es @ drop 4092 (d_early_code ?s),
                    d_prompt_code := ps @ drop 4092 (d_prompt_code ?s),
                    d_late_code := ls @ drop 4092 (d_late_code ?s)\<rparr>)"
    by (rule update_local_code_defined)
       (simp_all add: demo_doppler_scalars demo_doppler_defs fxp stp)
  then show "update_local_code demo_components (demo_tracking_doppler (- 1540)) \<noteq> None" by auto
qed

text \<open>The estimates after a completed tracking block.\<close>

lemma tracking_block_fields:
  assumes r: "general_work ext inp s = Some r"
    and en: "d_enable_tracking s" and npi: "\<not> d_pull_in s"
    and u: "update_local_code ext s = Some s1"
    and nn: "\<not> isnan (fst (d_Prompt (correlate ext inp s1)))"
            "\<not> isnan (snd (d_Prompt (correlate ext inp s1)))"
  shows "d_fs_in (state_after r) = d_fs_in s"
    and "d_carrier_doppler_hz (state_after r)
           = fst (get_carrier_nco ext (d_carrier_loop_filter s)
                    (pll_cloop_two_quadrant_atan ext (d_Prompt (correlate ext inp s1))
                       / GPS_TWO_PI))"
    and "d_rem_carr_phase_rad (state_after r)
           = c_fmod (d_rem_carr_phase_rad s
                     + GPS_TWO_PI
                         * (real_of_int (d_if_freq s) + d_carrier_doppler_hz (state_after r))
                         * GPS_L1_CA_CODE_PERIOD)
                    GPS_TWO_PI"
    and "d_code_freq_chips (state_after r)
           = (if d_carrier_aiding_enabled s
              then GPS_L1_CA_CODE_RATE_HZ
                     + (d_carrier_doppler_hz (state_after r) * GPS_L1_CA_CODE_RATE_HZ)
                         / GPS_L1_FREQ_HZ
              else GPS_L1_CA_CODE_RATE_HZ)
             + fst (get_code_nco ext (d_code_loop_filter s)
                      (dll_nc_e_minus_l_normalized ext (d_Early (correlate ext inp s1))
                         (d_Late (correlate ext inp s1))
                       * (1 - d_early_late_spc_chips s)))"
    and "d_code_phase_chips (state_after r)
           = c_fmod (d_code_phase_chips s
                     + real_of_int (d_current_prn_length_samples s) / real_of_int (d_fs_in s)
                         * d_code_freq_chips s)
                    GPS_L1_CA_CODE_LENGTH_CHIPS"
    and "d_rem_code_phase_samples (state_after r)
           = (if GPS_L1_CA_CODE_LENGTH_CHIPS - d_code_phase_chips (state_after r)
                  > GPS_L1_CA_CODE_LENGTH_CHIPS / 2
              then GPS_L1_CA_CODE_LENGTH_CHIPS - d_code_phase_chips (state_after r)
                     - GPS_L1_CA_CODE_LENGTH_CHIPS
              else GPS_L1_CA_CODE_LENGTH_CHIPS - d_code_phase_chips (state_after r))
             * real_of_int (d_fs_in s) / GPS_L1_CA_CODE_RATE_HZ"
    and "d_current_prn_length_samples (state_after r)
           = c_round (T_prn_samples (state_after r) + d_rem_code_phase_samples (state_after r))"
proof -
  let ?s0 = "correlate ext inp s1"
  let ?s2 = "update_phase_estimates ?s0"
  let ?s3 = "dll_update ext (pll_update ext ?s2)"
  let ?s4 = "cn0_and_lock_detectors ext ?s3"
  from tracking_block_state[OF r en npi u nn] obtain seg where
    st: "state_after r =
           ?s4\<lparr>d_last_seg := seg, d_current_prn_length_samples := next_prn_length_samples ?s3\<rparr>"
    by blast
  note uu = update_local_code_unchanged[OF u]
  have sel:
    "d_fs_in (state_after r) = d_fs_in ?s3"
    "d_carrier_doppler_hz (state_after r) = d_carrier_doppler_hz (pll_update ext ?s2)"
    "d_rem_carr_phase_rad (state_after r) = d_rem_carr_phase_rad (pll_update ext ?s2)"
    "d_code_freq_chips (state_after r) = d_code_freq_chips ?s3"
    "d_code_phase_chips (state_after r) = d_code_phase_chips ?s2"
    "d_rem_code_phase_samples (state_after r) = d_rem_code_phase_samples ?s2"
    "d_current_prn_length_samples (state_after r) = next_prn_length_samples ?s3"
    by (simp_all add: st step_unchanged)
  have s3: "d_rem_code_phase_samples ?s3 = d_rem_code_phase_samples ?s2"
    by (simp add: step_unchanged)
  have s2: "d_carrier_loop_filter ?s2 = d_carrier_loop_filter s"
    "d_Prompt ?s2 = d_Prompt ?s0" "d_rem_carr_phase_rad ?s2 = d_rem_carr_phase_rad s"
    "d_if_freq ?s2 = d_if_freq s" "d_carrier_aiding_enabled ?s2 = d_carrier_aiding_enabled s"
    "d_code_loop_filter (pll_update ext ?s2) = d_code_loop_filter s"
    "d_Early (pll_update ext ?s2) = d_Early ?s0" "d_Late (pll_update ext ?s2) = d_Late ?s0"
    "d_early_late_spc_chips (pll_update ext ?s2) = d_early_late_spc_chips s"
    "d_code_phase_chips ?s0 = d_code_phase_chips s"
    "d_current_prn_length_samples ?s0 = d_current_prn_length_samples s"
    "d_fs_in ?s0 = d_fs_in s" "d_code_freq_chips ?s0 = d_code_freq_chips s"
    "d_fs_in ?s3 = d_fs_in s"
    by (simp_all add: step_unchanged uu)
  show "d_fs_in (state_after r) = d_fs_in s"
    by (simp only: sel s2)
  show "d_carrier_doppler_hz (state_after r)
           = fst (get_carrier_nco ext (d_carrier_loop_filter s)
                    (pll_cloop_two_quadrant_atan ext (d_Prompt (correlate ext inp s1))
                       / GPS_TWO_PI))"
    by (simp only: sel pll_update_doppler s2)
  show "d_rem_carr_phase_rad (state_after r)
           = c_fmod (d_rem_carr_phase_rad s
                     + GPS_TWO_PI
                         * (real_of_int (d_if_freq s) + d_carrier_doppler_hz (state_after r))
                         * GPS_L1_CA_CODE_PERIOD)
                    GPS_TWO_PI"
    by (simp only: sel pll_update_rem_carr s2)
  show "d_code_freq_chips (state_after r)
           = (if d_carrier_aiding_enabled s
              then GPS_L1_CA_CODE_RATE_HZ
                     + (d_carrier_doppler_hz (state_after r) * GPS_L1_CA_CODE_RATE_HZ)
                         / GPS_L1_FREQ_HZ
              else GPS_L1_CA_CODE_RATE_HZ)
             + fst (get_code_nco ext (d_code_loop_filter s)
                      (dll_nc_e_minus_l_normalized ext (d_Early (correlate ext inp s1))
                         (d_Late (correlate ext inp s1))
                       * (1 - d_early_late_spc_chips s)))"
    by (simp only: sel dll_update_code_freq pll_update_code_freq s2)
  show "d_code_phase_chips (state_after r)
           = c_fmod (d_code_phase_chips s
                     + real_of_int (d_current_prn_length_samples s) / real_of_int (d_fs_in s)
                         * d_code_freq_chips s)
                    GPS_L1_CA_CODE_LENGTH_CHIPS"
    by (simp only: sel update_phase_estimates_code_phase s2)
  show "d_rem_code_phase_samples (state_after r)
           = (if GPS_L1_CA_CODE_LENGTH_CHIPS - d_code_phase_chips (state_after r)
                  > GPS_L1_CA_CODE_LENGTH_CHIPS / 2
              then GPS_L1_CA_CODE_LENGTH_CHIPS - d_code_phase_chips (state_after r)
                     - GPS_L1_CA_CODE_LENGTH_CHIPS
              else GPS_L1_CA_CODE_LENGTH_CHIPS - d_code_phase_chips (state_after r))
             * real_of_int (d_fs_in s) / GPS_L1_CA_CODE_RATE_HZ"
    by (simp only: sel update_phase_estimates_rem s2)
  show "d_current_prn_length_samples (state_after r)
           = c_round (T_prn_samples (state_after r) + d_rem_code_phase_samples (state_after r))"
    by (simp only: sel T_prn_samples_def next_prn_length_samples_def s3)
qed

text \<open>One tracking block of the two example channels with a Doppler.\<close>

lemma demo_components_filters:
  "get_carrier_nco demo_components f e = (f + e, f + e)"
  "get_code_nco demo_components f e = (f + e, f + e)"
  "pll_cloop_two_quadrant_atan demo_components P = 0"
  "dll_nc_e_minus_l_normalized demo_components E L = 0"
  by (simp_all add: demo_components_def)

lemma demo_approaching_block:
  "\<exists>r s1. general_work demo_components (demo_items_doppler 1540) (demo_tracking_doppler 1540)
            = Some r
     \<and> update_local_code demo_components (demo_tracking_doppler 1540) = Some s1
     \<and> d_carrier_doppler_hz (state_after r) = 1540
     \<and> d_rem_carr_phase_rad (state_after r) = 27 * pi / 25
     \<and> d_code_freq_chips (state_after r) = 1023001
     \<and> d_code_phase_chips (state_after r) = 1 / 1000
     \<and> d_rem_code_phase_samples (state_after r) = - (1 / 250)
     \<and> d_current_prn_length_samples (state_after r) = 4092"
proof -
  let ?s = "demo_tracking_doppler 1540"
  let ?i = "demo_items_doppler 1540"
  have "\<exists>r s1. general_work demo_components ?i ?s = Some r
          \<and> update_local_code demo_components ?s = Some s1"
    by (rule tracking_block_defined)
       (simp_all add: demo_doppler_scalars demo_doppler_replicas demo_doppler_prompt)
  then obtain r s1 where r: "general_work demo_components ?i ?s = Some r"
    and u: "update_local_code demo_components ?s = Some s1" by blast
  have en: "d_enable_tracking ?s" and npi: "\<not> d_pull_in ?s"
    and nn: "\<not> isnan (fst (d_Prompt (correlate demo_components ?i s1)))"
            "\<not> isnan (snd (d_Prompt (correlate demo_components ?i s1)))"
    by (simp_all add: demo_doppler_scalars demo_doppler_prompt)
  note f = tracking_block_fields[OF r en npi u nn]
  have fs: "d_fs_in (state_after r) = 4092000"
    by (simp add: f(1) demo_doppler_scalars)
  have dop: "d_carrier_doppler_hz (state_after r) = 1540"
    by (simp add: f(2) demo_components_filters demo_doppler_defs)
  have remc: "d_rem_carr_phase_rad (state_after r) = 27 * pi / 25"
    by (simp add: f(3) dop demo_doppler_scalars gps_constants c_fmod_def c_trunc_def)
  have cf: "d_code_freq_chips (state_after r) = 1023001"
    by (simp add: f(4) dop demo_doppler_scalars demo_doppler_defs demo_components_filters
        gps_constants)
  have cp: "d_code_phase_chips (state_after r) = 1 / 1000"
    by (simp add: f(5) demo_doppler_scalars demo_doppler_defs gps_constants c_fmod_def
        c_trunc_def)
  have rem: "d_rem_code_phase_samples (state_after r) = - (1 / 250)"
    by (simp add: f(6) cp demo_doppler_scalars gps_constants)
  have len: "d_current_prn_length_samples (state_after r) = 4092"
    by (simp add: f(7) T_prn_samples_def cf fs rem gps_constants c_round_def)
  from r u dop remc cf cp rem len show ?thesis by blast
qed


lemma demo_receding_block:
  "\<exists>r s1. general_work demo_components (demo_items_doppler (- 1540)) (demo_tracking_doppler (- 1540))
            = Some r
     \<and> update_local_code demo_components (demo_tracking_doppler (- 1540)) = Some s1
     \<and> d_carrier_doppler_hz (state_after r) = - 1540
     \<and> d_rem_carr_phase_rad (state_after r) = - (27 * pi / 25)
     \<and> d_code_freq_chips (state_after r) = 1022999
     \<and> d_code_phase_chips (state_after r) = 1022999 / 1000
     \<and> d_rem_code_phase_samples (state_after r) = 1 / 250
     \<and> d_current_prn_length_samples (state_after r) = 4092"
proof -
  let ?s = "demo_tracking_doppler (- 1540)"
  let ?i = "demo_items_doppler (- 1540)"
  have "\<exists>r s1. general_work demo_components ?i ?s = Some r
          \<and> update_local_code demo_components ?s = Some s1"
    by (rule tracking_block_defined)
       (simp_all add: demo_doppler_scalars demo_doppler_replicas demo_doppler_prompt)
  then obtain r s1 where r: "general_work demo_components ?i ?s = Some r"
    and u: "update_local_code demo_components ?s = Some s1" by blast
  have en: "d_enable_tracking ?s" and npi: "\<not> d_pull_in ?s"
    and nn: "\<not> isnan (fst (d_Prompt (correlate demo_components ?i s1)))"
            "\<not> isnan (snd (d_Prompt (correlate demo_components ?i s1)))"
    by (simp_all add: demo_doppler_scalars demo_doppler_prompt)
  note f = tracking_block_fields[OF r en npi u nn]
  have fs: "d_fs_in (state_after r) = 4092000"
    by (simp add: f(1) demo_doppler_scalars)
  have dop: "d_carrier_doppler_hz (state_after r) = - 1540"
    by (simp add: f(2) demo_components_filters demo_doppler_defs)
  have remc: "d_rem_carr_phase_rad (state_after r) = - (27 * pi / 25)"
    by (simp add: f(3) dop demo_doppler_scalars gps_constants c_fmod_def c_trunc_def)
  have cf: "d_code_freq_chips (state_after r) = 1022999"
    by (simp add: f(4) dop demo_doppler_scalars demo_doppler_defs demo_components_filters
        gps_constants)
  have cp: "d_code_phase_chips (state_after r) = 1022999 / 1000"
    by (simp add: f(5) demo_doppler_scalars demo_doppler_defs gps_constants c_fmod_def
        c_trunc_def)
  have rem: "d_rem_code_phase_samples (state_after r) = 1 / 250"
    by (simp add: f(6) cp demo_doppler_scalars gps_constants)
  have len: "d_current_prn_length_samples (state_after r) = 4092"
    by (simp add: f(7) T_prn_samples_def cf fs rem gps_constants c_round_def)
  from r u dop remc cf cp rem len show ?thesis by blast
qed


text \<open>The channel sampled at 4.0005 MHz: two blocks with a NaN correlation, in which
  the code phase advances while the block length stays, then a clean block.\<close>

lemma drift_tracking_start: "drifting drift_tracking 0"
  by (simp add: drifting_def drift_tracking_def drift_started_def drift_object_def drift_items_def
      pull_in_alignment_def start_tracking_def Let_def demo_defs gps_constants
      c_round_def c_fmod_def c_trunc_def)

lemma drift_prompt:
  "d_Prompt (correlate demo_components drift_items s) = (Fin 1, Fin 0)"
  "d_Prompt (correlate demo_components drift_nan_items s) = (NaN, NaN)"
  by (simp_all add: correlate_def demo_components_def drift_items_def drift_nan_items_def
      Let_def)

lemma drift_replicas:
  assumes "drifting s k" and "k = 0 \<or> k = 1 \<or> k = 2 \<or> k = 3 \<or> k = 4"
  shows "update_local_code demo_components s \<noteq> None"
proof -
  from assms(1) have f:
    "d_current_prn_length_samples s = 4001" "d_fs_in s = 4000500"
    "d_code_freq_chips s = 1023000" "d_early_late_spc_chips s = 1 / 2"
    "length (d_early_code s) = 8002" "length (d_prompt_code s) = 8002"
    "length (d_late_code s) = 8002" "length (d_ca_code s) = 1025"
    "d_rem_code_phase_samples s = - (k / 2)"
    by (simp_all add: drifting_def)
  have "\<exists>es ps ls. length es = 4001 \<and> length ps = 4001 \<and> length ls = 4001 \<and>
          update_local_code demo_components s =
            Some (s\<lparr>d_early_code := es @ drop 4001 (d_early_code s),
                    d_prompt_code := ps @ drop 4001 (d_prompt_code s),
                    d_late_code := ls @ drop 4001 (d_late_code s)\<rparr>)"
    using assms(2)
    by (intro update_local_code_defined)
       (auto simp: f early_code_phase_fxp_def prompt_code_phase_fxp_def
          late_code_phase_fxp_def code_phase_step_fxp_def tcode_chips_def
          demo_components_def double_to_fxpt64_spec_def c_trunc_def)
  then show ?thesis by auto
qed

lemma drift_nan_step:
  assumes d: "drifting s k" and k: "k = 0 \<or> k = 1 \<or> k = 2 \<or> k = 3 \<or> k = 4"
  shows "\<exists>r. general_work demo_components drift_nan_items s = Some r
           \<and> drifting (state_after r) (k + 1)"
proof -
  from d have en: "d_enable_tracking s" and npi: "\<not> d_pull_in s"
    by (simp_all add: drifting_def)
  from drift_replicas[OF d k] have "update_local_code demo_components s \<noteq> None" .
  from nan_block_defined[OF en npi this, of drift_nan_items] obtain r s1 where
    r: "general_work demo_components drift_nan_items s = Some r"
    and u: "update_local_code demo_components s = Some s1"
    by (auto simp: drift_prompt)
  have nan: "isnan (fst (d_Prompt (correlate demo_components drift_nan_items s1)))
             \<or> isnan (snd (d_Prompt (correlate demo_components drift_nan_items s1)))"
    by (simp add: drift_prompt)
  note st = nan_block_state[OF r en npi u nan]
  note uu = update_local_code_unchanged[OF u]
  note ul = update_local_code_lengths[OF u]
  from d have f:
    "d_current_prn_length_samples s = 4001" "d_fs_in s = 4000500" "d_if_freq s = 0"
    "d_code_freq_chips s = 1023000" "d_early_late_spc_chips s = 1 / 2"
    "d_carrier_aiding_enabled s" "d_carrier_loop_filter s = 0" "d_code_loop_filter s = 0"
    "length (d_early_code s) = 8002" "length (d_prompt_code s) = 8002"
    "length (d_late_code s) = 8002" "length (d_ca_code s) = 1025"
    "d_code_phase_chips s = k * 1023 / 8001"
    by (simp_all add: drifting_def)
  have cp: "d_code_phase_chips (state_after r) = (k + 1) * 1023 / 8001"
    using k
    by (auto simp: st step_unchanged update_phase_estimates_code_phase uu f gps_constants
        c_fmod_def c_trunc_def)
  have rem: "d_rem_code_phase_samples (state_after r) = - ((k + 1) / 2)"
  proof -
    have "d_rem_code_phase_samples (state_after r)
            = d_rem_code_phase_samples (update_phase_estimates
                (correlate demo_components drift_nan_items s1))"
      by (simp add: st)
    moreover have "d_code_phase_chips (update_phase_estimates
                (correlate demo_components drift_nan_items s1)) = (k + 1) * 1023 / 8001"
      using cp by (simp add: st)
    ultimately show ?thesis
      using k
      by (auto simp: update_phase_estimates_rem step_unchanged uu f gps_constants)
  qed
  have "drifting (state_after r) (k + 1)"
    unfolding drifting_def
    using en npi cp rem
    by (simp add: st step_unchanged uu ul f)
  with r show ?thesis by blast
qed

lemma drift_final_step:
  assumes d: "drifting s 2"
  shows "\<exists>r. general_work demo_components drift_items s = Some r
           \<and> d_current_prn_length_samples (state_after r) = 3999
           \<and> d_fs_in (state_after r) = 4000500
           \<and> d_code_freq_chips (state_after r) = 1023000
           \<and> d_rem_code_phase_samples (state_after r) = - (3 / 2)"
proof -
  from d have en: "d_enable_tracking s" and npi: "\<not> d_pull_in s"
    by (simp_all add: drifting_def)
  from d have f:
    "d_current_prn_length_samples s = 4001" "d_fs_in s = 4000500" "d_if_freq s = 0"
    "d_code_freq_chips s = 1023000" "d_early_late_spc_chips s = 1 / 2"
    "d_carrier_aiding_enabled s" "d_carrier_loop_filter s = 0" "d_code_loop_filter s = 0"
    "d_code_phase_chips s = 2 * 1023 / 8001"
    by (simp_all add: drifting_def)
  have "update_local_code demo_components s \<noteq> None"
    by (rule drift_replicas[OF d]) simp
  then have "\<exists>r s1. general_work demo_components drift_items s = Some r
          \<and> update_local_code demo_components s = Some s1"
    by (intro tracking_block_defined) (simp_all add: en npi drift_prompt f)
  then obtain r s1 where r: "general_work demo_components drift_items s = Some r"
    and u: "update_local_code demo_components s = Some s1" by blast
  have nn: "\<not> isnan (fst (d_Prompt (correlate demo_components drift_items s1)))"
           "\<not> isnan (snd (d_Prompt (correlate demo_components drift_items s1)))"
    by (simp_all add: drift_prompt)
  note fl = tracking_block_fields[OF r en npi u nn]
  have fs: "d_fs_in (state_after r) = 4000500" by (simp add: fl(1) f)
  have dop: "d_carrier_doppler_hz (state_after r) = 0"
    by (simp add: fl(2) demo_components_filters f)
  have cf: "d_code_freq_chips (state_after r) = 1023000"
    by (simp add: fl(4) dop f demo_components_filters gps_constants)
  have cp: "d_code_phase_chips (state_after r) = 3069 / 8001"
    by (simp add: fl(5) f gps_constants c_fmod_def c_trunc_def)
  have rem: "d_rem_code_phase_samples (state_after r) = - (3 / 2)"
    by (simp add: fl(6) cp f gps_constants)
  have len: "d_current_prn_length_samples (state_after r) = 3999"
    by (simp add: fl(7) T_prn_samples_def cf fs rem gps_constants c_round_def)
  from r fs cf rem len show ?thesis by blast
qed

lemma drift_pull_in:
  "general_work demo_components drift_items drift_started
     = Some (pull_in_alignment drift_items drift_started)"
  by (simp add: general_work_def drift_started_def start_tracking_def Let_def)

subsection \<open>The sample counter\<close>









subsection \<open>The replicas of a block\<close>

text \<open>Five blocks with a NaN correlation on the channel sampled at 4.0005 MHz leave a
  remainder of \<open>- 2.5\<close> samples; the Early phase of the last sample of the next block is
  then at chip 1024.\<close>

lemma drift_five_nans_run:
  "\<exists>s. run demo_components drift_five_nans drift_started = Some s \<and> drifting s 5"
proof -
  from drift_nan_step[OF drift_tracking_start] obtain r1 where
    r1: "general_work demo_components drift_nan_items drift_tracking = Some r1"
    and d1: "drifting (state_after r1) 1" by auto
  from drift_nan_step[OF d1] obtain r2 where
    r2: "general_work demo_components drift_nan_items (state_after r1) = Some r2"
    and d2: "drifting (state_after r2) 2" by auto
  from drift_nan_step[OF d2] obtain r3 where
    r3: "general_work demo_components drift_nan_items (state_after r2) = Some r3"
    and d3: "drifting (state_after r3) 3" by auto
  from drift_nan_step[OF d3] obtain r4 where
    r4: "general_work demo_components drift_nan_items (state_after r3) = Some r4"
    and d4: "drifting (state_after r4) 4" by auto
  from drift_nan_step[OF d4] obtain r5 where
    r5: "general_work demo_components drift_nan_items (state_after r4) = Some r5"
    and d5: "drifting (state_after r5) 5" by auto
  have "run demo_components drift_five_nans drift_started = Some (state_after r5)"
    by (simp add: drift_five_nans_def drift_pull_in r1 r2 r3 r4 r5 drift_tracking_def[symmetric])
  with d5 show ?thesis by blast
qed

lemma drift_overrun:
  assumes d: "drifting s 5"
  shows "early_chip_at demo_components s 4000 = 1024"
    and "ca_code_at (d_ca_code s) (1 + early_chip_at demo_components s 4000) = None"
    and "update_local_code demo_components s = None"
proof -
  from d have f:
    "d_current_prn_length_samples s = 4001" "d_fs_in s = 4000500"
    "d_code_freq_chips s = 1023000" "d_early_late_spc_chips s = 1 / 2"
    "length (d_early_code s) = 8002" "length (d_prompt_code s) = 8002"
    "length (d_late_code s) = 8002" "length (d_ca_code s) = 1025"
    "d_rem_code_phase_samples s = - (5 / 2)"
    by (simp_all add: drifting_def)
  show c: "early_chip_at demo_components s 4000 = 1024"
    by (simp add: early_chip_at_def early_code_phase_fxp_def code_phase_step_fxp_def
        tcode_chips_def f demo_components_def double_to_fxpt64_spec_def c_trunc_def
        chip_of_fxp_def sint_signed_drop_bit_eq)
  show rd: "ca_code_at (d_ca_code s) (1 + early_chip_at demo_components s 4000) = None"
    by (simp add: c ca_code_at_def f)
  have "epl_loop (d_ca_code s) (code_phase_step_fxp demo_components s) 4001
          (early_code_phase_fxp demo_components s) (prompt_code_phase_fxp demo_components s)
          (late_code_phase_fxp demo_components s) = None"
    using rd by (intro epl_loop_read_None[of 4000]) (simp_all add: early_chip_at_def)
  then show "update_local_code demo_components s = None"
    by (simp add: update_local_code_def Let_def f)
qed

text \<open>
  Claim C1, as amended. When \<^verbatim>\<open>update_local_code\<close> completes, the Early, Prompt and
  Late value of every sample \<open>i\<close> of the block is the table entry
  \<open>1 + (phase_fxp >> 32)\<close>, where \<open>phase_fxp\<close> is the starting phase plus \<open>i\<close> steps:
  the index is used as it is, without reduction modulo the code length, and the call
  completes only if every such chip lies between \<open>- 1\<close> and 1023. For a table with
  its two guard entries this is also the entry \<open>1 + ((phase_fxp >> 32) mod 1023)\<close>.
\<close>

theorem update_local_code_replicas:
  fixes s :: "('pf, 'df) tracking_cc"
  assumes run: "update_local_code ext s = Some s'"
    and i: "int i < d_current_prn_length_samples s"
    and tbl: "length (d_ca_code s) = 1025"
    and guards: "d_ca_code s ! 0 = d_ca_code s ! 1023" "d_ca_code s ! 1024 = d_ca_code s ! 1"
  shows "ca_code_at (d_ca_code s) (1 + early_chip_at ext s i) = Some (d_early_code s' ! i)
       \<and> ca_code_at (d_ca_code s) (1 + prompt_chip_at ext s i) = Some (d_prompt_code s' ! i)
       \<and> ca_code_at (d_ca_code s) (1 + late_chip_at ext s i) = Some (d_late_code s' ! i)
       \<and> - 1 \<le> early_chip_at ext s i \<and> early_chip_at ext s i \<le> 1023
       \<and> - 1 \<le> prompt_chip_at ext s i \<and> prompt_chip_at ext s i \<le> 1023
       \<and> - 1 \<le> late_chip_at ext s i \<and> late_chip_at ext s i \<le> 1023
       \<and> ca_code_at (d_ca_code s) (1 + early_chip_at ext s i mod 1023)
           = Some (d_early_code s' ! i)
       \<and> ca_code_at (d_ca_code s) (1 + prompt_chip_at ext s i mod 1023)
           = Some (d_prompt_code s' ! i)
       \<and> ca_code_at (d_ca_code s) (1 + late_chip_at ext s i mod 1023)
           = Some (d_late_code s' ! i)"
proof -
  let ?n = "nat (d_current_prn_length_samples s)"
  from i have i': "i < ?n" by simp
  from run obtain es ps ls where
    r: "epl_loop (d_ca_code s) (code_phase_step_fxp ext s) ?n (early_code_phase_fxp ext s)
          (prompt_code_phase_fxp ext s) (late_code_phase_fxp ext s) = Some (es, ps, ls)"
    and s': "s' = s\<lparr>d_early_code := es @ drop ?n (d_early_code s),
                     d_prompt_code := ps @ drop ?n (d_prompt_code s),
                     d_late_code := ls @ drop ?n (d_late_code s)\<rparr>"
    by (auto simp: update_local_code_def Let_def split: if_splits option.splits)
  from epl_loop_length[OF r] i' have
    "(es @ drop ?n (d_early_code s)) ! i = es ! i"
    "(ps @ drop ?n (d_prompt_code s)) ! i = ps ! i"
    "(ls @ drop ?n (d_late_code s)) ! i = ls ! i"
    by (simp_all add: nth_append)
  with epl_loop_nth[OF r i'] s' have vals:
    "ca_code_at (d_ca_code s) (1 + early_chip_at ext s i) = Some (d_early_code s' ! i)"
    "ca_code_at (d_ca_code s) (1 + prompt_chip_at ext s i) = Some (d_prompt_code s' ! i)"
    "ca_code_at (d_ca_code s) (1 + late_chip_at ext s i) = Some (d_late_code s' ! i)"
    by (simp_all add: early_chip_at_def prompt_chip_at_def late_chip_at_def)
  from ca_code_at_guards[OF tbl guards vals(1)] ca_code_at_guards[OF tbl guards vals(2)]
    ca_code_at_guards[OF tbl guards vals(3)] vals
  show ?thesis by simp
qed

theorem update_local_code_replicas_witness:
  "update_local_code demo_components demo_tracking \<noteq> None
   \<and> (4091 :: int) < d_current_prn_length_samples demo_tracking
   \<and> length (d_ca_code demo_tracking) = 1025
   \<and> d_ca_code demo_tracking ! 0 = d_ca_code demo_tracking ! 1023
   \<and> d_ca_code demo_tracking ! 1024 = d_ca_code demo_tracking ! 1
   \<and> early_chip_at demo_components demo_tracking 4091 = 1023
   \<and> ca_code_at (d_ca_code demo_tracking) 1024
       = Some (d_early_code (the (update_local_code demo_components demo_tracking)) ! 4091)
   \<and> ca_code_at (d_ca_code demo_tracking) 1
       = Some (d_early_code (the (update_local_code demo_components demo_tracking)) ! 4091)"
proof -
  from demo_tracking_update_local_code obtain s' where
    run: "update_local_code demo_components demo_tracking = Some s'" by auto
  have i: "int 4091 < d_current_prn_length_samples demo_tracking"
    by (simp add: demo_tracking_scalars)
  have tbl: "length (d_ca_code demo_tracking) = 1025"
    and guards: "d_ca_code demo_tracking ! 0 = d_ca_code demo_tracking ! 1023"
                "d_ca_code demo_tracking ! 1024 = d_ca_code demo_tracking ! 1"
    by (simp_all add: demo_tracking_scalars demo_started_buffers)
  have chip: "early_chip_at demo_components demo_tracking 4091 = 1023"
    by (simp add: early_chip_at_def demo_tracking_fxp chip_of_fxp_def sint_signed_drop_bit_eq)
  from update_local_code_replicas[OF run i tbl guards] run i tbl guards chip
  show ?thesis by simp
qed

text \<open>
  Claim C1 as the spec states it fails. On the channel sampled at 4.0005 MHz, the
  pull-in block and five blocks with a NaN correlation leave a remainder of \<open>- 2.5\<close>
  samples. In the block that follows, the Early phase of the last sample (number 4000)
  is at chip 1024: the code reads \<open>d_ca_code[1025]\<close>, past the 1025 entries of the
  table, where the claimed index \<open>1 + (1024 mod 1023)\<close> would be 2.
\<close>

theorem update_local_code_index_counterexample:
  "run demo_components drift_five_nans drift_started \<noteq> None
   \<and> d_rem_code_phase_samples (the (run demo_components drift_five_nans drift_started))
       = - (5 / 2)
   \<and> d_current_prn_length_samples (the (run demo_components drift_five_nans drift_started))
       = 4001
   \<and> length (d_ca_code (the (run demo_components drift_five_nans drift_started))) = 1025
   \<and> early_chip_at demo_components
        (the (run demo_components drift_five_nans drift_started)) 4000 = 1024
   \<and> ca_code_at (d_ca_code (the (run demo_components drift_five_nans drift_started)))
        (1 + early_chip_at demo_components
               (the (run demo_components drift_five_nans drift_started)) 4000) = None
   \<and> update_local_code demo_components
        (the (run demo_components drift_five_nans drift_started)) = None"
proof -
  from drift_five_nans_run obtain s where
    r: "run demo_components drift_five_nans drift_started = Some s" and d: "drifting s 5"
    by blast
  from d have "d_rem_code_phase_samples s = - (5 / 2)"
    "d_current_prn_length_samples s = 4001" "length (d_ca_code s) = 1025"
    by (simp_all add: drifting_def)
  with drift_overrun[OF d] r show ?thesis by simp
qed

subsection \<open>The block of a disabled channel\<close>

lemma demo_object_scalars:
  "\<not> d_enable_tracking demo_object"
  "d_fs_in demo_object = 4092000"
  "d_current_prn_length_samples demo_object = 4092"
  "d_sample_counter demo_object = 0"
  by (simp_all add: demo_defs)

text \<open>
  Claim C7. When \<open>d_enable_tracking\<close> is false (and the sampling rate is not zero,
  so that the seconds counter of the debug output is defined), a call writes one
  output record, whose numeric fields are zero and whose flags are false, returns 1,
  consumes one block length, and leaves the members as they were except for the
  sample counter, which advances by the block length, the seconds counter of the
  debug output and the three correlator registers, which are cleared. In particular
  the Doppler and code frequency estimates, the phase remainders and accumulators, the
  lock counters and the block length are unchanged.
\<close>

theorem idle_block_frame:
  assumes idle: "\<not> d_enable_tracking s" and fs: "d_fs_in s \<noteq> 0"
  shows "\<exists>r. general_work ext inp s = Some r
           \<and> returned r = 1
           \<and> consumed r = d_current_prn_length_samples s
           \<and> out0 r = idle_output
           \<and> Prompt_I (out0 r) = 0 \<and> Prompt_Q (out0 r) = 0
           \<and> Tracking_timestamp_secs (out0 r) = 0 \<and> Carrier_phase_rads (out0 r) = 0
           \<and> Code_phase_secs (out0 r) = 0 \<and> Carrier_Doppler_hz (out0 r) = 0
           \<and> CN0_dB_hz (out0 r) = 0
           \<and> \<not> Flag_valid_tracking (out0 r) \<and> \<not> Flag_valid_pseudorange (out0 r)
           \<and> state_after r =
               s\<lparr>d_last_seg := d_last_seg (state_after r),
                 d_Early := gr_zero, d_Prompt := gr_zero, d_Late := gr_zero,
                 d_sample_counter :=
                   d_sample_counter s + word_of_int (d_current_prn_length_samples s)\<rparr>"
proof -
  from fs have "debug_seconds s \<noteq> None"
    by (simp add: debug_seconds_def Let_def)
  then obtain s1 where d: "debug_seconds s = Some s1" by blast
  from debug_seconds_frame[OF d] obtain seg where s1: "s1 = s\<lparr>d_last_seg := seg\<rparr>"
    by blast
  from idle d have
    "general_work ext inp s =
       Some \<lparr>state_after = (idle_block s1)
                \<lparr>d_current_prn_length_samples := d_current_prn_length_samples s\<rparr>,
             out0 = idle_output,
             consumed = d_current_prn_length_samples (idle_block s1),
             returned = 1\<rparr>"
    by (simp add: general_work_def Let_def)
  with s1 show ?thesis
    by (simp add: idle_block_def idle_output_def Gnss_Synchro_init_def)
qed

theorem idle_block_frame_witness:
  "\<not> d_enable_tracking demo_object \<and> d_fs_in demo_object \<noteq> 0
   \<and> general_work demo_components demo_items demo_object \<noteq> None
   \<and> returned (the (general_work demo_components demo_items demo_object)) = 1
   \<and> Prompt_I (out0 (the (general_work demo_components demo_items demo_object))) = 0
   \<and> d_sample_counter (state_after (the (general_work demo_components demo_items demo_object)))
       = 4092
   \<and> d_current_prn_length_samples
        (state_after (the (general_work demo_components demo_items demo_object))) = 4092"
proof -
  have h: "\<not> d_enable_tracking demo_object" "d_fs_in demo_object \<noteq> 0"
    by (simp_all add: demo_object_scalars)
  from idle_block_frame[OF h, of demo_components demo_items] obtain r where
    r: "general_work demo_components demo_items demo_object = Some r"
    and f: "returned r = 1" "Prompt_I (out0 r) = 0"
    and st: "state_after r =
               demo_object\<lparr>d_last_seg := d_last_seg (state_after r),
                 d_Early := gr_zero, d_Prompt := gr_zero, d_Late := gr_zero,
                 d_sample_counter := d_sample_counter demo_object
                    + word_of_int (d_current_prn_length_samples demo_object)\<rparr>"
    by blast
  have "d_sample_counter (state_after r) = 4092"
    and "d_current_prn_length_samples (state_after r) = 4092"
    by (subst st, simp add: demo_object_scalars)+
  with r f h show ?thesis by simp
qed

subsection \<open>A block with a NaN Prompt correlation\<close>

text \<open>A call on an enabled channel past pull-in, with a sampling rate that is not zero,
  fails only in the replica generator.\<close>

lemma general_work_tracking_None:
  assumes en: "d_enable_tracking s" and npi: "\<not> d_pull_in s" and fs: "d_fs_in s \<noteq> 0"
  shows "general_work ext inp s = None \<longleftrightarrow> update_local_code ext s = None"
proof (cases "update_local_code ext s")
  case None
  with en npi show ?thesis by (simp add: general_work_def)
next
  case (Some s1)
  show ?thesis
  proof (cases "isnan (fst (d_Prompt (correlate ext inp s1)))
                \<or> isnan (snd (d_Prompt (correlate ext inp s1)))")
    case True
    from nan_block_defined[OF en npi, of ext inp] Some True
    have "general_work ext inp s \<noteq> None"
      by (auto simp: general_work_def Let_def step_unchanged en npi)
    with Some show ?thesis by simp
  next
    case False
    with general_work_tracking_Some[OF en npi Some _ _ fs, of inp] Some show ?thesis
      by auto
  qed
qed

lemma drift_four_nans_run:
  "\<exists>s. run demo_components drift_four_nans drift_started = Some s \<and> drifting s 4"
proof -
  from drift_nan_step[OF drift_tracking_start] obtain r1 where
    r1: "general_work demo_components drift_nan_items drift_tracking = Some r1"
    and d1: "drifting (state_after r1) 1" by auto
  from drift_nan_step[OF d1] obtain r2 where
    r2: "general_work demo_components drift_nan_items (state_after r1) = Some r2"
    and d2: "drifting (state_after r2) 2" by auto
  from drift_nan_step[OF d2] obtain r3 where
    r3: "general_work demo_components drift_nan_items (state_after r2) = Some r3"
    and d3: "drifting (state_after r3) 3" by auto
  from drift_nan_step[OF d3] obtain r4 where
    r4: "general_work demo_components drift_nan_items (state_after r3) = Some r4"
    and d4: "drifting (state_after r4) 4" by auto
  have "run demo_components drift_four_nans drift_started = Some (state_after r4)"
    by (simp add: drift_four_nans_def drift_pull_in r1 r2 r3 r4 drift_tracking_def[symmetric])
  with d4 show ?thesis by blast
qed

text \<open>
  Claim C6, as amended. In a tracking block (enabled, past pull-in, replicas
  generated) whose Prompt correlation has a NaN real or imaginary part, the call
  completes, consumes all \<open>ninput_items\<close> available samples, writes one output record
  with \<open>Flag_valid_tracking\<close> false and both Prompt components zero, and returns 1.
  Tracking stays enabled and past pull-in. Both loop filters, the Doppler and code
  frequency estimates, the carrier phase remainder and the accumulators, the lock
  detector counters, buffer and estimates, and the block length are those of before
  the call. The code phase and the code phase remainder, though, are advanced by one
  block at the current code frequency. The next call is again a tracking block: with
  a sampling rate that is not zero it completes if and only if its replica generation
  stays inside the code table and the buffers, which the new remainder and the old
  block length need not allow.
\<close>

theorem nan_fault_block:
  assumes en: "d_enable_tracking s" and npi: "\<not> d_pull_in s"
    and u: "update_local_code ext s = Some s1"
    and nan: "isnan (fst (d_Prompt (correlate ext inp s1)))
              \<or> isnan (snd (d_Prompt (correlate ext inp s1)))"
  shows "\<exists>r. general_work ext inp s = Some r
           \<and> consumed r = ninput_items inp
           \<and> returned r = 1
           \<and> \<not> Flag_valid_tracking (out0 r)
           \<and> Prompt_I (out0 r) = 0 \<and> Prompt_Q (out0 r) = 0
           \<and> d_enable_tracking (state_after r) \<and> \<not> d_pull_in (state_after r)
           \<and> d_carrier_loop_filter (state_after r) = d_carrier_loop_filter s
           \<and> d_code_loop_filter (state_after r) = d_code_loop_filter s
           \<and> d_carrier_doppler_hz (state_after r) = d_carrier_doppler_hz s
           \<and> d_code_freq_chips (state_after r) = d_code_freq_chips s
           \<and> d_acc_carrier_phase_rad (state_after r) = d_acc_carrier_phase_rad s
           \<and> d_acc_code_phase_secs (state_after r) = d_acc_code_phase_secs s
           \<and> d_rem_carr_phase_rad (state_after r) = d_rem_carr_phase_rad s
           \<and> d_carrier_lock_fail_counter (state_after r) = d_carrier_lock_fail_counter s
           \<and> d_cn0_estimation_counter (state_after r) = d_cn0_estimation_counter s
           \<and> d_Prompt_buffer (state_after r) = d_Prompt_buffer s
           \<and> d_carrier_lock_test (state_after r) = d_carrier_lock_test s
           \<and> d_CN0_SNV_dB_Hz (state_after r) = d_CN0_SNV_dB_Hz s
           \<and> d_current_prn_length_samples (state_after r) = d_current_prn_length_samples s
           \<and> d_code_phase_chips (state_after r)
               = c_fmod (d_code_phase_chips s
                         + real_of_int (d_current_prn_length_samples s)
                             / real_of_int (d_fs_in s) * d_code_freq_chips s)
                        GPS_L1_CA_CODE_LENGTH_CHIPS
           \<and> d_rem_code_phase_samples (state_after r)
               = (if GPS_L1_CA_CODE_LENGTH_CHIPS - d_code_phase_chips (state_after r)
                      > GPS_L1_CA_CODE_LENGTH_CHIPS / 2
                  then - d_code_phase_chips (state_after r)
                  else GPS_L1_CA_CODE_LENGTH_CHIPS - d_code_phase_chips (state_after r))
                 * real_of_int (d_fs_in s) / GPS_L1_CA_CODE_RATE_HZ
           \<and> (d_fs_in s \<noteq> 0 \<longrightarrow>
                (\<forall>inp'. general_work ext inp' (state_after r) = None
                          \<longleftrightarrow> update_local_code ext (state_after r) = None))"
proof -
  let ?s2 = "update_phase_estimates (correlate ext inp s1)"
  define r where "r = nan_samples inp ?s2"
  have pr: "d_Prompt ?s2 = d_Prompt (correlate ext inp s1)"
    by (simp add: step_unchanged)
  from en npi u nan pr have g: "general_work ext inp s = Some r"
    by (simp add: general_work_def Let_def r_def)
  have st: "state_after r
              = ?s2\<lparr>d_sample_counter := d_sample_counter ?s2 + word_of_int (ninput_items inp)\<rparr>"
    by (simp add: r_def nan_samples_def Let_def)
  have kept: "consumed r = ninput_items inp
           \<and> returned r = 1
           \<and> \<not> Flag_valid_tracking (out0 r)
           \<and> Prompt_I (out0 r) = 0 \<and> Prompt_Q (out0 r) = 0
           \<and> d_enable_tracking (state_after r) \<and> \<not> d_pull_in (state_after r)
           \<and> d_carrier_loop_filter (state_after r) = d_carrier_loop_filter s
           \<and> d_code_loop_filter (state_after r) = d_code_loop_filter s
           \<and> d_carrier_doppler_hz (state_after r) = d_carrier_doppler_hz s
           \<and> d_code_freq_chips (state_after r) = d_code_freq_chips s
           \<and> d_acc_carrier_phase_rad (state_after r) = d_acc_carrier_phase_rad s
           \<and> d_acc_code_phase_secs (state_after r) = d_acc_code_phase_secs s
           \<and> d_rem_carr_phase_rad (state_after r) = d_rem_carr_phase_rad s
           \<and> d_carrier_lock_fail_counter (state_after r) = d_carrier_lock_fail_counter s
           \<and> d_cn0_estimation_counter (state_after r) = d_cn0_estimation_counter s
           \<and> d_Prompt_buffer (state_after r) = d_Prompt_buffer s
           \<and> d_carrier_lock_test (state_after r) = d_carrier_lock_test s
           \<and> d_CN0_SNV_dB_Hz (state_after r) = d_CN0_SNV_dB_Hz s
           \<and> d_current_prn_length_samples (state_after r) = d_current_prn_length_samples s"
    using en npi
    by (simp add: r_def nan_samples_def Let_def step_unchanged
        update_local_code_unchanged[OF u])
  have c: "d_fs_in (correlate ext inp s1) = d_fs_in s"
    "d_code_phase_chips (correlate ext inp s1) = d_code_phase_chips s"
    "d_current_prn_length_samples (correlate ext inp s1) = d_current_prn_length_samples s"
    "d_code_freq_chips (correlate ext inp s1) = d_code_freq_chips s"
    by (simp_all add: step_unchanged update_local_code_unchanged[OF u])
  have sel: "d_code_phase_chips (state_after r) = d_code_phase_chips ?s2"
    "d_rem_code_phase_samples (state_after r) = d_rem_code_phase_samples ?s2"
    by (simp_all add: st)
  have chips: "d_code_phase_chips (state_after r)
               = c_fmod (d_code_phase_chips s
                         + real_of_int (d_current_prn_length_samples s)
                             / real_of_int (d_fs_in s) * d_code_freq_chips s)
                        GPS_L1_CA_CODE_LENGTH_CHIPS"
    unfolding sel update_phase_estimates_code_phase c by (rule refl)
  have rem: "d_rem_code_phase_samples (state_after r)
               = (if GPS_L1_CA_CODE_LENGTH_CHIPS - d_code_phase_chips (state_after r)
                      > GPS_L1_CA_CODE_LENGTH_CHIPS / 2
                  then - d_code_phase_chips (state_after r)
                  else GPS_L1_CA_CODE_LENGTH_CHIPS - d_code_phase_chips (state_after r))
                 * real_of_int (d_fs_in s) / GPS_L1_CA_CODE_RATE_HZ"
    unfolding sel update_phase_estimates_rem[of "correlate ext inp s1"] c by simp
  have nxt: "general_work ext inp' (state_after r) = None
               \<longleftrightarrow> update_local_code ext (state_after r) = None"
    if fs: "d_fs_in s \<noteq> 0" for inp'
  proof (rule general_work_tracking_None)
    from kept show "d_enable_tracking (state_after r)" "\<not> d_pull_in (state_after r)"
      by blast+
    from fs show "d_fs_in (state_after r) \<noteq> 0"
      by (simp add: st step_unchanged update_local_code_unchanged[OF u])
  qed
  from g kept chips rem nxt show ?thesis by blast
qed

theorem nan_fault_block_witness:
  "d_enable_tracking demo_tracking \<and> \<not> d_pull_in demo_tracking
   \<and> update_local_code demo_components demo_tracking \<noteq> None
   \<and> isnan (fst (d_Prompt (correlate demo_components demo_nan_items
        (the (update_local_code demo_components demo_tracking)))))
   \<and> d_fs_in demo_tracking \<noteq> 0
   \<and> general_work demo_components demo_nan_items demo_tracking \<noteq> None
   \<and> consumed (the (general_work demo_components demo_nan_items demo_tracking)) = 8184
   \<and> \<not> Flag_valid_tracking (out0 (the (general_work demo_components demo_nan_items demo_tracking)))
   \<and> d_enable_tracking
        (state_after (the (general_work demo_components demo_nan_items demo_tracking)))
   \<and> d_current_prn_length_samples
        (state_after (the (general_work demo_components demo_nan_items demo_tracking))) = 4092
   \<and> d_code_phase_chips
        (state_after (the (general_work demo_components demo_nan_items demo_tracking))) = 0
   \<and> d_rem_code_phase_samples
        (state_after (the (general_work demo_components demo_nan_items demo_tracking))) = 0
   \<and> (general_work demo_components demo_items
          (state_after (the (general_work demo_components demo_nan_items demo_tracking))) = None
        \<longleftrightarrow> update_local_code demo_components
          (state_after (the (general_work demo_components demo_nan_items demo_tracking))) = None)"
proof -
  from demo_tracking_update_local_code obtain s1 where
    u: "update_local_code demo_components demo_tracking = Some s1" by auto
  have en: "d_enable_tracking demo_tracking" and npi: "\<not> d_pull_in demo_tracking"
    and fs: "d_fs_in demo_tracking \<noteq> 0"
    by (simp_all add: demo_tracking_scalars)
  have nan: "isnan (fst (d_Prompt (correlate demo_components demo_nan_items s1)))
             \<or> isnan (snd (d_Prompt (correlate demo_components demo_nan_items s1)))"
    by (simp add: demo_prompt)
  from nan_fault_block[OF en npi u nan] fs obtain r where
    r: "general_work demo_components demo_nan_items demo_tracking = Some r"
    and f: "consumed r = ninput_items demo_nan_items"
    "\<not> Flag_valid_tracking (out0 r)"
    "d_enable_tracking (state_after r)"
    "d_current_prn_length_samples (state_after r)
       = d_current_prn_length_samples demo_tracking"
    and chips: "d_code_phase_chips (state_after r)
       = c_fmod (d_code_phase_chips demo_tracking
                 + real_of_int (d_current_prn_length_samples demo_tracking)
                     / real_of_int (d_fs_in demo_tracking) * d_code_freq_chips demo_tracking)
                GPS_L1_CA_CODE_LENGTH_CHIPS"
    and rem: "d_rem_code_phase_samples (state_after r)
       = (if GPS_L1_CA_CODE_LENGTH_CHIPS - d_code_phase_chips (state_after r)
              > GPS_L1_CA_CODE_LENGTH_CHIPS / 2
          then - d_code_phase_chips (state_after r)
          else GPS_L1_CA_CODE_LENGTH_CHIPS - d_code_phase_chips (state_after r))
         * real_of_int (d_fs_in demo_tracking) / GPS_L1_CA_CODE_RATE_HZ"
    and nxt: "general_work demo_components demo_items (state_after r) = None
              \<longleftrightarrow> update_local_code demo_components (state_after r) = None"
    by blast
  have c0: "d_code_phase_chips (state_after r) = 0"
    unfolding chips
    by (simp add: demo_tracking_scalars gps_constants c_fmod_def c_trunc_def)
  have r0: "d_rem_code_phase_samples (state_after r) = 0"
    unfolding rem c0 by (simp add: gps_constants)
  have "ninput_items demo_nan_items = 8184"
    by (simp add: demo_nan_items_def demo_items_def)
  with r f c0 r0 nxt show ?thesis
    using u en npi by (simp add: demo_prompt demo_tracking_scalars)
qed

text \<open>
  Claim C6 as the spec states it fails: the block after a NaN block need not resume
  normally. On the channel sampled at 4.0005 MHz, after the pull-in block and four
  blocks with a NaN correlation, a fifth such block completes as the claim says, with
  tracking enabled and the block length kept at 4001 samples; it leaves a remainder
  of \<open>- 2.5\<close> samples, and the call that follows, on clean samples, reads outside the
  code table.
\<close>

theorem nan_fault_resume_counterexample:
  "run demo_components drift_four_nans drift_started \<noteq> None
   \<and> d_enable_tracking (the (run demo_components drift_four_nans drift_started))
   \<and> \<not> d_pull_in (the (run demo_components drift_four_nans drift_started))
   \<and> update_local_code demo_components
        (the (run demo_components drift_four_nans drift_started)) \<noteq> None
   \<and> isnan (fst (d_Prompt (correlate demo_components drift_nan_items
        (the (update_local_code demo_components
               (the (run demo_components drift_four_nans drift_started)))))))
   \<and> general_work demo_components drift_nan_items
        (the (run demo_components drift_four_nans drift_started)) \<noteq> None
   \<and> d_enable_tracking (state_after (the (general_work demo_components drift_nan_items
        (the (run demo_components drift_four_nans drift_started)))))
   \<and> d_current_prn_length_samples (state_after (the (general_work demo_components
        drift_nan_items (the (run demo_components drift_four_nans drift_started))))) = 4001
   \<and> d_rem_code_phase_samples (state_after (the (general_work demo_components
        drift_nan_items (the (run demo_components drift_four_nans drift_started)))))
       = - (5 / 2)
   \<and> general_work demo_components drift_items
        (state_after (the (general_work demo_components drift_nan_items
           (the (run demo_components drift_four_nans drift_started))))) = None"
proof -
  from drift_four_nans_run obtain s where
    run: "run demo_components drift_four_nans drift_started = Some s" and d: "drifting s 4"
    by blast
  from d have en: "d_enable_tracking s" and npi: "\<not> d_pull_in s"
    by (simp_all add: drifting_def)
  from drift_replicas[OF d] have u: "update_local_code demo_components s \<noteq> None" by simp
  from drift_nan_step[OF d] obtain r where
    r: "general_work demo_components drift_nan_items s = Some r"
    and d5: "drifting (state_after r) (4 + 1)" by auto
  then have d5: "drifting (state_after r) 5" by simp
  then have f: "d_enable_tracking (state_after r)" "\<not> d_pull_in (state_after r)"
    "d_current_prn_length_samples (state_after r) = 4001"
    "d_rem_code_phase_samples (state_after r) = - (5 / 2)"
    by (simp_all add: drifting_def)
  from drift_overrun(3)[OF d5] f(1,2)
  have "general_work demo_components drift_items (state_after r) = None"
    by (simp add: general_work_def)
  with u en npi f show ?thesis
    unfolding run r option.sel by (simp add: drift_prompt)
qed

subsection \<open>C/N0 estimation and lock detection\<close>

lemma cn0_and_lock_detectors_fill:
  assumes "d_cn0_estimation_counter s < CN0_ESTIMATION_SAMPLES"
  shows "d_cn0_estimation_counter (cn0_and_lock_detectors ext s) = d_cn0_estimation_counter s + 1"
    and "d_Prompt_buffer (cn0_and_lock_detectors ext s)
           = (d_Prompt_buffer s)[d_cn0_estimation_counter s := d_Prompt s]"
    and "d_CN0_SNV_dB_Hz (cn0_and_lock_detectors ext s) = d_CN0_SNV_dB_Hz s"
    and "d_carrier_lock_test (cn0_and_lock_detectors ext s) = d_carrier_lock_test s"
    and "d_carrier_lock_fail_counter (cn0_and_lock_detectors ext s) = d_carrier_lock_fail_counter s"
    and "d_enable_tracking (cn0_and_lock_detectors ext s) = d_enable_tracking s"
    and "d_queue (cn0_and_lock_detectors ext s) = d_queue s"
  using assms by (simp_all add: cn0_and_lock_detectors_def)

lemma cn0_and_lock_detectors_estimate:
  assumes "\<not> d_cn0_estimation_counter s < CN0_ESTIMATION_SAMPLES"
  shows "d_cn0_estimation_counter (cn0_and_lock_detectors ext s) = 0"
    and "d_Prompt_buffer (cn0_and_lock_detectors ext s) = d_Prompt_buffer s"
    and "d_CN0_SNV_dB_Hz (cn0_and_lock_detectors ext s)
           = cn0_svn_estimator ext (d_Prompt_buffer s) CN0_ESTIMATION_SAMPLES (d_fs_in s)
               GPS_L1_CA_CODE_LENGTH_CHIPS"
    and "d_carrier_lock_test (cn0_and_lock_detectors ext s)
           = carrier_lock_detector ext (d_Prompt_buffer s) CN0_ESTIMATION_SAMPLES"
  using assms by (simp_all add: cn0_and_lock_detectors_def Let_def)

text \<open>The failure counter after the comparison with the two thresholds, before the test
  against \<open>MAXIMUM_LOCK_FAIL_COUNTER\<close>.\<close>

lemma cn0_and_lock_detectors_lock:
  assumes "\<not> d_cn0_estimation_counter s < CN0_ESTIMATION_SAMPLES"
    and "s' = cn0_and_lock_detectors ext s"
    and "fails = (if d_carrier_lock_test s' < d_carrier_lock_threshold s
                     \<or> d_CN0_SNV_dB_Hz s' < MINIMUM_VALID_CN0
                  then d_carrier_lock_fail_counter s + 1
                  else d_carrier_lock_fail_counter s - 1)"
  shows "if MAXIMUM_LOCK_FAIL_COUNTER < fails
         then \<not> d_enable_tracking s' \<and> d_carrier_lock_fail_counter s' = 0
              \<and> d_queue s' = map_option (\<lambda>q. q @ [QueueMessage (d_channel s) 2]) (d_queue s)
         else d_enable_tracking s' = d_enable_tracking s
              \<and> d_carrier_lock_fail_counter s' = fails
              \<and> d_queue s' = d_queue s"
  using assms
  by (cases "d_queue s") (simp_all add: cn0_and_lock_detectors_def Let_def)

lemma demo_unlocked_prompt:
  "d_Prompt (correlate demo_unlocked demo_items s) = (Fin 1, Fin 0)"
  by (simp add: correlate_def demo_unlocked_def demo_components_def demo_items_def Let_def)

lemma demo_last_chance_scalars:
  "d_enable_tracking demo_last_chance" "\<not> d_pull_in demo_last_chance"
  "d_fs_in demo_last_chance = 4092000"
  "d_cn0_estimation_counter demo_last_chance = 20"
  "d_carrier_lock_fail_counter demo_last_chance = 50"
  "d_carrier_lock_threshold demo_last_chance = 85 / 100"
  "d_queue demo_last_chance = Some []"
  "d_channel demo_last_chance = 0"
  by (simp_all add: demo_last_chance_def demo_tracking_def pull_in_alignment_def Let_def
      demo_started_def start_tracking_def demo_defs gps_constants)

lemma demo_last_chance_update_local_code:
  "update_local_code demo_unlocked demo_last_chance \<noteq> None"
  by (rule demo_replicas_defined)
     (simp_all add: demo_last_chance_def demo_tracking_scalars demo_started_buffers
        demo_unlocked_def demo_components_def)

text \<open>
  Claim C5, as amended. At an estimation epoch, that is in a completed tracking block that finds
  the estimation counter at \<open>CN0_ESTIMATION_SAMPLES\<close> (or above), the lock test and
  the C/N0 are the two estimators applied to the Prompt buffer. With them, the failure
  counter goes up by one if the lock test is below the threshold or the C/N0 below
  \<open>MINIMUM_VALID_CN0\<close>, and otherwise down by one, not below zero. If the result
  exceeds \<open>MAXIMUM_LOCK_FAIL_COUNTER\<close>, the loss-of-lock message of the channel is
  appended to the queue (when the channel has a queue), tracking is disabled and the
  counter is reset to zero; otherwise tracking stays enabled, the counter keeps the
  result and the queue is unchanged.
\<close>

theorem lock_detector_epoch:
  assumes r: "general_work ext inp s = Some r"
    and en: "d_enable_tracking s" and npi: "\<not> d_pull_in s"
    and u: "update_local_code ext s = Some s1"
    and nn: "\<not> isnan (fst (d_Prompt (correlate ext inp s1)))"
            "\<not> isnan (snd (d_Prompt (correlate ext inp s1)))"
    and epoch: "CN0_ESTIMATION_SAMPLES \<le> d_cn0_estimation_counter s"
    and fails: "fails = (if d_carrier_lock_test (state_after r) < d_carrier_lock_threshold s
                            \<or> d_CN0_SNV_dB_Hz (state_after r) < MINIMUM_VALID_CN0
                         then d_carrier_lock_fail_counter s + 1
                         else d_carrier_lock_fail_counter s - 1)"
  shows "d_carrier_lock_test (state_after r)
           = carrier_lock_detector ext (d_Prompt_buffer s) CN0_ESTIMATION_SAMPLES
       \<and> d_CN0_SNV_dB_Hz (state_after r)
           = cn0_svn_estimator ext (d_Prompt_buffer s) CN0_ESTIMATION_SAMPLES (d_fs_in s)
               GPS_L1_CA_CODE_LENGTH_CHIPS
       \<and> (if MAXIMUM_LOCK_FAIL_COUNTER < fails
           then \<not> d_enable_tracking (state_after r)
                \<and> d_carrier_lock_fail_counter (state_after r) = 0
                \<and> d_queue (state_after r)
                    = map_option (\<lambda>q. q @ [QueueMessage (d_channel s) 2]) (d_queue s)
           else d_enable_tracking (state_after r)
                \<and> d_carrier_lock_fail_counter (state_after r) = fails
                \<and> d_queue (state_after r) = d_queue s)"
proof -
  let ?s3 = "dll_update ext (pll_update ext (update_phase_estimates (correlate ext inp s1)))"
  from tracking_block_state[OF r en npi u nn] obtain seg where
    st: "state_after r = (cn0_and_lock_detectors ext ?s3)
           \<lparr>d_last_seg := seg, d_current_prn_length_samples := next_prn_length_samples ?s3\<rparr>"
    by blast
  have s3: "d_cn0_estimation_counter ?s3 = d_cn0_estimation_counter s"
    "d_Prompt_buffer ?s3 = d_Prompt_buffer s" "d_fs_in ?s3 = d_fs_in s"
    "d_carrier_lock_threshold ?s3 = d_carrier_lock_threshold s"
    "d_carrier_lock_fail_counter ?s3 = d_carrier_lock_fail_counter s"
    "d_enable_tracking ?s3 = d_enable_tracking s" "d_queue ?s3 = d_queue s"
    "d_channel ?s3 = d_channel s"
    by (simp_all add: step_unchanged update_local_code_unchanged[OF u])
  from epoch have ne: "\<not> d_cn0_estimation_counter ?s3 < CN0_ESTIMATION_SAMPLES"
    by (simp add: s3)
  have sel: "d_carrier_lock_test (state_after r) = d_carrier_lock_test (cn0_and_lock_detectors ext ?s3)"
    "d_CN0_SNV_dB_Hz (state_after r) = d_CN0_SNV_dB_Hz (cn0_and_lock_detectors ext ?s3)"
    "d_enable_tracking (state_after r) = d_enable_tracking (cn0_and_lock_detectors ext ?s3)"
    "d_carrier_lock_fail_counter (state_after r)
       = d_carrier_lock_fail_counter (cn0_and_lock_detectors ext ?s3)"
    "d_queue (state_after r) = d_queue (cn0_and_lock_detectors ext ?s3)"
    by (simp_all add: st)
  have f: "fails = (if d_carrier_lock_test (cn0_and_lock_detectors ext ?s3)
                          < d_carrier_lock_threshold ?s3
                        \<or> d_CN0_SNV_dB_Hz (cn0_and_lock_detectors ext ?s3) < MINIMUM_VALID_CN0
                     then d_carrier_lock_fail_counter ?s3 + 1
                     else d_carrier_lock_fail_counter ?s3 - 1)"
    using fails by (simp only: sel s3)
  let ?s4 = "cn0_and_lock_detectors ext ?s3"
  note est = cn0_and_lock_detectors_estimate[OF ne, of ext]
  note lock = cn0_and_lock_detectors_lock[OF ne refl f]
  show ?thesis
  proof (cases "MAXIMUM_LOCK_FAIL_COUNTER < fails")
    case True
    with lock have "\<not> d_enable_tracking ?s4" "d_carrier_lock_fail_counter ?s4 = 0"
      "d_queue ?s4 = map_option (\<lambda>q. q @ [QueueMessage (d_channel ?s3) 2]) (d_queue ?s3)"
      by simp_all
    with True est(3,4) show ?thesis by (simp add: sel s3)
  next
    case False
    with lock have "d_enable_tracking ?s4 = d_enable_tracking ?s3"
      "d_carrier_lock_fail_counter ?s4 = fails" "d_queue ?s4 = d_queue ?s3"
      by simp_all
    with False est(3,4) en show ?thesis by (simp add: sel s3)
  qed
qed

theorem lock_detector_epoch_witness:
  "general_work demo_unlocked demo_items demo_last_chance \<noteq> None
   \<and> d_enable_tracking demo_last_chance \<and> \<not> d_pull_in demo_last_chance
   \<and> update_local_code demo_unlocked demo_last_chance \<noteq> None
   \<and> CN0_ESTIMATION_SAMPLES \<le> d_cn0_estimation_counter demo_last_chance
   \<and> d_carrier_lock_fail_counter demo_last_chance = 50
   \<and> d_carrier_lock_test
        (state_after (the (general_work demo_unlocked demo_items demo_last_chance))) = 0
   \<and> \<not> d_enable_tracking
          (state_after (the (general_work demo_unlocked demo_items demo_last_chance)))
   \<and> d_carrier_lock_fail_counter
        (state_after (the (general_work demo_unlocked demo_items demo_last_chance))) = 0
   \<and> d_queue (state_after (the (general_work demo_unlocked demo_items demo_last_chance)))
       = Some [QueueMessage 0 2]"
proof -
  have en: "d_enable_tracking demo_last_chance" and npi: "\<not> d_pull_in demo_last_chance"
    and epoch: "CN0_ESTIMATION_SAMPLES \<le> d_cn0_estimation_counter demo_last_chance"
    by (simp_all add: demo_last_chance_scalars CN0_ESTIMATION_SAMPLES_def)
  have "\<exists>r s1. general_work demo_unlocked demo_items demo_last_chance = Some r
          \<and> update_local_code demo_unlocked demo_last_chance = Some s1"
    by (rule tracking_block_defined)
       (simp_all add: demo_last_chance_scalars demo_last_chance_update_local_code
          demo_unlocked_prompt)
  then obtain r s1 where
    r: "general_work demo_unlocked demo_items demo_last_chance = Some r"
    and u: "update_local_code demo_unlocked demo_last_chance = Some s1" by blast
  have nn: "\<not> isnan (fst (d_Prompt (correlate demo_unlocked demo_items s1)))"
           "\<not> isnan (snd (d_Prompt (correlate demo_unlocked demo_items s1)))"
    by (simp_all add: demo_unlocked_prompt)
  from lock_detector_epoch[OF r en npi u nn epoch refl]
  have "d_carrier_lock_test (state_after r) = 0"
    by (simp add: demo_unlocked_def)
  with lock_detector_epoch[OF r en npi u nn epoch refl] r u en npi epoch
  show ?thesis
    by (simp add: demo_last_chance_scalars gps_constants)
qed


lemma demo_no_queue_scalars:
  "d_enable_tracking demo_no_queue" "\<not> d_pull_in demo_no_queue"
  "d_fs_in demo_no_queue = 4092000"
  "d_cn0_estimation_counter demo_no_queue = 20"
  "d_carrier_lock_fail_counter demo_no_queue = 50"
  "d_carrier_lock_threshold demo_no_queue = 85 / 100"
  "d_queue demo_no_queue = None"
  by (simp_all add: demo_no_queue_def demo_last_chance_scalars)

lemma demo_no_queue_update_local_code:
  "update_local_code demo_unlocked demo_no_queue \<noteq> None"
  by (rule demo_replicas_defined)
     (simp_all add: demo_no_queue_def demo_last_chance_def demo_tracking_scalars
        demo_started_buffers demo_unlocked_def demo_components_def)

text \<open>
  Claim C5 as the spec states it fails: a channel constructed with a null queue
  pointer emits no message. At an estimation epoch with the failure counter at 50 and
  a failed lock test the counter would reach 51: tracking is disabled and the counter
  reset, and nothing is sent, since the channel has no queue.
\<close>

theorem lock_detector_no_queue_counterexample:
  "general_work demo_unlocked demo_items demo_no_queue \<noteq> None
   \<and> d_enable_tracking demo_no_queue \<and> \<not> d_pull_in demo_no_queue
   \<and> d_cn0_estimation_counter demo_no_queue = CN0_ESTIMATION_SAMPLES
   \<and> d_carrier_lock_fail_counter demo_no_queue = MAXIMUM_LOCK_FAIL_COUNTER
   \<and> d_queue demo_no_queue = None
   \<and> d_carrier_lock_test
        (state_after (the (general_work demo_unlocked demo_items demo_no_queue)))
       < d_carrier_lock_threshold demo_no_queue
   \<and> \<not> d_enable_tracking
          (state_after (the (general_work demo_unlocked demo_items demo_no_queue)))
   \<and> d_carrier_lock_fail_counter
        (state_after (the (general_work demo_unlocked demo_items demo_no_queue))) = 0
   \<and> d_queue (state_after (the (general_work demo_unlocked demo_items demo_no_queue)))
       = None"
proof -
  have en: "d_enable_tracking demo_no_queue" and npi: "\<not> d_pull_in demo_no_queue"
    by (simp_all add: demo_no_queue_scalars)
  have "\<exists>r s1. general_work demo_unlocked demo_items demo_no_queue = Some r
          \<and> update_local_code demo_unlocked demo_no_queue = Some s1"
    by (rule tracking_block_defined)
       (simp_all add: demo_no_queue_scalars demo_no_queue_update_local_code
          demo_unlocked_prompt)
  then obtain r s1 where
    r: "general_work demo_unlocked demo_items demo_no_queue = Some r"
    and u: "update_local_code demo_unlocked demo_no_queue = Some s1" by blast
  have nn: "\<not> isnan (fst (d_Prompt (correlate demo_unlocked demo_items s1)))"
           "\<not> isnan (snd (d_Prompt (correlate demo_unlocked demo_items s1)))"
    by (simp_all add: demo_unlocked_prompt)
  let ?s3 = "dll_update demo_unlocked (pll_update demo_unlocked
               (update_phase_estimates (correlate demo_unlocked demo_items s1)))"
  let ?s4 = "cn0_and_lock_detectors demo_unlocked ?s3"
  from tracking_block_state[OF r en npi u nn] obtain seg where
    st: "state_after r
           = ?s4\<lparr>d_last_seg := seg, d_current_prn_length_samples := next_prn_length_samples ?s3\<rparr>"
    by blast
  have s3: "d_cn0_estimation_counter ?s3 = 20"
    "d_carrier_lock_threshold ?s3 = 85 / 100"
    "d_carrier_lock_fail_counter ?s3 = 50"
    "d_queue ?s3 = None"
    by (simp_all add: step_unchanged update_local_code_unchanged[OF u] demo_no_queue_scalars)
  have ne: "\<not> d_cn0_estimation_counter ?s3 < CN0_ESTIMATION_SAMPLES"
    by (simp add: s3 CN0_ESTIMATION_SAMPLES_def)
  from cn0_and_lock_detectors_estimate(4)[OF ne, of demo_unlocked]
  have t: "d_carrier_lock_test ?s4 = 0"
    by (simp add: demo_unlocked_def)
  from cn0_and_lock_detectors_lock[OF ne refl refl, of demo_unlocked]
  have l: "\<not> d_enable_tracking ?s4" "d_carrier_lock_fail_counter ?s4 = 0" "d_queue ?s4 = None"
    by (simp_all add: t s3 MAXIMUM_LOCK_FAIL_COUNTER_def)
  have sel: "d_carrier_lock_test (state_after r) = 0" "\<not> d_enable_tracking (state_after r)"
    "d_carrier_lock_fail_counter (state_after r) = 0" "d_queue (state_after r) = None"
    using t l by (simp_all add: st)
  show ?thesis
    unfolding r option.sel
    by (simp add: sel demo_no_queue_scalars CN0_ESTIMATION_SAMPLES_def
        MAXIMUM_LOCK_FAIL_COUNTER_def)
qed



text \<open>The estimation counter is zero after construction, \<^verbatim>\<open>start_tracking\<close> does not
  touch it, and no call takes it above \<open>CN0_ESTIMATION_SAMPLES\<close>.\<close>

lemma estimation_counter_bounded:
  assumes r: "general_work ext inp s = Some r"
    and inv: "d_cn0_estimation_counter s \<le> CN0_ESTIMATION_SAMPLES"
  shows "d_cn0_estimation_counter (state_after r) \<le> CN0_ESTIMATION_SAMPLES"
  using r
proof (cases rule: general_work_cases)
  case (Idle s1)
  from debug_seconds_frame[OF Idle(2)] obtain seg where "s1 = s\<lparr>d_last_seg := seg\<rparr>" by blast
  with Idle(3) inv show ?thesis by (simp add: idle_block_def)
next
  case Pull_in
  with inv show ?thesis by (simp add: pull_in_alignment_def Let_def)
next
  case (NaN s1)
  from NaN(5) inv show ?thesis
    by (simp add: nan_samples_def Let_def step_unchanged update_local_code_unchanged[OF NaN(3)])
next
  case (Tracking s1 s4 s5)
  let ?s3 = "dll_update ext (pll_update ext (update_phase_estimates (correlate ext inp s1)))"
  from debug_seconds_frame[OF Tracking(7)] obtain seg where "s5 = s4\<lparr>d_last_seg := seg\<rparr>"
    by blast
  with Tracking(6,8) have
    c: "d_cn0_estimation_counter (state_after r)
          = d_cn0_estimation_counter (cn0_and_lock_detectors ext ?s3)"
    by simp
  have s3: "d_cn0_estimation_counter ?s3 = d_cn0_estimation_counter s"
    by (simp add: step_unchanged update_local_code_unchanged[OF Tracking(3)])
  show ?thesis
  proof (cases "d_cn0_estimation_counter ?s3 < CN0_ESTIMATION_SAMPLES")
    case True
    from cn0_and_lock_detectors_fill(1)[OF True, of ext] True show ?thesis
      by (simp add: c)
  next
    case False
    from cn0_and_lock_detectors_estimate(1)[OF False, of ext] show ?thesis
      by (simp add: c)
  qed
qed

lemma estimation_counter_initial:
  "Gps_L1_Ca_Dll_Pll_Tracking_cc ext if_freq fs_in vector_length queue dump dump_filename
     pll_bw_hz dll_bw_hz early_late_space_chips = Inr s \<Longrightarrow> d_cn0_estimation_counter s = 0"
  "d_cn0_estimation_counter (start_tracking ext acq s') = d_cn0_estimation_counter s'"
  by (auto simp: Gps_L1_Ca_Dll_Pll_Tracking_cc_def start_tracking_def Let_def
      split: option.splits)



subsection \<open>The carrier phase remainder\<close>

text \<open>
  Claim C3, as amended. After every call that completes, \<open>d_rem_carr_phase_rad\<close> lies
  in the open interval from \<open>- 2\<pi>\<close> to \<open>2\<pi>\<close>, provided it did before the call
  (it is zero after construction and after \<^verbatim>\<open>start_tracking\<close>). \<^verbatim>\<open>fmod\<close> keeps the sign
  of the phase it reduces, so the remainder is non-negative, hence in \<open>[0, 2\<pi>)\<close>,
  when it was non-negative before the call and the sum of \<open>d_if_freq\<close> and the new
  Doppler estimate is non-negative; for a negative sum it can be negative (see the
  counterexample).
\<close>

theorem rem_carr_phase_range:
  assumes r: "general_work ext inp s = Some r"
    and lo: "- (2 * pi) < d_rem_carr_phase_rad s"
    and hi: "d_rem_carr_phase_rad s < 2 * pi"
  shows "- (2 * pi) < d_rem_carr_phase_rad (state_after r)
       \<and> d_rem_carr_phase_rad (state_after r) < 2 * pi
       \<and> (0 \<le> d_rem_carr_phase_rad s
            \<and> 0 \<le> real_of_int (d_if_freq s) + d_carrier_doppler_hz (state_after r)
          \<longrightarrow> 0 \<le> d_rem_carr_phase_rad (state_after r))"
  using r
proof (cases rule: general_work_cases)
  case (Idle s1)
  from debug_seconds_frame[OF Idle(2)] obtain seg where "s1 = s\<lparr>d_last_seg := seg\<rparr>" by blast
  with Idle(3) lo hi show ?thesis by (simp add: idle_block_def)
next
  case Pull_in
  with lo hi show ?thesis by (simp add: pull_in_alignment_def Let_def)
next
  case (NaN s1)
  from NaN(5) lo hi show ?thesis
    by (simp add: nan_samples_def Let_def step_unchanged update_local_code_unchanged[OF NaN(3)])
next
  case (Tracking s1 s4 s5)
  let ?s2 = "update_phase_estimates (correlate ext inp s1)"
  from debug_seconds_frame[OF Tracking(7)] obtain seg where "s5 = s4\<lparr>d_last_seg := seg\<rparr>"
    by blast
  with Tracking(6,8) have
    rem: "d_rem_carr_phase_rad (state_after r) = d_rem_carr_phase_rad (pll_update ext ?s2)"
    and dop: "d_carrier_doppler_hz (state_after r) = d_carrier_doppler_hz (pll_update ext ?s2)"
    by (simp_all add: step_unchanged)
  have s2: "d_rem_carr_phase_rad ?s2 = d_rem_carr_phase_rad s" "d_if_freq ?s2 = d_if_freq s"
    by (simp_all add: step_unchanged update_local_code_unchanged[OF Tracking(3)])
  define x where "x = d_rem_carr_phase_rad s
      + GPS_TWO_PI * (real_of_int (d_if_freq s) + d_carrier_doppler_hz (state_after r))
          * GPS_L1_CA_CODE_PERIOD"
  have eq: "d_rem_carr_phase_rad (state_after r) = c_fmod x (2 * pi)"
    by (simp add: rem dop pll_update_rem_carr s2 x_def GPS_TWO_PI_def)
  have "\<bar>c_fmod x (2 * pi)\<bar> < 2 * pi" by (rule c_fmod_abs) simp
  moreover have "0 \<le> c_fmod x (2 * pi)"
    if "0 \<le> d_rem_carr_phase_rad s"
       "0 \<le> real_of_int (d_if_freq s) + d_carrier_doppler_hz (state_after r)"
  proof -
    from that have "0 \<le> x"
      by (simp add: x_def GPS_TWO_PI_def GPS_L1_CA_CODE_PERIOD_def)
    then show ?thesis using c_fmod_nonneg[of x "2 * pi"] by simp
  qed
  ultimately show ?thesis by (simp add: eq abs_less_iff)
qed

theorem rem_carr_phase_range_witness:
  "general_work demo_components (demo_items_doppler 1540) (demo_tracking_doppler 1540) \<noteq> None
   \<and> - (2 * pi) < d_rem_carr_phase_rad (demo_tracking_doppler 1540)
   \<and> d_rem_carr_phase_rad (demo_tracking_doppler 1540) < 2 * pi
   \<and> 0 \<le> d_rem_carr_phase_rad (demo_tracking_doppler 1540)
   \<and> 0 \<le> real_of_int (d_if_freq (demo_tracking_doppler 1540))
          + d_carrier_doppler_hz (state_after (the (general_work demo_components
              (demo_items_doppler 1540) (demo_tracking_doppler 1540))))
   \<and> d_rem_carr_phase_rad (state_after (the (general_work demo_components
         (demo_items_doppler 1540) (demo_tracking_doppler 1540)))) = 27 * pi / 25
   \<and> 0 \<le> d_rem_carr_phase_rad (state_after (the (general_work demo_components
             (demo_items_doppler 1540) (demo_tracking_doppler 1540))))
   \<and> d_rem_carr_phase_rad (state_after (the (general_work demo_components
         (demo_items_doppler 1540) (demo_tracking_doppler 1540)))) < 2 * pi"
proof -
  from demo_approaching_block obtain r where
    r: "general_work demo_components (demo_items_doppler 1540) (demo_tracking_doppler 1540)
          = Some r"
    and v: "d_carrier_doppler_hz (state_after r) = 1540"
           "d_rem_carr_phase_rad (state_after r) = 27 * pi / 25"
    by blast
  have lo: "- (2 * pi) < d_rem_carr_phase_rad (demo_tracking_doppler 1540)"
    and hi: "d_rem_carr_phase_rad (demo_tracking_doppler 1540) < 2 * pi"
    by (simp_all add: demo_doppler_scalars)
  have "0 \<le> d_rem_carr_phase_rad (state_after r)
      \<and> d_rem_carr_phase_rad (state_after r) < 2 * pi"
    using rem_carr_phase_range[OF r lo hi] v(1) by (simp add: demo_doppler_scalars)
  with r v lo hi show ?thesis
    by (simp add: demo_doppler_scalars)
qed

text \<open>
  Claim C3 as the spec states it fails. A channel with zero intermediate frequency is
  started on an acquisition with a Doppler of \<open>- 1540\<close> Hz. After the pull-in block
  the remainder is zero; after the first tracking block it is
  \<open>fmod(- 3.08\<pi>, 2\<pi>) = - 1.08\<pi>\<close>, which is negative.
\<close>

theorem rem_carr_phase_negative_counterexample:
  "run demo_components [demo_items_doppler (- 1540), demo_items_doppler (- 1540)]
     (demo_started_doppler (- 1540)) \<noteq> None
   \<and> d_if_freq (demo_started_doppler (- 1540)) = 0
   \<and> d_carrier_doppler_hz (demo_started_doppler (- 1540)) = - 1540
   \<and> d_rem_carr_phase_rad
        (the (run demo_components [demo_items_doppler (- 1540), demo_items_doppler (- 1540)]
                (demo_started_doppler (- 1540)))) = - (27 * pi / 25)
   \<and> d_rem_carr_phase_rad
        (the (run demo_components [demo_items_doppler (- 1540), demo_items_doppler (- 1540)]
                (demo_started_doppler (- 1540)))) < 0"
proof -
  from demo_receding_block obtain r where
    r: "general_work demo_components (demo_items_doppler (- 1540))
          (demo_tracking_doppler (- 1540)) = Some r"
    and v: "d_rem_carr_phase_rad (state_after r) = - (27 * pi / 25)"
    by blast
  have "general_work demo_components (demo_items_doppler (- 1540))
          (demo_started_doppler (- 1540))
        = Some (pull_in_alignment (demo_items_doppler (- 1540)) (demo_started_doppler (- 1540)))"
    by (simp add: general_work_def demo_started_doppler_def start_tracking_def Let_def)
  with r have run:
    "run demo_components [demo_items_doppler (- 1540), demo_items_doppler (- 1540)]
       (demo_started_doppler (- 1540)) = Some (state_after r)"
    by (simp add: demo_tracking_doppler_def[symmetric])
  have "d_if_freq (demo_started_doppler (- 1540)) = 0"
    "d_carrier_doppler_hz (demo_started_doppler (- 1540)) = - 1540"
    by (simp_all add: demo_started_doppler_def start_tracking_def Let_def demo_defs
        demo_acquisition_doppler_def)
  with v show ?thesis unfolding run by simp
qed

subsection \<open>The code phase remainder\<close>

text \<open>
  Claim C10. After a completed tracking block the absolute code phase is the \<^verbatim>\<open>fmod\<close>
  by the code length of the old phase plus the chips of the block, and
  \<open>d_rem_code_phase_samples\<close> is recomputed from it: the code length minus the phase,
  less one code length when that exceeds half the code length, times
  \<open>fs_in / GPS_L1_CA_CODE_RATE_HZ\<close>. For a positive sampling rate and a block length,
  code frequency and old phase that are not negative, the remainder in chips lies in
  \<open>(- 511.5, 511.5]\<close>, so the remainder in samples is bounded by half a code period
  in samples.
\<close>

theorem rem_code_phase_recomputed:
  assumes r: "general_work ext inp s = Some r"
    and en: "d_enable_tracking s" and npi: "\<not> d_pull_in s"
    and u: "update_local_code ext s = Some s1"
    and nn: "\<not> isnan (fst (d_Prompt (correlate ext inp s1)))"
            "\<not> isnan (snd (d_Prompt (correlate ext inp s1)))"
    and fs: "0 < d_fs_in s"
    and n: "0 \<le> d_current_prn_length_samples s"
    and f: "0 \<le> d_code_freq_chips s"
    and cp: "0 \<le> d_code_phase_chips s"
    and rem_chips:
      "rem_chips =
         (if GPS_L1_CA_CODE_LENGTH_CHIPS - d_code_phase_chips (state_after r)
               > GPS_L1_CA_CODE_LENGTH_CHIPS / 2
          then GPS_L1_CA_CODE_LENGTH_CHIPS - d_code_phase_chips (state_after r)
                 - GPS_L1_CA_CODE_LENGTH_CHIPS
          else GPS_L1_CA_CODE_LENGTH_CHIPS - d_code_phase_chips (state_after r))"
  shows "d_code_phase_chips (state_after r)
           = c_fmod (d_code_phase_chips s
                     + real_of_int (d_current_prn_length_samples s) / real_of_int (d_fs_in s)
                         * d_code_freq_chips s)
                    GPS_L1_CA_CODE_LENGTH_CHIPS
       \<and> d_rem_code_phase_samples (state_after r)
           = rem_chips * real_of_int (d_fs_in s) / GPS_L1_CA_CODE_RATE_HZ
       \<and> - (GPS_L1_CA_CODE_LENGTH_CHIPS / 2) < rem_chips
       \<and> rem_chips \<le> GPS_L1_CA_CODE_LENGTH_CHIPS / 2
       \<and> \<bar>d_rem_code_phase_samples (state_after r)\<bar>
           \<le> GPS_L1_CA_CODE_LENGTH_CHIPS / 2 * real_of_int (d_fs_in s) / GPS_L1_CA_CODE_RATE_HZ"
proof -
  note fl = tracking_block_fields[OF r en npi u nn]
  define x where "x = d_code_phase_chips s
      + real_of_int (d_current_prn_length_samples s) / real_of_int (d_fs_in s)
          * d_code_freq_chips s"
  have "0 \<le> real_of_int (d_current_prn_length_samples s) / real_of_int (d_fs_in s)
              * d_code_freq_chips s"
    using fs n f by simp
  with cp have x: "0 \<le> x" by (simp add: x_def)
  have cp': "d_code_phase_chips (state_after r) = c_fmod x 1023"
    by (simp add: fl(5) x_def GPS_L1_CA_CODE_LENGTH_CHIPS_def)
  from c_fmod_nonneg[OF x, of 1023] have b: "0 \<le> c_fmod x 1023" "c_fmod x 1023 < 1023"
    by simp_all
  have rc: "rem_chips = (if 1023 - c_fmod x 1023 > 1023 / 2 then - c_fmod x 1023
                         else 1023 - c_fmod x 1023)"
    by (simp add: rem_chips cp' GPS_L1_CA_CODE_LENGTH_CHIPS_def)
  with b have rb: "- (1023 / 2) < rem_chips" "rem_chips \<le> 1023 / 2"
    by (simp_all split: if_splits)
  have rs: "d_rem_code_phase_samples (state_after r)
              = rem_chips * real_of_int (d_fs_in s) / GPS_L1_CA_CODE_RATE_HZ"
    by (simp only: fl(6) rem_chips)
  from rb have "\<bar>rem_chips\<bar> \<le> 1023 / 2" by simp
  with fs have "\<bar>rem_chips\<bar> * real_of_int (d_fs_in s) \<le> 1023 / 2 * real_of_int (d_fs_in s)"
    by (intro mult_right_mono) simp_all
  with fs have "\<bar>rem_chips * real_of_int (d_fs_in s) / 1023000\<bar>
                  \<le> 1023 / 2 * real_of_int (d_fs_in s) / 1023000"
    by (simp add: abs_mult)
  with rs rb cp' show ?thesis
    by (simp add: x_def GPS_L1_CA_CODE_LENGTH_CHIPS_def GPS_L1_CA_CODE_RATE_HZ_def)
qed

theorem rem_code_phase_recomputed_witness:
  "general_work demo_components (demo_items_doppler 1540) (demo_tracking_doppler 1540) \<noteq> None
   \<and> 0 < d_fs_in (demo_tracking_doppler 1540)
   \<and> 0 \<le> d_current_prn_length_samples (demo_tracking_doppler 1540)
   \<and> 0 \<le> d_code_freq_chips (demo_tracking_doppler 1540)
   \<and> 0 \<le> d_code_phase_chips (demo_tracking_doppler 1540)
   \<and> d_code_phase_chips (state_after (the (general_work demo_components
         (demo_items_doppler 1540) (demo_tracking_doppler 1540)))) = 1 / 1000
   \<and> d_rem_code_phase_samples (state_after (the (general_work demo_components
         (demo_items_doppler 1540) (demo_tracking_doppler 1540)))) = - (1 / 250)
   \<and> \<bar>d_rem_code_phase_samples (state_after (the (general_work demo_components
         (demo_items_doppler 1540) (demo_tracking_doppler 1540))))\<bar> \<le> 2046"
proof -
  let ?s = "demo_tracking_doppler 1540"
  let ?i = "demo_items_doppler 1540"
  from demo_approaching_block obtain r s1 where
    r: "general_work demo_components ?i ?s = Some r"
    and u: "update_local_code demo_components ?s = Some s1"
    and v: "d_code_phase_chips (state_after r) = 1 / 1000"
    by blast
  have en: "d_enable_tracking ?s" and npi: "\<not> d_pull_in ?s"
    and nn: "\<not> isnan (fst (d_Prompt (correlate demo_components ?i s1)))"
            "\<not> isnan (snd (d_Prompt (correlate demo_components ?i s1)))"
    and h: "0 < d_fs_in ?s" "0 \<le> d_current_prn_length_samples ?s"
           "0 \<le> d_code_freq_chips ?s" "0 \<le> d_code_phase_chips ?s"
    by (simp_all add: demo_doppler_scalars demo_doppler_defs demo_doppler_prompt)
  from rem_code_phase_recomputed[OF r en npi u nn h refl]
  have main: "d_rem_code_phase_samples (state_after r) = - (1 / 250)
      \<and> \<bar>d_rem_code_phase_samples (state_after r)\<bar> \<le> 2046"
    by (simp add: v demo_doppler_scalars gps_constants)
  from r have the: "the (general_work demo_components ?i ?s) = r" by simp
  from r have "general_work demo_components ?i ?s \<noteq> None" by simp
  with main v h show ?thesis unfolding the by blast
qed

subsection \<open>The length of the next block\<close>

text \<open>
  Claim C2, as amended. After a completed tracking block (with a code frequency
  estimate other than zero) the length chosen for the next block is the rounding of
  one code period at the new code frequency estimate plus the code phase remainder:
  it is within half a sample of \<open>fs_in \<times> 1023 / code_freq_chips +
  rem_code_phase_samples\<close>. It is therefore within one sample of the code period alone
  when the remainder is at most half a sample in size, and not in general (see the
  counterexample).
\<close>

theorem next_block_length:
  assumes r: "general_work ext inp s = Some r"
    and en: "d_enable_tracking s" and npi: "\<not> d_pull_in s"
    and u: "update_local_code ext s = Some s1"
    and nn: "\<not> isnan (fst (d_Prompt (correlate ext inp s1)))"
            "\<not> isnan (snd (d_Prompt (correlate ext inp s1)))"
    and f: "d_code_freq_chips (state_after r) \<noteq> 0"
  shows "\<bar>real_of_int (d_current_prn_length_samples (state_after r))
           - (real_of_int (d_fs_in s) * GPS_L1_CA_CODE_LENGTH_CHIPS
                / d_code_freq_chips (state_after r)
              + d_rem_code_phase_samples (state_after r))\<bar> \<le> 1 / 2
       \<and> (\<bar>d_rem_code_phase_samples (state_after r)\<bar> \<le> 1 / 2
            \<longrightarrow> block_length_error (state_after r) \<le> 1)"
proof -
  note fl = tracking_block_fields[OF r en npi u nn]
  define T where "T = real_of_int (d_fs_in s) * GPS_L1_CA_CODE_LENGTH_CHIPS
                        / d_code_freq_chips (state_after r)"
  have T: "T_prn_samples (state_after r) = T"
    by (simp add: T_prn_samples_def T_def fl(1))
  have "\<bar>real_of_int (c_round (T + d_rem_code_phase_samples (state_after r)))
          - (T + d_rem_code_phase_samples (state_after r))\<bar> \<le> 1 / 2"
    by (rule c_round_error)
  then have a: "\<bar>real_of_int (d_current_prn_length_samples (state_after r))
                  - (T + d_rem_code_phase_samples (state_after r))\<bar> \<le> 1 / 2"
    using fl(7) T by simp
  then have "\<bar>real_of_int (d_current_prn_length_samples (state_after r)) - T\<bar> \<le> 1"
    if "\<bar>d_rem_code_phase_samples (state_after r)\<bar> \<le> 1 / 2"
    using that by linarith
  moreover have "block_length_error (state_after r)
      = \<bar>real_of_int (d_current_prn_length_samples (state_after r)) - T\<bar>"
    by (simp add: block_length_error_def T_def fl(1))
  ultimately show ?thesis using a unfolding T_def by simp
qed

theorem next_block_length_witness:
  "general_work demo_components (demo_items_doppler 1540) (demo_tracking_doppler 1540) \<noteq> None
   \<and> d_code_freq_chips (state_after (the (general_work demo_components
         (demo_items_doppler 1540) (demo_tracking_doppler 1540)))) = 1023001
   \<and> d_current_prn_length_samples (state_after (the (general_work demo_components
         (demo_items_doppler 1540) (demo_tracking_doppler 1540)))) = 4092
   \<and> \<bar>d_rem_code_phase_samples (state_after (the (general_work demo_components
         (demo_items_doppler 1540) (demo_tracking_doppler 1540))))\<bar> \<le> 1 / 2
   \<and> block_length_error (state_after (the (general_work demo_components
         (demo_items_doppler 1540) (demo_tracking_doppler 1540)))) \<le> 1"
proof -
  let ?s = "demo_tracking_doppler 1540"
  let ?i = "demo_items_doppler 1540"
  from demo_approaching_block obtain r s1 where
    r: "general_work demo_components ?i ?s = Some r"
    and u: "update_local_code demo_components ?s = Some s1"
    and v: "d_code_freq_chips (state_after r) = 1023001"
           "d_rem_code_phase_samples (state_after r) = - (1 / 250)"
           "d_current_prn_length_samples (state_after r) = 4092"
    by blast
  have en: "d_enable_tracking ?s" and npi: "\<not> d_pull_in ?s"
    and nn: "\<not> isnan (fst (d_Prompt (correlate demo_components ?i s1)))"
            "\<not> isnan (snd (d_Prompt (correlate demo_components ?i s1)))"
    by (simp_all add: demo_doppler_scalars demo_doppler_prompt)
  have f: "d_code_freq_chips (state_after r) \<noteq> 0" by (simp add: v)
  have small: "\<bar>d_rem_code_phase_samples (state_after r)\<bar> \<le> 1 / 2" by (simp add: v)
  from next_block_length[OF r en npi u nn f] small
  have "block_length_error (state_after r) \<le> 1"
    by blast
  with r v(1,3) small show ?thesis by simp
qed

text \<open>
  Claim C2 as the spec states it fails. The channel sampled at 4.0005 MHz starts
  tracking with blocks of 4001 samples for a code period of 4000.5 samples. Two blocks
  with a NaN correlation advance the code phase by 4001 samples each without choosing
  a new block length; the clean block that follows leaves a remainder of \<open>- 1.5\<close>
  samples and chooses 3999 samples, 1.5 samples from the code period.
\<close>

theorem next_block_length_counterexample:
  "map_option block_length_error
     (run demo_components [drift_items, drift_nan_items, drift_nan_items, drift_items]
        drift_started) = Some (3 / 2)
   \<and> map_option d_current_prn_length_samples
       (run demo_components [drift_items, drift_nan_items, drift_nan_items, drift_items]
          drift_started) = Some 3999
   \<and> map_option d_rem_code_phase_samples
       (run demo_components [drift_items, drift_nan_items, drift_nan_items, drift_items]
          drift_started) = Some (- (3 / 2))"
proof -
  from drift_nan_step[OF drift_tracking_start] obtain r1 where
    r1: "general_work demo_components drift_nan_items drift_tracking = Some r1"
    and d1: "drifting (state_after r1) 1" by auto
  from drift_nan_step[OF d1] obtain r2 where
    r2: "general_work demo_components drift_nan_items (state_after r1) = Some r2"
    and d2: "drifting (state_after r2) 2" by auto
  from drift_final_step[OF d2] obtain r3 where
    r3: "general_work demo_components drift_items (state_after r2) = Some r3"
    and v: "d_current_prn_length_samples (state_after r3) = 3999"
           "d_fs_in (state_after r3) = 4000500"
           "d_code_freq_chips (state_after r3) = 1023000"
           "d_rem_code_phase_samples (state_after r3) = - (3 / 2)"
    by blast
  have run: "run demo_components [drift_items, drift_nan_items, drift_nan_items, drift_items]
               drift_started = Some (state_after r3)"
    by (simp add: drift_pull_in r1 r2 r3 drift_tracking_def[symmetric])
  show ?thesis
    unfolding run
    by (simp add: v block_length_error_def GPS_L1_CA_CODE_LENGTH_CHIPS_def)
qed

subsection \<open>Construction\<close>

text \<open>
  Claim C9, as amended. The constructor tests none of its arguments. Whenever the two
  loop filters take their bandwidths, it produces a tracking object, whatever the
  sampling rate and the early-late spacing are: the object stores the arguments as
  they are, its first block length is the vector length read as a signed 32-bit
  number, tracking is disabled and no pull-in is pending. It fails only where a
  bandwidth setter does.
\<close>

theorem constructor_accepts:
  assumes "set_DLL_BW ext (new_DLL_filter ext) dll_bw_hz = Some df"
    and "set_PLL_BW ext (new_PLL_filter ext) pll_bw_hz = Some pf"
  shows "\<exists>s. Gps_L1_Ca_Dll_Pll_Tracking_cc ext if_freq fs_in vector_length queue dump
            dump_filename pll_bw_hz dll_bw_hz early_late_space_chips = Inr s
      \<and> d_if_freq s = if_freq \<and> d_fs_in s = fs_in \<and> d_vector_length s = vector_length
      \<and> d_early_late_spc_chips s = early_late_space_chips
      \<and> d_queue s = queue
      \<and> d_carrier_loop_filter s = pf \<and> d_code_loop_filter s = df
      \<and> d_current_prn_length_samples s = sint vector_length
      \<and> length (d_early_code s) = unat (2 * vector_length)
      \<and> length (d_prompt_code s) = unat (2 * vector_length)
      \<and> length (d_late_code s) = unat (2 * vector_length)
      \<and> \<not> d_enable_tracking s \<and> \<not> d_pull_in s"
  using assms by (simp add: Gps_L1_Ca_Dll_Pll_Tracking_cc_def)

theorem constructor_accepts_witness:
  "set_DLL_BW demo_components (new_DLL_filter demo_components) 2 = Some 0
   \<and> set_PLL_BW demo_components (new_PLL_filter demo_components) 50 = Some 0
   \<and> (\<exists>s. Gps_L1_Ca_Dll_Pll_Tracking_cc demo_components 0 (- 4092000) 2147483648 None False []
             50 2 (- 1) = Inr s
        \<and> d_fs_in s = - 4092000 \<and> d_early_late_spc_chips s = - 1
        \<and> d_current_prn_length_samples s = - 2147483648
        \<and> length (d_early_code s) = 0
        \<and> \<not> d_enable_tracking s)"
proof -
  have d: "set_DLL_BW demo_components (new_DLL_filter demo_components) 2 = Some 0"
    and p: "set_PLL_BW demo_components (new_PLL_filter demo_components) 50 = Some 0"
    by (simp_all add: demo_components_def)
  from constructor_accepts[OF d p, of 0 "- 4092000" 2147483648 None False "[]" "- 1"]
  obtain s where s:
    "Gps_L1_Ca_Dll_Pll_Tracking_cc demo_components 0 (- 4092000) 2147483648 None False []
       50 2 (- 1) = Inr s"
    "d_fs_in s = - 4092000" "d_early_late_spc_chips s = - 1"
    "d_current_prn_length_samples s = sint (2147483648 :: 32 word)"
    "length (d_early_code s) = unat (2 * 2147483648 :: 32 word)"
    "\<not> d_enable_tracking s"
    by blast
  have "sint (2147483648 :: 32 word) = - 2147483648" by simp
  moreover have "unat (2 * 2147483648 :: 32 word) = 0" by simp
  ultimately show ?thesis using d p s by auto
qed

text \<open>
  Claim C9 as the spec states it fails. With bandwidths of 50 Hz and 2 Hz, which the
  loop filters of the example take, a sampling rate of zero and a spacing of two
  chips are accepted, and so is a negative sampling rate.
\<close>

theorem constructor_rejects_counterexample:
  "\<not> isl (Gps_L1_Ca_Dll_Pll_Tracking_cc demo_components 0 0 4092 (Some []) False []
            50 2 2)
   \<and> d_fs_in (projr (Gps_L1_Ca_Dll_Pll_Tracking_cc demo_components 0 0 4092 (Some []) False []
                       50 2 2)) = 0
   \<and> d_early_late_spc_chips
        (projr (Gps_L1_Ca_Dll_Pll_Tracking_cc demo_components 0 0 4092 (Some []) False []
                  50 2 2)) = 2
   \<and> \<not> isl (Gps_L1_Ca_Dll_Pll_Tracking_cc demo_components 0 (- 1) 4092 (Some []) False []
              50 2 (1 / 2))"
  by (simp add: Gps_L1_Ca_Dll_Pll_Tracking_cc_def demo_components_def)

end
